theory Spec2Isabelle
  imports Complex_Main "HOL-Library.Word" "HOL-Library.Signed_Division"
begin

section \<open>Tree supports: a shallow embedding of TreeSupport.cpp\<close>

text \<open>
  The development follows \<^verbatim>\<open>src/libslic3r/TreeSupport.cpp\<close>. Functions of that file are
  translated one by one and keep their names. What the file only calls (the polygon clipper,
  the volume oracle \<^verbatim>\<open>TreeModelVolumes\<close>, the methods of \<^verbatim>\<open>TreeSupportSettings\<close>) is
  passed in as a parameter, so that every statement holds for whatever those callees compute.
\<close>

subsection \<open>Points, polygons and line information\<close>

text \<open>
  \<^verbatim>\<open>coord_t\<close> is a signed 32-bit integer: \<^verbatim>\<open>validate_range\<close> compares it with an
  \<^verbatim>\<open>int32_t\<close> bound and \<^verbatim>\<open>move_inside\<close> widens differences of coordinates with
  \<^verbatim>\<open>cast<int64_t>()\<close> before multiplying them. A word is read as two's complement by
  \<open>sint\<close>; \<open><s\<close> is the signed comparison; sums and differences of words wrap around.
\<close>

type_synonym coord_t = "32 word"
type_synonym Point = "coord_t \<times> coord_t"
type_synonym Polygon = "Point list"
type_synonym Polygons = "Polygon list"
type_synonym Polyline = "Point list"
type_synonym Polylines = "Polyline list"

datatype LineStatus =
    INVALID
  | TO_MODEL
  | TO_MODEL_GRACIOUS
  | TO_MODEL_GRACIOUS_SAFE
  | TO_BP
  | TO_BP_SAFE

type_synonym LineInformation = "(Point \<times> LineStatus) list"
type_synonym LineInformations = "LineInformation list"

text \<open>
  What ends a computation early: the exception that \<^verbatim>\<open>validate_range\<close> throws, and the
  trap of an integer division by zero.
\<close>

datatype error = clipperException string | division_by_zero

subsection \<open>Coordinate validation\<close>

text \<open>\<^verbatim>\<open>static constexpr const int32_t hi = 65536 * 16384;\<close>\<close>

definition hi :: coord_t where
  "hi = 65536 * 16384"

text \<open>
  \<^verbatim>\<open>validate_range(const Point &pt)\<close>: the four comparisons in the order of the source;
  \<open>Inl\<close> is the exception. The negations \<^verbatim>\<open>-pt.x()\<close> and \<^verbatim>\<open>-pt.y()\<close> are negations
  of a signed \<^verbatim>\<open>int\<close>, which do not wrap around: they are taken in the integers. That
  differs from the negation of the word only at the most negative coordinate, whose negation
  C++ leaves undefined; there the comparison is evaluated as \<^verbatim>\<open>pt.x() < -hi\<close>, which holds.
\<close>

definition validate_range :: "Point \<Rightarrow> error + unit" where
  "validate_range pt =
     (if hi <s fst pt \<or> hi <s snd pt \<or> sint hi < - sint (fst pt) \<or> sint hi < - sint (snd pt)
      then Inl (clipperException ''Coordinate outside allowed range'')
      else Inr ())"




fun validate_range_LineInformation :: "LineInformation \<Rightarrow> error + unit" where
  "validate_range_LineInformation [] = Inr ()"
| "validate_range_LineInformation (p # ps) =
     (case validate_range (fst p) of Inl e \<Rightarrow> Inl e
      | Inr u \<Rightarrow> validate_range_LineInformation ps)"

fun validate_range_LineInformations :: "LineInformations \<Rightarrow> error + unit" where
  "validate_range_LineInformations [] = Inr ()"
| "validate_range_LineInformations (l # ls) =
     (case validate_range_LineInformation l of Inl e \<Rightarrow> Inl e
      | Inr u \<Rightarrow> validate_range_LineInformations ls)"



subsection \<open>The polygon clipper\<close>

text \<open>
  The clipper (\<^verbatim>\<open>ClipperUtils.hpp\<close>, \<^verbatim>\<open>Polygon.hpp\<close>, \<^verbatim>\<open>BoundingBox.hpp\<close>) is not part of
  the translated file. Its operations are the fields of a record that every translated
  function receives. \<open>offset\<close> is \<^verbatim>\<open>offset(polygons, delta, jtMiter, 1.2)\<close>, \<open>offset_round\<close>
  is \<^verbatim>\<open>offset(polygons, delta, jtRound, scaled(0.01))\<close>, \<open>offset_polylines\<close> the overload on
  polylines, \<open>clip_with_bbox\<close> is \<^verbatim>\<open>clip_clipper_polygons_with_subject_bbox\<close>,
  \<open>merge_extents\<close> is \<^verbatim>\<open>BoundingBox::merge\<close>, \<open>union_polys\<close> is \<^verbatim>\<open>union_\<close>, the binary union (the unary one passes \<open>[]\<close>),
  \<open>scaled\<close> the conversion from millimetres to coordinate units. Areas and distances in
  \<^verbatim>\<open>double\<close> are taken as real numbers.
\<close>

type_synonym BoundingBox = "Point \<times> Point"

record clipper =
  union_polys :: "Polygons \<Rightarrow> Polygons \<Rightarrow> Polygons"
  intersection :: "Polygons \<Rightarrow> Polygons \<Rightarrow> Polygons"
  diff :: "Polygons \<Rightarrow> Polygons \<Rightarrow> Polygons"
  diff_clipped :: "Polygons \<Rightarrow> Polygons \<Rightarrow> Polygons"
  offset :: "Polygons \<Rightarrow> real \<Rightarrow> Polygons"
  offset_round :: "Polygons \<Rightarrow> real \<Rightarrow> Polygons"
  offset_polylines :: "Polylines \<Rightarrow> real \<Rightarrow> Polygons"
  clip_with_bbox :: "Polygons \<Rightarrow> BoundingBox \<Rightarrow> Polygons"
  to_polylines :: "Polygons \<Rightarrow> Polylines"
  polygons_simplify :: "Polygons \<Rightarrow> real \<Rightarrow> Polygons"
  smooth_outward :: "Polygons \<Rightarrow> real \<Rightarrow> Polygons"
  area :: "Polygons \<Rightarrow> real"
  contains :: "Polygons \<Rightarrow> Point \<Rightarrow> bool"
  get_extents :: "Polygons \<Rightarrow> BoundingBox"
  merge_extents :: "BoundingBox \<Rightarrow> BoundingBox \<Rightarrow> BoundingBox"
  scaled :: "real \<Rightarrow> real"
  SCALED_EPSILON :: int

text \<open>\<^verbatim>\<open>tiny_area_threshold = sqr(scaled<double>(0.001))\<close>\<close>

definition tiny_area_threshold :: "clipper \<Rightarrow> real" where
  "tiny_area_threshold g = (scaled g 0.001)\<^sup>2"

text \<open>
  \<^verbatim>\<open>safe_union(first, second)\<close>: the plain union, and when that comes out empty the union
  of the line-ified inputs offset by 0.002 mm. Empty input gives the empty result.
\<close>

definition safe_union :: "clipper \<Rightarrow> Polygons \<Rightarrow> Polygons \<Rightarrow> Polygons" where
  "safe_union g first second =
     (if first \<noteq> [] \<or> second \<noteq> [] then
        (let result = union_polys g first second in
         if result = [] then
           union_polys g (offset_polylines g (to_polylines g first) (scaled g 0.002))
                    (offset_polylines g (to_polylines g second) (scaled g 0.002))
         else result)
      else [])"

subsection \<open>The finalizer: interface preference\<close>

datatype InterfacePreference =
    InterfaceAreaOverwritesSupport
  | SupportAreaOverwritesInterface
  | InterfaceLinesOverwriteSupport
  | SupportLinesOverwriteInterface
  | Nothing

text \<open>
  The body of the layer loop of \<^verbatim>\<open>finalize_interface_and_support_areas\<close> up to the
  interface preference. \<open>src\<close> is \<^verbatim>\<open>support_roof_storage[layer_idx]\<close>; \<open>support_roof\<close> is
  \<^verbatim>\<open>top_contacts[layer_idx]\<close>, \<open>None\<close> for the null pointer, otherwise the polygons of
  the layer.
\<close>

definition support_roof_polygons_of ::
  "clipper \<Rightarrow> Polygons \<Rightarrow> Polygons option \<Rightarrow> Polygons" where
  "support_roof_polygons_of g src support_roof =
     (if src \<noteq> [] then
        (case support_roof of
           Some polys \<Rightarrow> if polys \<noteq> [] then union_polys g src polys else src
         | None \<Rightarrow> src)
      else
        (case support_roof of Some polys \<Rightarrow> polys | None \<Rightarrow> []))"

text \<open>
  \<^verbatim>\<open>base_layer_polygons\<close>: the stored branch polygons, unioned, smoothed outward by the
  support line width and simplified when there are any.
\<close>

definition base_layer_polygons_of ::
  "clipper \<Rightarrow> real \<Rightarrow> real \<Rightarrow> Polygons \<Rightarrow> Polygons" where
  "base_layer_polygons_of g support_line_width resolution storage =
     (if storage \<noteq> [] then
        polygons_simplify g (smooth_outward g (union_polys g storage []) support_line_width)
          (min (scaled g 0.03) resolution)
      else storage)"

text \<open>
  The \<^verbatim>\<open>switch (interface_pref)\<close>, entered when both polygon sets are non-empty. The result is
  the pair (roof, base). The two line-based preferences hit \<^verbatim>\<open>assert(false)\<close> and fall
  through to \<^verbatim>\<open>Nothing\<close>; with assertions compiled out they change nothing.
\<close>

definition apply_interface_pref ::
  "clipper \<Rightarrow> InterfacePreference \<Rightarrow> Polygons \<Rightarrow> Polygons \<Rightarrow> Polygons \<times> Polygons" where
  "apply_interface_pref g interface_pref support_roof_polygons base_layer_polygons =
     (if support_roof_polygons \<noteq> [] \<and> base_layer_polygons \<noteq> [] then
        (case interface_pref of
           InterfaceAreaOverwritesSupport \<Rightarrow>
             (support_roof_polygons, diff g base_layer_polygons support_roof_polygons)
         | SupportAreaOverwritesInterface \<Rightarrow>
             (diff g support_roof_polygons base_layer_polygons, base_layer_polygons)
         | InterfaceLinesOverwriteSupport \<Rightarrow> (support_roof_polygons, base_layer_polygons)
         | SupportLinesOverwriteInterface \<Rightarrow> (support_roof_polygons, base_layer_polygons)
         | Nothing \<Rightarrow> (support_roof_polygons, base_layer_polygons))
      else (support_roof_polygons, base_layer_polygons))"

definition finalize_interface_layer ::
  "clipper \<Rightarrow> InterfacePreference \<Rightarrow> real \<Rightarrow> real \<Rightarrow> Polygons \<Rightarrow> Polygons option \<Rightarrow>
     Polygons \<Rightarrow> Polygons \<times> Polygons" where
  "finalize_interface_layer g interface_pref support_line_width resolution src support_roof storage =
     apply_interface_pref g interface_pref
       (support_roof_polygons_of g src support_roof)
       (base_layer_polygons_of g support_line_width resolution storage)"

subsection \<open>A clipper on axis-parallel rectangles\<close>

text \<open>
  For running the translated functions on concrete inputs: a clipper that reads every
  polygon as its axis-parallel bounding rectangle. It is exact on rectangles for
  intersection, containment, area, extents and the mitred offset; union is exact for
  rectangles that are equal or disjoint, difference for rectangles that are disjoint from the
  subtrahend; the round offset returns the rectangle enclosing the rounded one. The extents of
  the empty set are the degenerate box at the origin. The scale is \<open>10\<^sup>6\<close> units per
  millimetre.
\<close>

type_synonym box = "int \<times> int \<times> int \<times> int"

definition point_box :: "Point \<Rightarrow> box" where
  "point_box p = (sint (fst p), sint (snd p), sint (fst p), sint (snd p))"

definition box_join :: "box \<Rightarrow> box \<Rightarrow> box" where
  "box_join a b =
     (case a of (ax0, ay0, ax1, ay1) \<Rightarrow> case b of (bx0, by0, bx1, by1) \<Rightarrow>
        (min ax0 bx0, min ay0 by0, max ax1 bx1, max ay1 by1))"

definition box_meet :: "box \<Rightarrow> box \<Rightarrow> box" where
  "box_meet a b =
     (case a of (ax0, ay0, ax1, ay1) \<Rightarrow> case b of (bx0, by0, bx1, by1) \<Rightarrow>
        (max ax0 bx0, max ay0 by0, min ax1 bx1, min ay1 by1))"

definition box_proper :: "box \<Rightarrow> bool" where
  "box_proper a = (case a of (x0, y0, x1, y1) \<Rightarrow> x0 < x1 \<and> y0 < y1)"

definition box_grow :: "int \<Rightarrow> box \<Rightarrow> box" where
  "box_grow d a = (case a of (x0, y0, x1, y1) \<Rightarrow> (x0 - d, y0 - d, x1 + d, y1 + d))"

definition box_area :: "box \<Rightarrow> int" where
  "box_area a = (case a of (x0, y0, x1, y1) \<Rightarrow> (x1 - x0) * (y1 - y0))"

definition box_has :: "box \<Rightarrow> Point \<Rightarrow> bool" where
  "box_has a p = (case a of (x0, y0, x1, y1) \<Rightarrow>
     x0 \<le> sint (fst p) \<and> sint (fst p) \<le> x1 \<and> y0 \<le> sint (snd p) \<and> sint (snd p) \<le> y1)"

definition box_polygon :: "box \<Rightarrow> Polygon" where
  "box_polygon a = (case a of (x0, y0, x1, y1) \<Rightarrow>
     [(word_of_int x0, word_of_int y0), (word_of_int x1, word_of_int y0),
      (word_of_int x1, word_of_int y1), (word_of_int x0, word_of_int y1)])"

fun boxes_of :: "Point list list \<Rightarrow> box list" where
  "boxes_of [] = []"
| "boxes_of ([] # ps) = boxes_of ps"
| "boxes_of ((p # poly) # ps) =
     fold (\<lambda>q b. box_join b (point_box q)) poly (point_box p) # boxes_of ps"

definition polygons_of :: "box list \<Rightarrow> Polygons" where
  "polygons_of bs = map box_polygon (filter box_proper bs)"

definition box_diff :: "Polygons \<Rightarrow> Polygons \<Rightarrow> Polygons" where
  "box_diff a b =
     polygons_of (filter (\<lambda>r. \<forall>q \<in> set (boxes_of b). \<not> box_proper (box_meet r q)) (boxes_of a))"

definition box_offset :: "Polygons \<Rightarrow> real \<Rightarrow> Polygons" where
  "box_offset a d = polygons_of (map (box_grow \<lfloor>d\<rfloor>) (boxes_of a))"

definition box_of_extents :: "BoundingBox \<Rightarrow> box" where
  "box_of_extents bb =
     (sint (fst (fst bb)), sint (snd (fst bb)), sint (fst (snd bb)), sint (snd (snd bb)))"

definition box_clipper :: clipper where
  "box_clipper = \<lparr>
     union_polys = (\<lambda>a b. polygons_of (remdups (boxes_of a @ boxes_of b))),
     intersection =
       (\<lambda>a b. polygons_of (concat (map (\<lambda>r. map (box_meet r) (boxes_of b)) (boxes_of a)))),
     diff = box_diff,
     diff_clipped = box_diff,
     offset = box_offset,
     offset_round = box_offset,
     offset_polylines = box_offset,
     clip_with_bbox =
       (\<lambda>a bb. polygons_of (filter (\<lambda>r. box_proper (box_meet r (box_of_extents bb)))
          (boxes_of a))),
     to_polylines = map (\<lambda>poly. case poly of [] \<Rightarrow> [] | p # ps \<Rightarrow> poly @ [p]),
     polygons_simplify = (\<lambda>a d. a),
     smooth_outward = (\<lambda>a d. a),
     area = (\<lambda>a. real_of_int (sum_list (map box_area (boxes_of a)))),
     contains = (\<lambda>a p. \<exists>r \<in> set (boxes_of a). box_has r p),
     get_extents =
       (\<lambda>a. case boxes_of a of [] \<Rightarrow> ((0, 0), (0, 0))
             | r # rs \<Rightarrow> (case fold box_join rs r of (x0, y0, x1, y1) \<Rightarrow>
                 ((word_of_int x0, word_of_int y0), (word_of_int x1, word_of_int y1)))),
     merge_extents =
       (\<lambda>a b. if b = ((0, 0), (0, 0)) then a else if a = ((0, 0), (0, 0)) then b
              else (case box_join (box_of_extents a) (box_of_extents b) of (x0, y0, x1, y1) \<Rightarrow>
                 ((word_of_int x0, word_of_int y0), (word_of_int x1, word_of_int y1)))),
     scaled = (\<lambda>x. x * 1000000),
     SCALED_EPSILON = 100 \<rparr>"

text \<open>The square with centre \<open>(cx, cy)\<close> and half side \<open>h\<close>.\<close>

definition square :: "int \<Rightarrow> int \<Rightarrow> int \<Rightarrow> Polygon" where
  "square cx cy h = box_polygon (cx - h, cy - h, cx + h, cy + h)"

subsection \<open>Support elements\<close>

datatype AvoidanceType = Slow | FastSafe | Fast

record AreaIncreaseSettings =
  type :: AvoidanceType
  increase_speed :: int
  increase_radius :: bool
  no_error :: bool
  use_min_distance :: bool
  move :: bool

record SupportElementState =
  target_height :: int
  target_position :: Point
  next_position :: Point
  layer_idx :: int
  effective_radius_height :: nat
  to_buildplate :: bool
  distance_to_top :: nat
  result_on_layer :: "Point option"
  increased_to_model_radius :: int
  to_model_gracious :: bool
  elephant_foot_increases :: real
  use_min_xy_dist :: bool
  supports_roof :: bool
  dont_move_until :: nat
  can_use_safe_radius :: bool
  missing_roof_layers :: nat
  skip_ovalisation :: bool
  last_area_increase :: AreaIncreaseSettings
  deleted :: bool
  marked :: bool

record SupportElement =
  state :: SupportElementState
  parents :: "int list"
  influence_area :: Polygons

record SupportElementInfluenceAreas =
  influence_areas :: Polygons
  to_bp_areas :: Polygons
  to_model_areas :: Polygons

record SupportElementMerging =
  state :: SupportElementState
  parents :: "int list"
  areas :: SupportElementInfluenceAreas
  bbox_data :: BoundingBox

subsection \<open>The volume oracle and the settings\<close>

record TreeModelVolumes =
  getCollision :: "int \<Rightarrow> int \<Rightarrow> bool \<Rightarrow> Polygons"
  getAvoidance :: "int \<Rightarrow> int \<Rightarrow> AvoidanceType \<Rightarrow> bool \<Rightarrow> bool \<Rightarrow> Polygons"
  getPlaceableAreas :: "int \<Rightarrow> int \<Rightarrow> Polygons"
  getWallRestriction :: "int \<Rightarrow> int \<Rightarrow> bool \<Rightarrow> Polygons"
  ceilRadius :: "int \<Rightarrow> bool \<Rightarrow> int"

record TreeSupportSettings =
  maximum_move_distance :: int
  maximum_move_distance_slow :: int
  tip_layers :: nat
  support_rests_on_model :: bool
  min_dtt_to_model :: nat
  max_to_model_radius_increase :: int
  increase_radius_until_radius :: int
  xy_distance :: int
  xy_min_distance :: int
  z_distance_top_layers :: nat
  z_distance_bottom_layers :: nat
  min_feature_size :: int
  min_radius :: int
  branch_radius :: int
  layer_start_bp_radius :: int
  support_line_width :: int
  diameter_scale_bp_radius :: real
  diameter_angle_scale_factor :: real
  getRadius :: "nat \<Rightarrow> real \<Rightarrow> int"
  getRadius_of :: "SupportElementState \<Rightarrow> int"
  getCollisionRadius :: "SupportElementState \<Rightarrow> int"
  recommendedMinRadius :: "int \<Rightarrow> int"

text \<open>
  \<^verbatim>\<open>round_up_divide(dividend, divisor)\<close> of the utilities is
  \<^verbatim>\<open>(dividend + divisor - 1) / divisor\<close>; on \<^verbatim>\<open>size_t\<close> and on \<^verbatim>\<open>coord_t\<close>, where the
  division truncates.
\<close>

definition round_up_divide :: "nat \<Rightarrow> nat \<Rightarrow> nat" where
  "round_up_divide dividend divisor = (dividend + divisor - 1) div divisor"

definition round_up_divide_coord :: "int \<Rightarrow> int \<Rightarrow> int" where
  "round_up_divide_coord dividend divisor = (dividend + divisor - 1) sdiv divisor"

definition truncate :: "real \<Rightarrow> int" where
  "truncate x = (if 0 \<le> x then \<lfloor>x\<rfloor> else \<lceil>x\<rceil>)"

subsection \<open>Offsetting in safe steps\<close>

definition inflated :: "BoundingBox \<Rightarrow> int \<Rightarrow> BoundingBox" where
  "inflated bb d =
     ((fst (fst bb) - word_of_int d, snd (fst bb) - word_of_int d),
      (fst (snd bb) + word_of_int d, snd (snd bb) + word_of_int d))"

definition collision_trimmed ::
  "clipper \<Rightarrow> Polygons \<Rightarrow> int \<Rightarrow> Polygons \<Rightarrow> Polygons \<Rightarrow> Polygons" where
  "collision_trimmed g collision distance ret collision_trimmed_buffer =
     (if collision_trimmed_buffer = [] \<and> collision \<noteq> [] then
        clip_with_bbox g collision
          (inflated (get_extents g ret) (max 0 distance + SCALED_EPSILON g))
      else collision_trimmed_buffer)"

fun offset_in_steps ::
  "clipper \<Rightarrow> Polygons \<Rightarrow> int \<Rightarrow> int \<Rightarrow> nat \<Rightarrow> nat \<Rightarrow> Polygons \<times> Polygons \<Rightarrow>
     Polygons \<times> Polygons" where
  "offset_in_steps g collision distance step_size i 0 (ret, buf) = (ret, buf)"
| "offset_in_steps g collision distance step_size i (Suc n) (ret, buf) =
     (let buf' = collision_trimmed g collision distance ret buf;
          ret' = diff g (offset_round g ret (real_of_int step_size)) buf';
          ret'' = (if i mod 10 = 7 then polygons_simplify g ret' (scaled g 0.015) else ret')
      in offset_in_steps g collision distance step_size (Suc i) n (ret'', buf'))"

text \<open>
  \<^verbatim>\<open>safe_offset_inc\<close>. Coordinates and step counts are integers here. Where the source
  mixes them with the \<^verbatim>\<open>size_t\<close> \<^verbatim>\<open>min_amount_offset\<close>, the signed operand is converted to 64
  unsigned bits first (\<open>to_size_t\<close>) and the unsigned result back to 32 signed bits
  (\<open>to_coord\<close>). The divisions by \<^verbatim>\<open>step_size\<close> are divisions of \<^verbatim>\<open>int\<close>; the program
  traps in them when the step size is 0, where \<open>sdiv\<close> and \<open>smod\<close> give 0 and the dividend.
\<close>

definition to_size_t :: "int \<Rightarrow> int" where
  "to_size_t x = x mod 2 ^ 64"

definition to_coord :: "int \<Rightarrow> int" where
  "to_coord x = sint (word_of_int x :: 32 word)"

definition safe_offset_inc ::
  "clipper \<Rightarrow> Polygons \<Rightarrow> int \<Rightarrow> Polygons \<Rightarrow> int \<Rightarrow> int \<Rightarrow> nat \<Rightarrow> Polygons" where
  "safe_offset_inc g me distance collision safe_step_size last_step_offset_without_check
       min_amount_offset =
     (let do_final_difference = (last_step_offset_without_check = 0);
          ret = safe_union g me []
      in
      if distance = 0 \<or> safe_step_size < 0 \<or> last_step_offset_without_check < 0 then
        (if do_final_difference then diff g ret (collision_trimmed g collision distance ret [])
         else union_polys g ret [])
      else
        (let step_size = safe_step_size;
             steps = (if distance > last_step_offset_without_check
                      then (distance - last_step_offset_without_check) sdiv step_size else 0);
             more = (distance - steps * step_size > last_step_offset_without_check);
             steps1 = (if more \<and> (steps + 1) * step_size \<le> distance then steps + 1 else steps);
             do_final_difference1 =
               (if more \<and> \<not> (steps + 1) * step_size \<le> distance then True
                else do_final_difference);
             few = (to_size_t (steps1 + (if distance < last_step_offset_without_check \<or>
                                            distance smod step_size \<noteq> 0 then 1 else 0))
                      < int min_amount_offset \<and> min_amount_offset > 1);
             reduced = to_coord (to_size_t distance div int min_amount_offset);
             step_size2 = (if few then
                             (if reduced \<ge> safe_step_size then safe_step_size else reduced)
                           else step_size);
             steps2 = (if few then
                         (if reduced \<ge> safe_step_size
                          then to_coord (int min_amount_offset)
                          else distance sdiv reduced)
                       else steps1);
             (ret1, buf1) =
               offset_in_steps g collision distance step_size2 0 (nat steps2) (ret, []);
             ret2 = (if real_of_int (distance - steps2 * step_size2) > real_of_int (SCALED_EPSILON g)
                     then offset_round g ret1 (real_of_int (distance - steps2 * step_size2))
                     else ret1);
             ret3 = polygons_simplify g ret2 (scaled g 0.015);
             ret4 = (if do_final_difference1
                     then diff g ret3 (collision_trimmed g collision distance ret3 buf1)
                     else ret3)
         in union_polys g ret4 []))"

subsection \<open>Influence propagation: one element, one layer\<close>

text \<open>
  \<^verbatim>\<open>increase_single_area\<close> is passed in by its outcome: for a setting, the pre-offset area,
  the overspeed and the current contents of \<^verbatim>\<open>to_bp_data\<close> and \<^verbatim>\<open>to_model_data\<close> it gives
  the optional child state and the new contents of \<^verbatim>\<open>to_bp_data\<close>, \<^verbatim>\<open>to_model_data\<close>
  and \<^verbatim>\<open>increased\<close>.
\<close>

type_synonym increase_single_area_fn =
  "AreaIncreaseSettings \<Rightarrow> Polygons \<Rightarrow> int \<Rightarrow> Polygons \<times> Polygons \<Rightarrow>
     SupportElementState option \<times> Polygons \<times> Polygons \<times> Polygons"

definition safe_movement_distance_of :: "TreeSupportSettings \<Rightarrow> SupportElementState \<Rightarrow> int" where
  "safe_movement_distance_of config elem =
     (if use_min_xy_dist elem then xy_min_distance config else xy_distance config) +
     (if min (z_distance_top_layers config) (z_distance_bottom_layers config) > 0
      then min_feature_size config else 0)"

text \<open>The pair \<^verbatim>\<open>(extra_speed, extra_slow_speed)\<close>.\<close>

definition extra_speeds ::
  "TreeModelVolumes \<Rightarrow> TreeSupportSettings \<Rightarrow> int \<Rightarrow> SupportElementState \<Rightarrow>
     SupportElementState \<Rightarrow> int \<times> int" where
  "extra_speeds volumes config layer parent_state elem =
     (let ceiled_parent_radius =
            ceilRadius volumes (getCollisionRadius config parent_state) (use_min_xy_dist parent_state);
          projected_radius_increased =
            getRadius config (effective_radius_height parent_state + 1)
              (elephant_foot_increases parent_state);
          projected_radius_delta = projected_radius_increased - getCollisionRadius config parent_state;
          guaranteed =
            (ceiled_parent_radius =
               ceilRadius volumes projected_radius_increased (use_min_xy_dist parent_state) \<or>
             projected_radius_increased < increase_radius_until_radius config);
          extra_speed = (if guaranteed then 5 + projected_radius_delta else 5);
          extra_slow_speed =
            (if guaranteed then 0
             else min projected_radius_delta
                    ((maximum_move_distance config + extra_speed) -
                     (maximum_move_distance_slow config + 0)))
      in
      if layer_start_bp_radius config > layer \<and>
         recommendedMinRadius config (layer - 1) <
           getRadius config (effective_radius_height elem + 1) (elephant_foot_increases elem)
      then
        (if ceiled_parent_radius =
              ceilRadius volumes
                (getRadius config (effective_radius_height parent_state + 1)
                   (elephant_foot_increases parent_state + 1))
                (use_min_xy_dist parent_state)
         then (truncate (real_of_int extra_speed +
                 real_of_int (branch_radius config) * diameter_scale_bp_radius config),
               extra_slow_speed)
         else (extra_speed,
               extra_slow_speed +
                 min (truncate (real_of_int (branch_radius config) * diameter_scale_bp_radius config))
                   (maximum_move_distance config -
                    (maximum_move_distance_slow config + extra_slow_speed))))
      else (extra_speed, extra_slow_speed))"

definition insertSetting ::
  "AreaIncreaseSettings list \<Rightarrow> AreaIncreaseSettings \<Rightarrow> bool \<Rightarrow> AreaIncreaseSettings list" where
  "insertSetting order settings back =
     (if settings \<in> set order then order
      else if back then order @ [settings] else settings # order)"

definition mk_settings ::
  "AvoidanceType \<Rightarrow> int \<Rightarrow> bool \<Rightarrow> bool \<Rightarrow> bool \<Rightarrow> bool \<Rightarrow> AreaIncreaseSettings" where
  "mk_settings t speed inc_radius noerr use_min mv =
     \<lparr> type = t, increase_speed = speed, increase_radius = inc_radius, no_error = noerr,
       use_min_distance = use_min, move = mv \<rparr>"

text \<open>
  The order in which settings are tried. \<open>placeable_empty\<close> is
  \<^verbatim>\<open>intersection(parent.influence_area, volumes.getPlaceableAreas(radius, layer_idx)).empty()\<close>.
\<close>

definition settings_order ::
  "TreeSupportSettings \<Rightarrow> SupportElementState \<Rightarrow> bool \<Rightarrow> bool \<Rightarrow> int \<Rightarrow> int \<Rightarrow>
     AreaIncreaseSettings list" where
  "settings_order config elem mergelayer placeable_empty slow_speed fast_speed =
     (let last = last_area_increase elem;
          parent_moved_slow = increase_speed last < maximum_move_distance config;
          avoidance_speed_mismatch = (parent_moved_slow \<and> type last \<noteq> Slow);
          back = (\<lambda>order settings. insertSetting order settings True);
          order1 =
            (if move last \<and> no_error last \<and> can_use_safe_radius elem \<and> \<not> mergelayer \<and>
                \<not> avoidance_speed_mismatch \<and>
                (distance_to_top elem \<ge> tip_layers config \<or> parent_moved_slow)
             then foldl back []
                    [mk_settings (type last) (if parent_moved_slow then slow_speed else fast_speed)
                       True (no_error last) False (move last),
                     mk_settings (type last) (if parent_moved_slow then slow_speed else fast_speed)
                       False (no_error last) False (move last)]
             else []);
          order2 =
            (if \<not> can_use_safe_radius elem then
               foldl back order1
                 ([mk_settings Slow slow_speed True True False False] @
                  (if distance_to_top elem < round_up_divide (tip_layers config) 2
                   then [mk_settings Fast slow_speed True True False False] else []) @
                  [mk_settings FastSafe fast_speed True True False False,
                   mk_settings FastSafe fast_speed False True False True,
                   mk_settings Fast fast_speed False True False True])
             else
               foldl back order1
                 ([mk_settings Slow slow_speed True True False True,
                   mk_settings Slow slow_speed False True False True] @
                  (if distance_to_top elem < tip_layers config
                   then [mk_settings FastSafe slow_speed True True False True] else []) @
                  [mk_settings FastSafe fast_speed True True False True,
                   mk_settings FastSafe fast_speed False True False True]));
          order3 =
            (if use_min_xy_dist elem
             then concat (map (\<lambda>settings. [settings, settings \<lparr> use_min_distance := True \<rparr>]) order2)
             else order2);
          order4 =
            (if to_buildplate elem \<or> (to_model_gracious elem \<and> placeable_empty)
             then back order3 (mk_settings Fast fast_speed False False (use_min_xy_dist elem) True)
             else order3)
      in
      if distance_to_top elem < dont_move_until elem \<and> can_use_safe_radius elem
      then insertSetting order4 (mk_settings Slow 0 True True False False) False
      else order4)"

text \<open>What the loop does with a setting that succeeded: the child state and \<^verbatim>\<open>bypass_merge\<close>.\<close>

definition accept_setting ::
  "TreeSupportSettings \<Rightarrow> SupportElementState \<Rightarrow> AreaIncreaseSettings \<Rightarrow> SupportElementState \<Rightarrow>
     SupportElementState \<times> bool" where
  "accept_setting config parent_state settings result =
     (let elem1 = result \<lparr> last_area_increase := settings \<rparr>;
          bypass_merge =
            (\<not> move settings \<or>
             (use_min_distance settings \<and> distance_to_top elem1 < tip_layers config));
          elem2 = (if move settings then elem1 \<lparr> dont_move_until := 0 \<rparr>
                   else elem1 \<lparr> result_on_layer := result_on_layer parent_state \<rparr>);
          elem3 = elem2 \<lparr> can_use_safe_radius := (type settings \<noteq> Fast) \<rparr>;
          elem4 = (if \<not> use_min_distance settings then elem3 \<lparr> use_min_xy_dist := False \<rparr>
                   else elem3)
      in (elem4, bypass_merge))"

text \<open>
  One pass of the loop over the order, up to the call of \<^verbatim>\<open>increase_single_area\<close>. The
  state of the loop is \<^verbatim>\<open>(offset_slow, offset_fast, to_bp_data, to_model_data)\<close>; the
  result is the optional child state, \<^verbatim>\<open>inc_wo_collision\<close> and the new state of the loop.
\<close>

type_synonym attempt_state = "Polygons \<times> Polygons \<times> Polygons \<times> Polygons"

definition attempt_setting ::
  "clipper \<Rightarrow> TreeSupportSettings \<Rightarrow> increase_single_area_fn \<Rightarrow> SupportElement \<Rightarrow> Polygons \<Rightarrow>
     int \<Rightarrow> int \<Rightarrow> int \<Rightarrow> int \<Rightarrow> int \<Rightarrow> bool \<Rightarrow> AreaIncreaseSettings \<Rightarrow> attempt_state \<Rightarrow>
     SupportElementState option \<times> Polygons \<times> attempt_state" where
  "attempt_setting g config increase_single_area parent wall_restriction safe_movement_distance
       radius extra_speed extra_slow_speed slow_speed offset_independant_faster settings st =
     (case st of (offset_slow, offset_fast, to_bp_data, to_model_data) \<Rightarrow>
      let offset_slow1 =
            (if move settings \<and> offset_slow = [] \<and>
                (increase_speed settings = slow_speed \<or> \<not> offset_independant_faster)
             then safe_offset_inc g (influence_area parent)
                    (extra_speed + extra_slow_speed + maximum_move_distance_slow config)
                    wall_restriction safe_movement_distance
                    (if offset_independant_faster then safe_movement_distance + radius else 0) 2
             else offset_slow);
          offset_fast1 =
            (if move settings \<and> offset_fast = [] \<and> increase_speed settings \<noteq> slow_speed
             then (if offset_independant_faster
                   then safe_offset_inc g (influence_area parent)
                          (extra_speed + maximum_move_distance config) wall_restriction
                          safe_movement_distance (safe_movement_distance + radius) 1
                   else safe_offset_inc g offset_slow1
                          (maximum_move_distance config -
                           (maximum_move_distance_slow config + extra_slow_speed))
                          wall_restriction safe_movement_distance
                          (safe_movement_distance + radius) 1)
             else offset_fast)
      in
      case (if \<not> no_error settings then
              increase_single_area settings
                (union_polys g (influence_area parent)
                   (offset_polylines g (to_polylines g (influence_area parent)) (scaled g 0.005)))
                (truncate (real_of_int (maximum_move_distance config + extra_speed) * 1.5))
                (to_bp_data, to_model_data)
            else
              increase_single_area settings
                (if increase_speed settings = slow_speed then offset_slow1 else offset_fast1)
                0 (to_bp_data, to_model_data))
      of (result, to_bp_data1, to_model_data1, inc_wo_collision) \<Rightarrow>
        (result, inc_wo_collision, (offset_slow1, offset_fast1, to_bp_data1, to_model_data1)))"

text \<open>
  The loop: the result is \<open>None\<close> when no setting succeeded and otherwise the child state,
  \<^verbatim>\<open>bypass_merge\<close>, \<^verbatim>\<open>inc_wo_collision\<close> and the new \<^verbatim>\<open>radius\<close>; with it come the final
  \<^verbatim>\<open>to_bp_data\<close> and \<^verbatim>\<open>to_model_data\<close>.
\<close>

fun try_settings ::
  "clipper \<Rightarrow> TreeSupportSettings \<Rightarrow> increase_single_area_fn \<Rightarrow> SupportElement \<Rightarrow> Polygons \<Rightarrow>
     int \<Rightarrow> int \<Rightarrow> int \<Rightarrow> int \<Rightarrow> int \<Rightarrow> bool \<Rightarrow> AreaIncreaseSettings list \<Rightarrow> attempt_state \<Rightarrow>
     (SupportElementState \<times> bool \<times> Polygons \<times> int) option \<times> Polygons \<times> Polygons" where
  "try_settings g config increase_single_area parent wall_restriction safe_movement_distance
       radius extra_speed extra_slow_speed slow_speed offset_independant_faster [] st =
     (None, fst (snd (snd st)), snd (snd (snd st)))"
| "try_settings g config increase_single_area parent wall_restriction safe_movement_distance
       radius extra_speed extra_slow_speed slow_speed offset_independant_faster (settings # order)
       st =
     (case attempt_setting g config increase_single_area parent wall_restriction
             safe_movement_distance radius extra_speed extra_slow_speed slow_speed
             offset_independant_faster settings st of
        (Some r, inc_wo_collision, st') \<Rightarrow>
          (case accept_setting config (SupportElement.state parent) settings r of
             (elem, bypass_merge) \<Rightarrow>
               (Some (elem, bypass_merge, inc_wo_collision, getCollisionRadius config r),
                fst (snd (snd st')), snd (snd (snd st'))))
      | (None, inc_wo_collision, st') \<Rightarrow>
          try_settings g config increase_single_area parent wall_restriction
            safe_movement_distance radius extra_speed extra_slow_speed slow_speed
            offset_independant_faster order st')"

text \<open>\<^verbatim>\<open>SupportElementMerging::set_bbox\<close>\<close>

definition set_bbox :: "clipper \<Rightarrow> BoundingBox \<Rightarrow> BoundingBox" where
  "set_bbox g abbox = inflated abbox (SCALED_EPSILON g)"

text \<open>
  The body of the loop of \<^verbatim>\<open>increase_areas_one_layer\<close> for one entry of
  \<^verbatim>\<open>merging_areas\<close>, in two parts: the attempts, and what is stored. \<open>propagate_down\<close> is
  \<^verbatim>\<open>SupportElementState::propagate_down\<close>. The two divisions by
  \<^verbatim>\<open>safe_movement_distance\<close> are divisions of \<^verbatim>\<open>coord_t\<close>; the program traps in them when
  that distance is 0, where \<open>sdiv\<close> gives 0.
\<close>

definition element_attempts ::
  "clipper \<Rightarrow> TreeModelVolumes \<Rightarrow> TreeSupportSettings \<Rightarrow>
     (SupportElementState \<Rightarrow> SupportElementState) \<Rightarrow> increase_single_area_fn \<Rightarrow>
     int \<Rightarrow> bool \<Rightarrow> SupportElement \<Rightarrow>
     (SupportElementState \<times> bool \<times> Polygons \<times> int) option \<times> Polygons \<times> Polygons" where
  "element_attempts g volumes config propagate_down increase_single_area layer mergelayer parent =
     (let elem = propagate_down (SupportElement.state parent);
          wall_restriction =
            getWallRestriction volumes (getCollisionRadius config (SupportElement.state parent))
              layer (use_min_xy_dist (SupportElement.state parent));
          radius = getCollisionRadius config elem;
          (extra_speed, extra_slow_speed) =
            extra_speeds volumes config layer (SupportElement.state parent) elem;
          safe_movement_distance = safe_movement_distance_of config elem;
          fast_speed = maximum_move_distance config + extra_speed;
          slow_speed = maximum_move_distance_slow config + extra_speed + extra_slow_speed;
          order =
            settings_order config elem mergelayer
              (intersection g (influence_area parent) (getPlaceableAreas volumes radius layer) = [])
              slow_speed fast_speed;
          offset_independant_faster =
            (radius sdiv safe_movement_distance -
               (if maximum_move_distance config + extra_speed < radius + safe_movement_distance
                then 1 else 0)
             > round_up_divide_coord
                 (extra_speed + extra_slow_speed + maximum_move_distance_slow config)
                 safe_movement_distance)
      in try_settings g config increase_single_area parent wall_restriction
           safe_movement_distance radius extra_speed extra_slow_speed slow_speed
           offset_independant_faster order ([], [], [], []))"

text \<open>\<^verbatim>\<open>max_influence_area\<close> of the block \<^verbatim>\<open>if (add)\<close>.\<close>

definition max_influence_area_of ::
  "clipper \<Rightarrow> TreeModelVolumes \<Rightarrow> int \<Rightarrow> SupportElementState \<Rightarrow> int \<Rightarrow> Polygons \<Rightarrow>
     Polygons \<Rightarrow> Polygons \<Rightarrow> Polygons" where
  "max_influence_area_of g volumes layer elem radius inc_wo_collision to_bp_data to_model_data =
     safe_union g
       (diff_clipped g inc_wo_collision
          (getCollision volumes radius (layer - 1) (use_min_xy_dist elem)))
       (safe_union g to_bp_data to_model_data)"

text \<open>
  The result is the entry and the state of its parent, whose \<^verbatim>\<open>result_on_layer\<close> is reset
  when no setting succeeded.
\<close>

definition increase_areas_one_layer_element ::
  "clipper \<Rightarrow> TreeModelVolumes \<Rightarrow> TreeSupportSettings \<Rightarrow>
     (SupportElementState \<Rightarrow> SupportElementState) \<Rightarrow> increase_single_area_fn \<Rightarrow>
     int \<Rightarrow> bool \<Rightarrow> SupportElement \<Rightarrow> SupportElementMerging \<Rightarrow>
     SupportElementMerging \<times> SupportElementState" where
  "increase_areas_one_layer_element g volumes config propagate_down increase_single_area layer
       mergelayer parent merging_area =
     (case element_attempts g volumes config propagate_down increase_single_area layer
             mergelayer parent of
        (Some (elem, bypass_merge, inc_wo_collision, radius), to_bp_data, to_model_data) \<Rightarrow>
          (let max_influence_area =
                 max_influence_area_of g volumes layer elem radius inc_wo_collision
                   to_bp_data to_model_data;
               areas1 = (areas merging_area) \<lparr> influence_areas := max_influence_area \<rparr>;
               areas2 = (if \<not> bypass_merge \<and> to_buildplate elem
                         then areas1 \<lparr> to_bp_areas := to_bp_data \<rparr> else areas1);
               areas3 = (if \<not> bypass_merge \<and> support_rests_on_model config
                         then areas2 \<lparr> to_model_areas := to_model_data \<rparr> else areas2)
           in (merging_area \<lparr> SupportElementMerging.state := elem,
                               bbox_data := set_bbox g (get_extents g max_influence_area),
                               areas := areas3 \<rparr>,
               SupportElement.state parent))
      | (None, to_bp_data, to_model_data) \<Rightarrow>
          (merging_area, (SupportElement.state parent) \<lparr> result_on_layer := None \<rparr>))"

text \<open>
  The setting that succeeds: the value of \<^verbatim>\<open>settings\<close> when the loop over the order
  reaches its \<^verbatim>\<open>break\<close>, which is the first setting of the order for which
  \<^verbatim>\<open>increase_single_area\<close> gives a result; \<open>None\<close> when the loop runs to its end.
\<close>

fun successful_setting ::
  "clipper \<Rightarrow> TreeSupportSettings \<Rightarrow> increase_single_area_fn \<Rightarrow> SupportElement \<Rightarrow> Polygons \<Rightarrow>
     int \<Rightarrow> int \<Rightarrow> int \<Rightarrow> int \<Rightarrow> int \<Rightarrow> bool \<Rightarrow> AreaIncreaseSettings list \<Rightarrow> attempt_state \<Rightarrow>
     AreaIncreaseSettings option" where
  "successful_setting g config increase_single_area parent wall_restriction
       safe_movement_distance radius extra_speed extra_slow_speed slow_speed
       offset_independant_faster [] st = None"
| "successful_setting g config increase_single_area parent wall_restriction
       safe_movement_distance radius extra_speed extra_slow_speed slow_speed
       offset_independant_faster (settings # order) st =
     (case attempt_setting g config increase_single_area parent wall_restriction
             safe_movement_distance radius extra_speed extra_slow_speed slow_speed
             offset_independant_faster settings st of
        (Some r, inc_wo_collision, st') \<Rightarrow> Some settings
      | (None, inc_wo_collision, st') \<Rightarrow>
          successful_setting g config increase_single_area parent wall_restriction
            safe_movement_distance radius extra_speed extra_slow_speed slow_speed
            offset_independant_faster order st')"

text \<open>The same for one entry of \<^verbatim>\<open>merging_areas\<close>, with the values that the body computes
  before the loop.\<close>

definition element_successful_setting ::
  "clipper \<Rightarrow> TreeModelVolumes \<Rightarrow> TreeSupportSettings \<Rightarrow>
     (SupportElementState \<Rightarrow> SupportElementState) \<Rightarrow> increase_single_area_fn \<Rightarrow>
     int \<Rightarrow> bool \<Rightarrow> SupportElement \<Rightarrow> AreaIncreaseSettings option" where
  "element_successful_setting g volumes config propagate_down increase_single_area layer
       mergelayer parent =
     (let elem = propagate_down (SupportElement.state parent);
          wall_restriction =
            getWallRestriction volumes (getCollisionRadius config (SupportElement.state parent))
              layer (use_min_xy_dist (SupportElement.state parent));
          radius = getCollisionRadius config elem;
          (extra_speed, extra_slow_speed) =
            extra_speeds volumes config layer (SupportElement.state parent) elem;
          safe_movement_distance = safe_movement_distance_of config elem;
          fast_speed = maximum_move_distance config + extra_speed;
          slow_speed = maximum_move_distance_slow config + extra_speed + extra_slow_speed;
          order =
            settings_order config elem mergelayer
              (intersection g (influence_area parent) (getPlaceableAreas volumes radius layer) = [])
              slow_speed fast_speed;
          offset_independant_faster =
            (radius sdiv safe_movement_distance -
               (if maximum_move_distance config + extra_speed < radius + safe_movement_distance
                then 1 else 0)
             > round_up_divide_coord
                 (extra_speed + extra_slow_speed + maximum_move_distance_slow config)
                 safe_movement_distance)
      in successful_setting g config increase_single_area parent wall_restriction
           safe_movement_distance radius extra_speed extra_slow_speed slow_speed
           offset_independant_faster order ([], [], [], []))"

text \<open>The child state that \<^verbatim>\<open>increase_areas_one_layer\<close> stores in the entry.\<close>

definition stored_child ::
  "clipper \<Rightarrow> TreeModelVolumes \<Rightarrow> TreeSupportSettings \<Rightarrow>
     (SupportElementState \<Rightarrow> SupportElementState) \<Rightarrow> increase_single_area_fn \<Rightarrow>
     int \<Rightarrow> bool \<Rightarrow> SupportElement \<Rightarrow> SupportElementMerging \<Rightarrow> SupportElementState" where
  "stored_child g volumes config propagate_down increase_single_area layer mergelayer parent
       merging_area =
     SupportElementMerging.state
       (fst (increase_areas_one_layer_element g volumes config propagate_down
          increase_single_area layer mergelayer parent merging_area))"

subsection \<open>Layer pathing: placing the finished elements\<close>

text \<open>
  The \<^verbatim>\<open>remove_if\<close> of \<^verbatim>\<open>create_layer_pathing\<close>: an entry without influence area is
  dropped, an entry without \<^verbatim>\<open>to_bp_areas\<close> and \<^verbatim>\<open>to_model_areas\<close> is moved to the
  output layer, the others stay for the merger. The result is (kept entries, output layer).
\<close>

fun place_constructed ::
  "SupportElementMerging list \<Rightarrow> SupportElement list \<Rightarrow>
     SupportElementMerging list \<times> SupportElement list" where
  "place_constructed [] this_layer = ([], this_layer)"
| "place_constructed (elem # rest) this_layer =
     (if influence_areas (areas elem) = [] then place_constructed rest this_layer
      else if to_bp_areas (areas elem) = [] \<and> to_model_areas (areas elem) = [] then
        place_constructed rest
          (this_layer @
             [\<lparr> SupportElement.state = SupportElementMerging.state elem,
                SupportElement.parents = SupportElementMerging.parents elem,
                influence_area = influence_areas (areas elem) \<rparr>])
      else
        (case place_constructed rest this_layer of
           (kept, out) \<Rightarrow> (elem # kept, out)))"

text \<open>The loop that saves what the merger left to the output layer.\<close>

fun save_merged ::
  "clipper \<Rightarrow> SupportElementMerging list \<Rightarrow> SupportElement list \<Rightarrow> SupportElement list" where
  "save_merged g [] this_layer = this_layer"
| "save_merged g (elem # rest) this_layer =
     (if influence_areas (areas elem) \<noteq> [] then
        save_merged g rest
          (this_layer @
             [\<lparr> SupportElement.state = SupportElementMerging.state elem,
                SupportElement.parents = SupportElementMerging.parents elem,
                influence_area = safe_union g (influence_areas (areas elem)) [] \<rparr>])
      else save_merged g rest this_layer)"

subsection \<open>A concrete setting\<close>

definition radius_at :: "nat \<Rightarrow> int" where
  "radius_at dtt = 400000 + 100000 * int dtt"

definition example_config :: TreeSupportSettings where
  "example_config = \<lparr>
     maximum_move_distance = 350000,
     maximum_move_distance_slow = 90000,
     tip_layers = 3,
     support_rests_on_model = True,
     min_dtt_to_model = 5,
     max_to_model_radius_increase = 0,
     increase_radius_until_radius = 2000000,
     xy_distance = 800000,
     xy_min_distance = 400000,
     z_distance_top_layers = 1,
     z_distance_bottom_layers = 1,
     min_feature_size = 100000,
     min_radius = 400000,
     branch_radius = 1000000,
     layer_start_bp_radius = 0,
     support_line_width = 400000,
     diameter_scale_bp_radius = 0,
     diameter_angle_scale_factor = 0,
     getRadius = (\<lambda>dtt foot. radius_at dtt),
     getRadius_of = (\<lambda>s. radius_at (effective_radius_height s)),
     getCollisionRadius = (\<lambda>s. radius_at (effective_radius_height s)),
     recommendedMinRadius = (\<lambda>layer. 0) \<rparr>"

text \<open>A model without obstacles.\<close>

definition example_volumes :: TreeModelVolumes where
  "example_volumes = \<lparr>
     getCollision = (\<lambda>radius layer min_xy. []),
     getAvoidance = (\<lambda>radius layer kind to_model min_xy. []),
     getPlaceableAreas = (\<lambda>radius layer. []),
     getWallRestriction = (\<lambda>radius layer min_xy. []),
     ceilRadius = (\<lambda>radius min_xy. radius) \<rparr>"

definition example_propagate_down :: "SupportElementState \<Rightarrow> SupportElementState" where
  "example_propagate_down s =
     s \<lparr> distance_to_top := distance_to_top s + 1, layer_idx := layer_idx s - 1,
         result_on_layer := None, skip_ovalisation := False \<rparr>"

definition example_state :: SupportElementState where
  "example_state = \<lparr>
     target_height = 10, target_position = (0, 0), next_position = (0, 0), layer_idx = 5,
     effective_radius_height = 5, to_buildplate = True, distance_to_top = 5,
     result_on_layer = None, increased_to_model_radius = 0, to_model_gracious = True,
     elephant_foot_increases = 0, use_min_xy_dist = True, supports_roof = False,
     dont_move_until = 0, can_use_safe_radius = True, missing_roof_layers = 0,
     skip_ovalisation = False,
     last_area_increase = mk_settings Slow 95000 True True True True,
     deleted = False, marked = False \<rparr>"

definition example_parent :: SupportElement where
  "example_parent = \<lparr> SupportElement.state = example_state, SupportElement.parents = [],
     influence_area = [square 0 0 1000000] \<rparr>"

definition example_entry :: SupportElementMerging where
  "example_entry = \<lparr> SupportElementMerging.state = example_state,
     SupportElementMerging.parents = [0],
     areas = \<lparr> influence_areas = [], to_bp_areas = [], to_model_areas = [] \<rparr>,
     bbox_data = ((0, 0), (0, 0)) \<rparr>"

text \<open>
  An outcome of \<^verbatim>\<open>increase_single_area\<close> near a wall: the regular distance leaves no area,
  the minimum distance leaves the whole pre-offset area.
\<close>

definition example_increase :: increase_single_area_fn where
  "example_increase settings relevant_offset overspeed dat =
     (if use_min_distance settings
      then (Some ((example_propagate_down example_state)
                    \<lparr> effective_radius_height := 6 \<rparr>),
            relevant_offset, relevant_offset, relevant_offset)
      else (None, fst dat, snd dat, relevant_offset))"

text \<open>An outcome in the open: every setting leaves the whole pre-offset area.\<close>

definition example_increase_free :: increase_single_area_fn where
  "example_increase_free settings relevant_offset overspeed dat =
     (Some ((example_propagate_down example_state) \<lparr> effective_radius_height := 6 \<rparr>),
      relevant_offset, relevant_offset, relevant_offset)"

text \<open>
  An outcome of \<^verbatim>\<open>increase_single_area\<close> in a narrow place: only the fast avoidance leaves
  an area.
\<close>

definition example_increase_fast :: increase_single_area_fn where
  "example_increase_fast settings relevant_offset overspeed dat =
     (if type settings = Fast
      then (Some ((example_propagate_down example_state)
                    \<lparr> effective_radius_height := 6 \<rparr>),
            relevant_offset, relevant_offset, relevant_offset)
      else (None, fst dat, snd dat, relevant_offset))"

text \<open>A parent at a tip that may not use the safe radius.\<close>

definition example_parent_unsafe :: SupportElement where
  "example_parent_unsafe = example_parent \<lparr> SupportElement.state :=
     example_state \<lparr> can_use_safe_radius := False, distance_to_top := 0,
       use_min_xy_dist := False \<rparr> \<rparr>"

definition example_run :: "SupportElementMerging \<times> SupportElementState" where
  "example_run =
     increase_areas_one_layer_element box_clipper example_volumes example_config
       example_propagate_down example_increase 5 True example_parent example_entry"

definition example_run_tip :: "SupportElementMerging \<times> SupportElementState" where
  "example_run_tip =
     increase_areas_one_layer_element box_clipper example_volumes
       (example_config \<lparr> tip_layers := 10 \<rparr>)
       example_propagate_down example_increase 5 True example_parent example_entry"

subsection \<open>Moving a point into an area\<close>

text \<open>
  \<^verbatim>\<open>(b - a).cast<int64_t>()\<close>: the difference is taken in \<^verbatim>\<open>coord_t\<close> and then widened.
  The 64-bit products and sums of such differences are taken as integers.
\<close>

definition widened_diff :: "Point \<Rightarrow> Point \<Rightarrow> int \<times> int" where
  "widened_diff b a = (sint (fst b - fst a), sint (snd b - snd a))"

definition dot :: "int \<times> int \<Rightarrow> int \<times> int \<Rightarrow> int" where
  "dot u v = fst u * fst v + snd u * snd v"

definition squaredNorm :: "int \<times> int \<Rightarrow> int" where
  "squaredNorm v = dot v v"

text \<open>
  Rounding to \<^verbatim>\<open>double\<close>: to the nearest number with a significand of 53 bits, ties to
  the even one. The range of the exponent is not limited; the numbers that \<^verbatim>\<open>move_inside\<close>
  rounds lie between \<open>2 ^ - 64\<close> and \<open>2 ^ 64\<close>. \<open>bit_length n\<close> is the number of binary
  digits of \<open>n\<close>, \<open>floor_log2 x\<close> the exponent of a positive \<open>x\<close>.
\<close>

function bit_length :: "int \<Rightarrow> int" where
  "bit_length n = (if n \<le> 0 then 0 else 1 + bit_length (n div 2))"
  by pat_completeness auto
termination
  by (relation "measure nat") auto

declare bit_length.simps [simp del]

definition floor_log2 :: "real \<Rightarrow> int" where
  "floor_log2 x =
     (if 1 \<le> x then bit_length \<lfloor>x\<rfloor> - 1 else - bit_length (\<lceil>1 / x\<rceil> - 1))"

definition pow2 :: "int \<Rightarrow> real" where
  "pow2 e = (if 0 \<le> e then 2 ^ nat e else 1 / 2 ^ nat (- e))"

definition round_half_even :: "real \<Rightarrow> int" where
  "round_half_even m =
     (if m - real_of_int \<lfloor>m\<rfloor> < 1 / 2 then \<lfloor>m\<rfloor>
      else if m - real_of_int \<lfloor>m\<rfloor> > 1 / 2 then \<lfloor>m\<rfloor> + 1
      else if even \<lfloor>m\<rfloor> then \<lfloor>m\<rfloor> else \<lfloor>m\<rfloor> + 1)"

definition fl :: "real \<Rightarrow> real" where
  "fl x =
     (if x = 0 then 0
      else sgn x * real_of_int (round_half_even (\<bar>x\<bar> / pow2 (floor_log2 \<bar>x\<bar> - 52))) *
             pow2 (floor_log2 \<bar>x\<bar> - 52))"

text \<open>
  \<^verbatim>\<open>dist2 < bestDist2\<close> compares an \<^verbatim>\<open>int64_t\<close> with a \<^verbatim>\<open>double\<close>, so \<^verbatim>\<open>dist2\<close> is
  rounded first, as it is when it is stored in \<^verbatim>\<open>bestDist2\<close>; \<open>None\<close> is the initial
  \<^verbatim>\<open>numeric_limits<double>::max()\<close>.
\<close>

definition closer :: "int \<Rightarrow> real option \<Rightarrow> bool" where
  "closer dist2 bestDist2 =
     (case bestDist2 of None \<Rightarrow> True | Some b \<Rightarrow> fl (real_of_int dist2) < b)"

text \<open>
  \<^verbatim>\<open>move_inside(polygons, from)\<close> with the default arguments \<^verbatim>\<open>distance = 0\<close> and
  \<^verbatim>\<open>maxDist2 = numeric_limits<int64_t>::max()\<close>, which is how
  \<^verbatim>\<open>move_inside_if_outside\<close> calls it. The state of the loops is
  \<^verbatim>\<open>(p0, p1, projected_p_beyond_prev_segment, ret, bestDist2, bestPoly)\<close>. In the projection
  \<^verbatim>\<open>a + (ab.cast<double>() * (double(dot_prod) / double(ab_length2))).cast<coord_t>()\<close> the
  two conversions of 64-bit integers, the quotient and the two products are rounded; the
  components of \<^verbatim>\<open>ab\<close> are differences of coordinates and convert exactly. The cast to
  \<^verbatim>\<open>coord_t\<close> truncates.
\<close>

type_synonym move_state = "Point \<times> Point \<times> bool \<times> Point \<times> real option \<times> nat option"

definition projection_factor :: "int \<Rightarrow> int \<Rightarrow> real" where
  "projection_factor dot_prod ab_length2 =
     fl (fl (real_of_int dot_prod) / fl (real_of_int ab_length2))"

fun move_inside_segments :: "Point \<Rightarrow> nat \<Rightarrow> Point list \<Rightarrow> move_state \<Rightarrow> move_state" where
  "move_inside_segments from poly_idx [] st = st"
| "move_inside_segments from poly_idx (p2 # ps) (p0, p1, beyond, ret, bestDist2, bestPoly) =
     (let ab = widened_diff p2 p1;
          ap = widened_diff from p1;
          ab_length2 = squaredNorm ab;
          dot_prod = dot ab ap
      in
      if ab_length2 \<le> 0 then
        move_inside_segments from poly_idx ps (p0, p2, beyond, ret, bestDist2, bestPoly)
      else if dot_prod \<le> 0 then
        (if beyond \<and> closer (squaredNorm (widened_diff p1 from)) bestDist2 then
           move_inside_segments from poly_idx ps
             (p1, p2, False, p1, Some (fl (real_of_int (squaredNorm (widened_diff p1 from)))),
              Some poly_idx)
         else
           move_inside_segments from poly_idx ps (p1, p2, False, ret, bestDist2, bestPoly))
      else if dot_prod \<ge> ab_length2 then
        move_inside_segments from poly_idx ps (p1, p2, True, ret, bestDist2, bestPoly)
      else
        (let x = (fst p1 + word_of_int (truncate (fl (real_of_int (fst ab) *
                     projection_factor dot_prod ab_length2))),
                  snd p1 + word_of_int (truncate (fl (real_of_int (snd ab) *
                     projection_factor dot_prod ab_length2))))
         in
         if closer (squaredNorm (widened_diff from x)) bestDist2 then
           move_inside_segments from poly_idx ps
             (p1, p2, False, x, Some (fl (real_of_int (squaredNorm (widened_diff from x)))),
              Some poly_idx)
         else
           move_inside_segments from poly_idx ps (p1, p2, False, ret, bestDist2, bestPoly)))"

fun move_inside_polygons ::
  "Point \<Rightarrow> nat \<Rightarrow> Polygons \<Rightarrow> Point \<times> real option \<times> nat option \<Rightarrow>
     Point \<times> real option \<times> nat option" where
  "move_inside_polygons from poly_idx [] best = best"
| "move_inside_polygons from poly_idx (poly # polys) (ret, bestDist2, bestPoly) =
     (if length poly < 2 then
        move_inside_polygons from (Suc poly_idx) polys (ret, bestDist2, bestPoly)
      else
        (let p0 = poly ! (length poly - 2);
             p1 = last poly;
             beyond = (dot (widened_diff p1 p0) (widened_diff from p0)
                         \<ge> squaredNorm (widened_diff p1 p0))
         in case move_inside_segments from poly_idx poly
                   (p0, p1, beyond, ret, bestDist2, bestPoly) of
              (p0', p1', beyond', ret', bestDist2', bestPoly') \<Rightarrow>
                move_inside_polygons from (Suc poly_idx) polys (ret', bestDist2', bestPoly')))"

text \<open>The result is the new value of \<^verbatim>\<open>from\<close> and the returned index (\<open>None\<close> for -1).\<close>

definition move_inside :: "Polygons \<Rightarrow> Point \<Rightarrow> Point \<times> nat option" where
  "move_inside polygons from =
     (case move_inside_polygons from 0 polygons (from, None, None) of
        (ret, Some bestDist2, bestPoly) \<Rightarrow>
          if bestDist2 < 2 ^ 63 then (ret, bestPoly) else (from, None)
      | (ret, None, bestPoly) \<Rightarrow> (from, None))"

definition move_inside_if_outside :: "clipper \<Rightarrow> Polygons \<Rightarrow> Point \<Rightarrow> Point" where
  "move_inside_if_outside g polygons from =
     (if \<not> contains g polygons from then fst (move_inside polygons from) else from)"

subsection \<open>The merger\<close>

text \<open>The order of the enumeration \<^verbatim>\<open>AvoidanceType\<close>, which \<^verbatim>\<open>std::min\<close> compares.\<close>

fun avoidance_rank :: "AvoidanceType \<Rightarrow> nat" where
  "avoidance_rank Slow = 0"
| "avoidance_rank FastSafe = 1"
| "avoidance_rank Fast = 2"

definition min_type :: "AvoidanceType \<Rightarrow> AvoidanceType \<Rightarrow> AvoidanceType" where
  "min_type a b = (if avoidance_rank b < avoidance_rank a then b else a)"

text \<open>
  \<^verbatim>\<open>merge_support_element_states\<close>. \<open>blank\<close> is the default-constructed state, which
  supplies the fields that the function does not assign.
\<close>

definition merge_support_element_states ::
  "TreeSupportSettings \<Rightarrow> SupportElementState \<Rightarrow> SupportElementState \<Rightarrow> SupportElementState \<Rightarrow>
     Point \<Rightarrow> int \<Rightarrow> SupportElementState" where
  "merge_support_element_states config blank first second next_pos layer =
     (let out1 = blank \<lparr>
            next_position := next_pos,
            layer_idx := layer,
            use_min_xy_dist := use_min_xy_dist first \<or> use_min_xy_dist second,
            supports_roof := supports_roof first \<or> supports_roof second,
            dont_move_until := max (dont_move_until first) (dont_move_until second),
            can_use_safe_radius := can_use_safe_radius first \<or> can_use_safe_radius second,
            missing_roof_layers := min (missing_roof_layers first) (missing_roof_layers second),
            skip_ovalisation := False,
            target_height := (if target_height first > target_height second
                              then target_height first else target_height second),
            target_position := (if target_height first > target_height second
                                then target_position first else target_position second),
            effective_radius_height :=
              max (effective_radius_height first) (effective_radius_height second),
            distance_to_top := max (distance_to_top first) (distance_to_top second),
            to_buildplate := to_buildplate first \<and> to_buildplate second,
            to_model_gracious := to_model_gracious first \<and> to_model_gracious second,
            elephant_foot_increases := 0 \<rparr>;
          out2 =
            (if diameter_scale_bp_radius config > 0 then
               out1 \<lparr> elephant_foot_increases :=
                 real_of_int \<bar>max (getCollisionRadius config second)
                                 (getCollisionRadius config first) -
                               getCollisionRadius config out1\<bar> /
                 (real_of_int (branch_radius config) *
                    (diameter_scale_bp_radius config - diameter_angle_scale_factor config)) \<rparr>
             else out1)
      in out2 \<lparr> last_area_increase :=
           \<lparr> type = min_type (type (last_area_increase first)) (type (last_area_increase second)),
             increase_speed = min (increase_speed (last_area_increase first))
                                  (increase_speed (last_area_increase second)),
             increase_radius = (increase_radius (last_area_increase first) \<or>
                                increase_radius (last_area_increase second)),
             no_error = (no_error (last_area_increase first) \<or>
                         no_error (last_area_increase second)),
             use_min_distance = (use_min_distance (last_area_increase first) \<and>
                                 use_min_distance (last_area_increase second)),
             move = (move (last_area_increase first) \<or> move (last_area_increase second)) \<rparr> \<rparr>)"

text \<open>\<^verbatim>\<open>Eigen::AlignedBox::intersects\<close>, on signed coordinates.\<close>

definition bbox_intersects :: "BoundingBox \<Rightarrow> BoundingBox \<Rightarrow> bool" where
  "bbox_intersects a b \<longleftrightarrow>
     fst (fst a) \<le>s fst (snd b) \<and> snd (fst a) \<le>s snd (snd b) \<and>
     fst (fst b) \<le>s fst (snd a) \<and> snd (fst b) \<le>s snd (snd a)"

text \<open>The names that \<^verbatim>\<open>merge_influence_areas_two_elements\<close> gives to its two arguments.\<close>

definition dst_radius_bigger ::
  "TreeSupportSettings \<Rightarrow> SupportElementMerging \<Rightarrow> SupportElementMerging \<Rightarrow> bool" where
  "dst_radius_bigger config dst src \<longleftrightarrow>
     getCollisionRadius config (SupportElementMerging.state dst) >
     getCollisionRadius config (SupportElementMerging.state src)"

definition smaller_rad ::
  "TreeSupportSettings \<Rightarrow> SupportElementMerging \<Rightarrow> SupportElementMerging \<Rightarrow> SupportElementMerging"
  where "smaller_rad config dst src = (if dst_radius_bigger config dst src then src else dst)"

definition bigger_rad ::
  "TreeSupportSettings \<Rightarrow> SupportElementMerging \<Rightarrow> SupportElementMerging \<Rightarrow> SupportElementMerging"
  where "bigger_rad config dst src = (if dst_radius_bigger config dst src then dst else src)"

definition real_radius_delta ::
  "TreeSupportSettings \<Rightarrow> SupportElementMerging \<Rightarrow> SupportElementMerging \<Rightarrow> int" where
  "real_radius_delta config dst src =
     \<bar>getRadius_of config (SupportElementMerging.state (bigger_rad config dst src)) -
      getRadius_of config (SupportElementMerging.state (smaller_rad config dst src))\<bar>"

definition merging_to_bp :: "SupportElementMerging \<Rightarrow> SupportElementMerging \<Rightarrow> bool" where
  "merging_to_bp dst src \<longleftrightarrow>
     to_buildplate (SupportElementMerging.state dst) \<and>
     to_buildplate (SupportElementMerging.state src)"

text \<open>The accumulator \<^verbatim>\<open>increased_to_model_radius\<close> after the block \<^verbatim>\<open>if (! merging_to_bp)\<close>.\<close>

definition increased_to_model_radius_of ::
  "TreeSupportSettings \<Rightarrow> SupportElementMerging \<Rightarrow> SupportElementMerging \<Rightarrow> int" where
  "increased_to_model_radius_of config dst src =
     (let d = SupportElementMerging.state dst;
          s = SupportElementMerging.state src;
          rdst = getRadius_of config d;
          rsrc = getRadius_of config s
      in
      if \<not> merging_to_bp dst src \<and> to_buildplate d \<noteq> to_buildplate s then
        (if to_buildplate d then
           (if rsrc < rdst then increased_to_model_radius s + rdst - rsrc else 0)
         else
           (if rsrc > rdst then increased_to_model_radius d + rsrc - rdst else 0))
      else 0)"

text \<open>The lambda \<^verbatim>\<open>intersect_small_with_bigger\<close>.\<close>

definition intersect_small_with_bigger ::
  "clipper \<Rightarrow> TreeModelVolumes \<Rightarrow> TreeSupportSettings \<Rightarrow> int \<Rightarrow> SupportElementMerging \<Rightarrow>
     SupportElementMerging \<Rightarrow> Polygons \<Rightarrow> Polygons \<Rightarrow> Polygons" where
  "intersect_small_with_bigger g volumes config layer dst src small bigger =
     (let sm = SupportElementMerging.state (smaller_rad config dst src);
          bg = SupportElementMerging.state (bigger_rad config dst src);
          use_min_radius = (use_min_xy_dist bg \<and> use_min_xy_dist sm);
          smaller_collision_radius = getCollisionRadius config sm;
          collision = getCollision volumes smaller_collision_radius (layer - 1) use_min_radius
      in intersection g
           (safe_offset_inc g small (real_radius_delta config dst src) collision
              (2 * (xy_distance config + smaller_collision_radius - 3)) 0 0)
           bigger)"

text \<open>The polygons \<^verbatim>\<open>intersect\<close>.\<close>

definition merge_intersect ::
  "clipper \<Rightarrow> TreeModelVolumes \<Rightarrow> TreeSupportSettings \<Rightarrow> int \<Rightarrow> SupportElementMerging \<Rightarrow>
     SupportElementMerging \<Rightarrow> Polygons" where
  "merge_intersect g volumes config layer dst src =
     intersect_small_with_bigger g volumes config layer dst src
       (if merging_to_bp dst src then to_bp_areas (areas (smaller_rad config dst src))
        else to_model_areas (areas (smaller_rad config dst src)))
       (if merging_to_bp dst src then to_bp_areas (areas (bigger_rad config dst src))
        else to_model_areas (areas (bigger_rad config dst src)))"

text \<open>The part of the function after the tests: the merge itself.\<close>

definition do_merge ::
  "clipper \<Rightarrow> TreeModelVolumes \<Rightarrow> TreeSupportSettings \<Rightarrow> SupportElementState \<Rightarrow> int \<Rightarrow>
     SupportElementMerging \<Rightarrow> SupportElementMerging \<Rightarrow> SupportElementMerging \<times> SupportElementMerging"
  where
  "do_merge g volumes config blank layer dst src =
     (let d = SupportElementMerging.state dst;
          s = SupportElementMerging.state src;
          sm = smaller_rad config dst src;
          bg = bigger_rad config dst src;
          intersect = merge_intersect g volumes config layer dst src;
          increased = increased_to_model_radius_of config dst src;
          new_pos = move_inside_if_outside g intersect (next_position d);
          new_state =
            (merge_support_element_states config blank d s new_pos (layer - 1))
              \<lparr> increased_to_model_radius :=
                  (if increased = 0
                   then max (increased_to_model_radius d) (increased_to_model_radius s)
                   else increased) \<rparr>;
          infl =
            safe_union g
              (intersect_small_with_bigger g volumes config layer dst src
                 (influence_areas (areas sm)) (influence_areas (areas bg)))
              intersect;
          to_model =
            (if merging_to_bp dst src \<and> support_rests_on_model config then
               (if to_model_gracious new_state then
                  safe_union g
                    (intersect_small_with_bigger g volumes config layer dst src
                       (to_model_areas (areas sm)) (to_model_areas (areas bg)))
                    intersect
                else infl)
             else []);
          new_areas =
            \<lparr> influence_areas = infl,
              to_bp_areas = (if merging_to_bp dst src then intersect else []),
              to_model_areas =
                (if merging_to_bp dst src
                 then (if support_rests_on_model config then to_model else [])
                 else intersect) \<rparr>;
          bbox =
            merge_extents g
              (merge_extents g (get_extents g (influence_areas new_areas))
                 (get_extents g (to_bp_areas new_areas)))
              (get_extents g (to_model_areas new_areas))
      in (dst \<lparr> SupportElementMerging.parents :=
                  SupportElementMerging.parents dst @ SupportElementMerging.parents src,
                SupportElementMerging.state := new_state,
                areas := new_areas,
                bbox_data := set_bbox g bbox \<rparr>,
          src \<lparr> areas := \<lparr> influence_areas = [], to_bp_areas = [], to_model_areas = [] \<rparr>,
                SupportElementMerging.parents := [] \<rparr>))"

text \<open>
  \<^verbatim>\<open>merge_influence_areas_two_elements(volumes, config, layer_idx, dst, src)\<close>. The result
  is the returned flag and the two elements as the call leaves them.
\<close>

definition merge_influence_areas_two_elements ::
  "clipper \<Rightarrow> TreeModelVolumes \<Rightarrow> TreeSupportSettings \<Rightarrow> SupportElementState \<Rightarrow> int \<Rightarrow>
     SupportElementMerging \<Rightarrow> SupportElementMerging \<Rightarrow>
     bool \<times> SupportElementMerging \<times> SupportElementMerging" where
  "merge_influence_areas_two_elements g volumes config blank layer dst src =
     (let d = SupportElementMerging.state dst;
          s = SupportElementMerging.state src;
          merging_gracious_and_non_gracious = (to_model_gracious d \<noteq> to_model_gracious s);
          merging_min_and_regular_xy = (use_min_xy_dist d \<noteq> use_min_xy_dist s)
      in
      if merging_gracious_and_non_gracious \<or> merging_min_and_regular_xy then (False, dst, src)
      else if \<not> bbox_intersects
                  (inflated (bbox_data (smaller_rad config dst src))
                     (real_radius_delta config dst src))
                  (bbox_data (bigger_rad config dst src))
      then (False, dst, src)
      else if \<not> merging_to_bp dst src \<and> to_buildplate d \<noteq> to_buildplate s \<and>
              increased_to_model_radius_of config dst src > max_to_model_radius_increase config
      then (False, dst, src)
      else if \<not> merging_to_bp dst src \<and> \<not> supports_roof d \<and> \<not> supports_roof s \<and>
              max (distance_to_top s) (distance_to_top d) < min_dtt_to_model config
      then (False, dst, src)
      else if \<not> can_use_safe_radius (SupportElementMerging.state (bigger_rad config dst src)) \<and>
              can_use_safe_radius (SupportElementMerging.state (smaller_rad config dst src))
      then (False, dst, src)
      else if area g (merge_intersect g volumes config layer dst src) \<le> tiny_area_threshold g
      then (False, dst, src)
      else if area g (offset g (merge_intersect g volumes config layer dst src)
                        (scaled g (- 0.025))) \<le> tiny_area_threshold g
      then (False, dst, src)
      else
        (case do_merge g volumes config blank layer dst src of
           (dst', src') \<Rightarrow> (True, dst', src')))"

text \<open>
  Removing the entry at the front of \<open>todo\<close> from an array whose end is the end of
  \<open>todo\<close>: \<^verbatim>\<open>if (j != -- dst_end) *j = std::move(*dst_end);\<close>. The last entry takes the
  place of the removed one.
\<close>

definition fill_from_end :: "'a list \<Rightarrow> 'a list" where
  "fill_from_end rest = (if rest = [] then [] else last rest # butlast rest)"

text \<open>
  \<^verbatim>\<open>merge_influence_areas_leaves\<close>. \<open>leaves_scan\<close> is the inner loop over \<open>j\<close> for a fixed
  \<open>i\<close>: \<open>tested\<close> are the entries between \<open>i\<close> and \<open>j\<close>; \<open>None\<close> means that the loop ran to
  the end without a merge, otherwise the merged entry \<open>i\<close> comes with the entries after it.
\<close>

fun leaves_scan ::
  "(SupportElementMerging \<Rightarrow> SupportElementMerging \<Rightarrow>
      bool \<times> SupportElementMerging \<times> SupportElementMerging) \<Rightarrow>
   SupportElementMerging \<Rightarrow> SupportElementMerging list \<Rightarrow> SupportElementMerging list \<Rightarrow>
   (SupportElementMerging \<times> SupportElementMerging list) option" where
  "leaves_scan merge2 i tested [] = None"
| "leaves_scan merge2 i tested (j # rest) =
     (case merge2 i j of
        (True, i', j') \<Rightarrow> Some (i', tested @ fill_from_end rest)
      | (False, i', j') \<Rightarrow> leaves_scan merge2 i' (tested @ [j']) rest)"

lemma leaves_scan_length:
  "leaves_scan merge2 i tested todo = Some (i', rest') \<Longrightarrow>
     Suc (length rest') = length tested + length todo"
  by (induction merge2 i tested todo rule: leaves_scan.induct)
     (auto simp: fill_from_end_def split: prod.splits bool.splits if_splits)

function leaves_loop ::
  "(SupportElementMerging \<Rightarrow> SupportElementMerging \<Rightarrow>
      bool \<times> SupportElementMerging \<times> SupportElementMerging) \<Rightarrow>
   SupportElementMerging list \<Rightarrow> SupportElementMerging \<Rightarrow> SupportElementMerging list \<Rightarrow>
   SupportElementMerging list" where
  "leaves_loop merge2 done i rest =
     (if rest = [] then done @ [i]
      else
        (case leaves_scan merge2 i [] rest of
           Some (i', rest') \<Rightarrow> leaves_loop merge2 done i' rest'
         | None \<Rightarrow> leaves_loop merge2 (done @ [i]) (hd rest) (tl rest)))"
  by pat_completeness auto

termination
  by (relation "measure (\<lambda>(merge2, done, i, rest). length rest)")
     (auto dest: leaves_scan_length)

declare leaves_loop.simps [simp del]

definition merge_influence_areas_leaves ::
  "(SupportElementMerging \<Rightarrow> SupportElementMerging \<Rightarrow>
      bool \<times> SupportElementMerging \<times> SupportElementMerging) \<Rightarrow>
   SupportElementMerging list \<Rightarrow> SupportElementMerging list" where
  "merge_influence_areas_leaves merge2 bucket =
     (case bucket of [] \<Rightarrow> [] | i # rest \<Rightarrow> leaves_loop merge2 [] i rest)"

text \<open>
  \<^verbatim>\<open>merge_influence_areas_two_sets\<close>. \<open>two_sets_find\<close> is the first inner loop: it looks in
  \<open>dst\<close> for the first entry that merges with the source entry. \<open>two_sets_absorb\<close> is the
  second inner loop: the merged entry takes in the entries of \<open>dst\<close> behind it.
\<close>

fun two_sets_find ::
  "(SupportElementMerging \<Rightarrow> SupportElementMerging \<Rightarrow>
      bool \<times> SupportElementMerging \<times> SupportElementMerging) \<Rightarrow>
   SupportElementMerging list \<Rightarrow> SupportElementMerging list \<Rightarrow> SupportElementMerging \<Rightarrow>
   (SupportElementMerging list \<times> SupportElementMerging \<times> SupportElementMerging list) option"
  where
  "two_sets_find merge2 front [] src = None"
| "two_sets_find merge2 front (dst # rest) src =
     (case merge2 dst src of
        (True, dst', src') \<Rightarrow> Some (front, dst', rest)
      | (False, dst', src') \<Rightarrow> two_sets_find merge2 (front @ [dst']) rest src')"

function two_sets_absorb ::
  "(SupportElementMerging \<Rightarrow> SupportElementMerging \<Rightarrow>
      bool \<times> SupportElementMerging \<times> SupportElementMerging) \<Rightarrow>
   SupportElementMerging \<Rightarrow> SupportElementMerging list \<Rightarrow> SupportElementMerging list \<Rightarrow>
   SupportElementMerging \<times> SupportElementMerging list" where
  "two_sets_absorb merge2 merged tested [] = (merged, tested)"
| "two_sets_absorb merge2 merged tested (dst # rest) =
     (case merge2 merged dst of
        (True, merged', dst') \<Rightarrow> two_sets_absorb merge2 merged' tested (fill_from_end rest)
      | (False, merged', dst') \<Rightarrow> two_sets_absorb merge2 merged' (tested @ [dst']) rest)"
  by pat_completeness auto

termination
  by (relation "measure (\<lambda>(merge2, merged, tested, todo). length todo)")
     (auto simp: fill_from_end_def)

fun two_sets_loop ::
  "(SupportElementMerging \<Rightarrow> SupportElementMerging \<Rightarrow>
      bool \<times> SupportElementMerging \<times> SupportElementMerging) \<Rightarrow>
   SupportElementMerging list \<Rightarrow> SupportElementMerging list \<Rightarrow> SupportElementMerging list \<Rightarrow>
   SupportElementMerging list" where
  "two_sets_loop merge2 dst unmerged [] = dst @ unmerged"
| "two_sets_loop merge2 dst unmerged (src # rest) =
     (case two_sets_find merge2 [] dst src of
        Some (front, merged, behind) \<Rightarrow>
          (case two_sets_absorb merge2 merged [] behind of
             (merged', behind') \<Rightarrow>
               two_sets_loop merge2 (front @ merged' # behind') (rotate1 unmerged) rest)
      | None \<Rightarrow> two_sets_loop merge2 dst (unmerged @ [src]) rest)"

definition merge_influence_areas_two_sets ::
  "(SupportElementMerging \<Rightarrow> SupportElementMerging \<Rightarrow>
      bool \<times> SupportElementMerging \<times> SupportElementMerging) \<Rightarrow>
   SupportElementMerging list \<Rightarrow> SupportElementMerging list \<Rightarrow> SupportElementMerging list" where
  "merge_influence_areas_two_sets merge2 dst src = two_sets_loop merge2 dst [] src"

text \<open>
  \<^verbatim>\<open>merge_influence_areas\<close>. The buckets are the lists of their entries. \<open>first_buckets\<close>
  cuts \<open>n\<close> buckets of the given size from the array, the last one clipped at the end of the
  array, and returns what is left; \<open>merge_pairs\<close> is one round of the loop
  \<^verbatim>\<open>while (buckets.size() > 1)\<close>.
\<close>

fun first_buckets :: "nat \<Rightarrow> nat \<Rightarrow> 'a list \<Rightarrow> 'a list list \<times> 'a list" where
  "first_buckets 0 bucket_size xs = ([], xs)"
| "first_buckets (Suc n) bucket_size xs =
     (case first_buckets n bucket_size (drop bucket_size xs) of
        (buckets, rest) \<Rightarrow> (take bucket_size xs # buckets, rest))"

fun merge_pairs ::
  "(SupportElementMerging \<Rightarrow> SupportElementMerging \<Rightarrow>
      bool \<times> SupportElementMerging \<times> SupportElementMerging) \<Rightarrow>
   SupportElementMerging list list \<Rightarrow> SupportElementMerging list list" where
  "merge_pairs merge2 [] = []"
| "merge_pairs merge2 [b] = [b]"
| "merge_pairs merge2 (a # b # rest) =
     merge_influence_areas_two_sets merge2 a b # merge_pairs merge2 rest"

lemma length_merge_pairs: "length (merge_pairs merge2 buckets) = (length buckets + 1) div 2"
  by (induction merge2 buckets rule: merge_pairs.induct) simp_all

function merge_rounds ::
  "(SupportElementMerging \<Rightarrow> SupportElementMerging \<Rightarrow>
      bool \<times> SupportElementMerging \<times> SupportElementMerging) \<Rightarrow>
   SupportElementMerging list list \<Rightarrow> SupportElementMerging list list" where
  "merge_rounds merge2 buckets =
     (if length buckets > 1 then merge_rounds merge2 (merge_pairs merge2 buckets) else buckets)"
  by pat_completeness auto

termination
  by (relation "measure (\<lambda>(merge2, buckets). length buckets)")
     (auto simp: length_merge_pairs)

declare merge_rounds.simps [simp del]

text \<open>The first round on the initial buckets, then the rounds on pairs of buckets.\<close>

definition merge_buckets ::
  "(SupportElementMerging \<Rightarrow> SupportElementMerging \<Rightarrow>
      bool \<times> SupportElementMerging \<times> SupportElementMerging) \<Rightarrow>
   nat \<Rightarrow> nat \<Rightarrow> SupportElementMerging list \<Rightarrow> SupportElementMerging list" where
  "merge_buckets merge2 num_buckets_initial bucket_size sorted_areas =
     (case first_buckets num_buckets_initial bucket_size sorted_areas of
        (buckets, rest) \<Rightarrow>
          concat (merge_rounds merge2
            (map (merge_influence_areas_leaves merge2) buckets @
             (if rest \<noteq> [] then [rest] else []))))"

text \<open>
  \<open>build_modify_input\<close> is \<^verbatim>\<open>AABBTreeIndirect::Tree::build_modify_input\<close>, which reorders the
  array; \<open>num_threads\<close> is \<^verbatim>\<open>tbb::this_task_arena::max_concurrency()\<close>. The source leaves the
  merged entries at the front of the array and entries without areas behind them, which the
  caller skips; the result here is the front part. The caller passes at least two entries.
\<close>

definition merge_influence_areas ::
  "clipper \<Rightarrow> TreeModelVolumes \<Rightarrow> TreeSupportSettings \<Rightarrow> SupportElementState \<Rightarrow>
     (SupportElementMerging list \<Rightarrow> SupportElementMerging list) \<Rightarrow> nat \<Rightarrow> int \<Rightarrow>
     SupportElementMerging list \<Rightarrow> SupportElementMerging list" where
  "merge_influence_areas g volumes config blank build_modify_input num_threads layer
       entries =
     (let input_size = length entries;
          merge2 = merge_influence_areas_two_elements g volumes config blank layer
      in
      if input_size = 0 then []
      else
        (let sorted_areas = build_modify_input entries;
             num_buckets_min = (input_size + 2) div 4;
             num_buckets_max = input_size div 2;
             num_buckets_initial =
               (if num_buckets_min \<ge> num_threads then num_buckets_min else num_buckets_max);
             bucket_size = (if num_buckets_min \<ge> num_threads then 4 else 2 :: nat)
         in merge_buckets merge2 num_buckets_initial bucket_size sorted_areas))"

definition mergeable ::
  "clipper \<Rightarrow> TreeModelVolumes \<Rightarrow> TreeSupportSettings \<Rightarrow> SupportElementState \<Rightarrow> int \<Rightarrow>
     SupportElementMerging \<Rightarrow> SupportElementMerging \<Rightarrow> bool" where
  "mergeable g volumes config blank layer dst src \<longleftrightarrow>
     fst (merge_influence_areas_two_elements g volumes config blank layer dst src)"

subsection \<open>Concrete entries for the merger\<close>

definition blank_state :: SupportElementState where
  "blank_state = \<lparr>
     target_height = 0, target_position = (0, 0), next_position = (0, 0), layer_idx = 0,
     effective_radius_height = 0, to_buildplate = False, distance_to_top = 0,
     result_on_layer = None, increased_to_model_radius = 0, to_model_gracious = False,
     elephant_foot_increases = 0, use_min_xy_dist = False, supports_roof = False,
     dont_move_until = 0, can_use_safe_radius = False, missing_roof_layers = 0,
     skip_ovalisation = False,
     last_area_increase = mk_settings Fast 0 False False False False,
     deleted = False, marked = False \<rparr>"

text \<open>
  An entry of the merger on layer 4 that rests on the model: its parent index, effective
  radius height, distance to the top, \<^verbatim>\<open>can_use_safe_radius\<close>, and the centre of its areas,
  which are a square of 2 mm.
\<close>

definition example_merging :: "int \<Rightarrow> nat \<Rightarrow> nat \<Rightarrow> bool \<Rightarrow> int \<Rightarrow> SupportElementMerging" where
  "example_merging parent erh dtt safe cx = \<lparr>
     SupportElementMerging.state = blank_state \<lparr>
       target_height := 4 + int dtt, target_position := (word_of_int cx, 0),
       next_position := (word_of_int cx, 0), layer_idx := 4,
       effective_radius_height := erh, distance_to_top := dtt, to_model_gracious := True,
       can_use_safe_radius := safe,
       last_area_increase := mk_settings Slow 95000 True True False True \<rparr>,
     SupportElementMerging.parents = [parent],
     areas = \<lparr> influence_areas = [square cx 0 1000000], to_bp_areas = [],
               to_model_areas = [square cx 0 1000000] \<rparr>,
     bbox_data = set_bbox box_clipper (get_extents box_clipper [square cx 0 1000000]) \<rparr>"

definition example_entries :: "SupportElementMerging list" where
  "example_entries =
     [example_merging 0 1 1 True 0, example_merging 1 3 3 True 200000,
      example_merging 2 2 10 False 400000, example_merging 3 1 1 True 600000]"

definition example_merger :: "nat \<Rightarrow> SupportElementMerging list \<Rightarrow> SupportElementMerging list" where
  "example_merger num_threads =
     merge_influence_areas box_clipper example_volumes example_config blank_state (\<lambda>xs. xs)
       num_threads 5"

text \<open>An entry as \<open>example_merging\<close> that is not gracious.\<close>

definition example_non_gracious :: SupportElementMerging where
  "example_non_gracious =
     (example_merging 1 3 3 True 200000)
       \<lparr> SupportElementMerging.state :=
           (SupportElementMerging.state (example_merging 1 3 3 True 200000))
             \<lparr> to_model_gracious := False \<rparr> \<rparr>"

subsection \<open>Tip placement\<close>

text \<open>\<^verbatim>\<open>min_xy_dist\<close>, as \<^verbatim>\<open>convert_lines_to_internal\<close> and its neighbours compute it.\<close>

definition min_xy_dist_of :: "TreeSupportSettings \<Rightarrow> bool" where
  "min_xy_dist_of config \<longleftrightarrow> xy_distance config > xy_min_distance config"

text \<open>A sequence of \<^verbatim>\<open>validate_range\<close> calls and what follows them.\<close>

definition checked :: "error + unit \<Rightarrow> (error + 'a) \<Rightarrow> error + 'a" where
  "checked v r = (case v of Inl e \<Rightarrow> Inl e | Inr u \<Rightarrow> r)"

text \<open>
  \<^verbatim>\<open>convert_lines_to_internal\<close>. \<open>classify\<close> is the chain of tests on one point: its status,
  or \<open>None\<close> for a point that is dropped and ends the current line.
\<close>

definition classify ::
  "clipper \<Rightarrow> TreeModelVolumes \<Rightarrow> TreeSupportSettings \<Rightarrow> int \<Rightarrow> Point \<Rightarrow> LineStatus option"
  where
  "classify g volumes config layer p =
     (let r0 = getRadius config 0 0; mxy = min_xy_dist_of config in
      if \<not> contains g (getAvoidance volumes r0 layer FastSafe False mxy) p then Some TO_BP_SAFE
      else if \<not> contains g (getAvoidance volumes r0 layer Fast False mxy) p then Some TO_BP
      else if support_rests_on_model config \<and>
              \<not> contains g (getAvoidance volumes r0 layer FastSafe True mxy) p
      then Some TO_MODEL_GRACIOUS_SAFE
      else if support_rests_on_model config \<and>
              \<not> contains g (getAvoidance volumes r0 layer Fast True mxy) p
      then Some TO_MODEL_GRACIOUS
      else if support_rests_on_model config \<and>
              \<not> contains g (getCollision volumes r0 layer mxy) p
      then Some TO_MODEL
      else None)"

text \<open>The loop over the points of one polyline: (finished lines, current line).\<close>

fun convert_line ::
  "clipper \<Rightarrow> TreeModelVolumes \<Rightarrow> TreeSupportSettings \<Rightarrow> int \<Rightarrow> Point list \<Rightarrow>
     LineInformations \<times> LineInformation \<Rightarrow> LineInformations \<times> LineInformation" where
  "convert_line g volumes config layer [] acc = acc"
| "convert_line g volumes config layer (p # ps) (result, res_line) =
     (case classify g volumes config layer p of
        Some status \<Rightarrow> convert_line g volumes config layer ps (result, res_line @ [(p, status)])
      | None \<Rightarrow>
          if res_line \<noteq> [] then convert_line g volumes config layer ps (result @ [res_line], [])
          else convert_line g volumes config layer ps (result, res_line))"

fun convert_polylines ::
  "clipper \<Rightarrow> TreeModelVolumes \<Rightarrow> TreeSupportSettings \<Rightarrow> int \<Rightarrow> Polylines \<Rightarrow>
     LineInformations \<Rightarrow> LineInformations" where
  "convert_polylines g volumes config layer [] result = result"
| "convert_polylines g volumes config layer (line # rest) result =
     (case convert_line g volumes config layer line (result, []) of
        (result', res_line) \<Rightarrow>
          convert_polylines g volumes config layer rest
            (if res_line \<noteq> [] then result' @ [res_line] else result'))"

definition convert_lines_to_internal ::
  "clipper \<Rightarrow> TreeModelVolumes \<Rightarrow> TreeSupportSettings \<Rightarrow> Polylines \<Rightarrow> int \<Rightarrow>
     error + LineInformations" where
  "convert_lines_to_internal g volumes config polylines layer =
     (let result = convert_polylines g volumes config layer polylines [] in
      checked (validate_range_LineInformations result) (Inr result))"

text \<open>\<^verbatim>\<open>evaluate_point_for_next_layer_function\<close>\<close>

definition evaluate_point_for_next_layer_function ::
  "clipper \<Rightarrow> TreeModelVolumes \<Rightarrow> TreeSupportSettings \<Rightarrow> int \<Rightarrow> Point \<times> LineStatus \<Rightarrow> bool"
  where
  "evaluate_point_for_next_layer_function g volumes config current_layer p =
     (let r0 = getRadius config 0 0; mxy = min_xy_dist_of config in
      if \<not> contains g
             (getAvoidance volumes r0 (current_layer - 1)
                (if snd p = TO_BP_SAFE then FastSafe else Fast) False mxy) (fst p)
      then True
      else if support_rests_on_model config \<and> snd p \<noteq> TO_BP \<and> snd p \<noteq> TO_BP_SAFE then
        \<not> contains g
            (if snd p = TO_MODEL_GRACIOUS \<or> snd p = TO_MODEL_GRACIOUS_SAFE
             then getAvoidance volumes r0 (current_layer - 1)
                    (if snd p = TO_MODEL_GRACIOUS_SAFE then FastSafe else Fast) True mxy
             else getCollision volumes r0 (current_layer - 1) mxy)
            (fst p)
      else False)"

text \<open>
  \<^verbatim>\<open>split_lines\<close>. The state of the loop over one line is
  \<^verbatim>\<open>(keep, set_free, current_keep, resulting_line)\<close>.
\<close>

fun split_line ::
  "(Point \<times> LineStatus \<Rightarrow> bool) \<Rightarrow> LineInformation \<Rightarrow>
     LineInformations \<times> LineInformations \<times> bool \<times> LineInformation \<Rightarrow>
     LineInformations \<times> LineInformations \<times> bool \<times> LineInformation" where
  "split_line evaluatePoint [] st = st"
| "split_line evaluatePoint (me # rest) (keep, set_free, current_keep, resulting_line) =
     (if evaluatePoint me \<noteq> current_keep then
        (if resulting_line \<noteq> [] then
           (if current_keep
            then split_line evaluatePoint rest
                   (keep @ [resulting_line], set_free, \<not> current_keep, [me])
            else split_line evaluatePoint rest
                   (keep, set_free @ [resulting_line], \<not> current_keep, [me]))
         else split_line evaluatePoint rest (keep, set_free, \<not> current_keep, [me]))
      else split_line evaluatePoint rest (keep, set_free, current_keep, resulting_line @ [me]))"

fun split_all ::
  "(Point \<times> LineStatus \<Rightarrow> bool) \<Rightarrow> LineInformations \<Rightarrow> LineInformations \<times> LineInformations \<Rightarrow>
     LineInformations \<times> LineInformations" where
  "split_all evaluatePoint [] acc = acc"
| "split_all evaluatePoint (line # rest) (keep, set_free) =
     (case split_line evaluatePoint line (keep, set_free, True, []) of
        (keep', set_free', current_keep, resulting_line) \<Rightarrow>
          split_all evaluatePoint rest
            (if resulting_line \<noteq> [] then
               (if current_keep then (keep' @ [resulting_line], set_free')
                else (keep', set_free' @ [resulting_line]))
             else (keep', set_free')))"

definition split_lines ::
  "LineInformations \<Rightarrow> (Point \<times> LineStatus \<Rightarrow> bool) \<Rightarrow>
     error + (LineInformations \<times> LineInformations)" where
  "split_lines lines evaluatePoint =
     (case split_all evaluatePoint lines ([], []) of
        (keep, set_free) \<Rightarrow>
          checked (validate_range_LineInformations keep)
            (checked (validate_range_LineInformations set_free) (Inr (keep, set_free))))"

text \<open>
  What the tip placer writes to: the points already inserted on a layer, the elements of a
  layer, and the roof polygons of a layer (\<open>None\<close> while no layer is allocated).
\<close>

record tip_storage =
  already_inserted :: "int \<Rightarrow> Point list"
  move_bounds :: "int \<Rightarrow> SupportElement list"
  top_contacts :: "int \<Rightarrow> Polygons option"

text \<open>
  Division of coordinates: signed and truncating. The program traps when the divisor is 0,
  and when the most negative number is divided by -1.
\<close>

definition coord_div :: "coord_t \<Rightarrow> coord_t \<Rightarrow> error + coord_t" where
  "coord_div a b =
     (if b = 0 \<or> (a = - (2 ^ 31) \<and> b = - 1) then Inl division_by_zero
      else Inr (word_of_int (sint a sdiv sint b)))"

definition translate :: "Polygon \<Rightarrow> Point \<Rightarrow> Polygon" where
  "translate poly v = map (\<lambda>q. (fst q + fst v, snd q + snd v)) poly"

text \<open>
  The lambda \<^verbatim>\<open>addPointAsInfluenceArea\<close>. \<open>blank\<close> is the default-constructed state; the
  other captured values are \<^verbatim>\<open>base_circle\<close>, \<^verbatim>\<open>min_xy_dist\<close> and \<^verbatim>\<open>force_tip_to_roof\<close>.
\<close>

definition addPointAsInfluenceArea ::
  "TreeSupportSettings \<Rightarrow> SupportElementState \<Rightarrow> Polygon \<Rightarrow> bool \<Rightarrow>
     Point \<times> LineStatus \<Rightarrow> nat \<Rightarrow> int \<Rightarrow> nat \<Rightarrow> bool \<Rightarrow> bool \<Rightarrow> tip_storage \<Rightarrow>
     error + tip_storage" where
  "addPointAsInfluenceArea config blank base_circle force_tip_to_roof p dtt insert_layer
       dont_move roof skip_oval st =
     (let to_bp = (snd p = TO_BP \<or> snd p = TO_BP_SAFE);
          gracious = (to_bp \<or> snd p = TO_MODEL_GRACIOUS \<or> snd p = TO_MODEL_GRACIOUS_SAFE);
          safe_radius = (snd p = TO_BP_SAFE \<or> snd p = TO_MODEL_GRACIOUS_SAFE)
      in
      if \<not> support_rests_on_model config \<and> \<not> to_bp then Inr st
      else
        (let circle = [translate base_circle (fst p)];
             cell = word_of_int ((min_radius config + 1) sdiv 10)
         in
         case coord_div (fst (fst p)) cell of
           Inl e \<Rightarrow> Inl e
         | Inr hash_x \<Rightarrow>
         (case coord_div (snd (fst p)) cell of
           Inl e \<Rightarrow> Inl e
         | Inr hash_y \<Rightarrow>
         if (hash_x, hash_y) \<in> set (already_inserted st insert_layer) then Inr st
         else
           Inr (st \<lparr> already_inserted :=
                  (already_inserted st)
                    (insert_layer := already_inserted st insert_layer @ [(hash_x, hash_y)]),
                move_bounds :=
                  (move_bounds st)
                    (insert_layer := move_bounds st insert_layer @
                       [\<lparr> SupportElement.state = blank \<lparr>
                            target_height := insert_layer,
                            target_position := fst p,
                            next_position := fst p,
                            layer_idx := insert_layer,
                            effective_radius_height := dtt,
                            to_buildplate := to_bp,
                            distance_to_top := dtt,
                            result_on_layer := Some (fst p),
                            increased_to_model_radius := 0,
                            to_model_gracious := gracious,
                            elephant_foot_increases := 0,
                            use_min_xy_dist := min_xy_dist_of config,
                            supports_roof := roof,
                            dont_move_until := dont_move,
                            can_use_safe_radius := safe_radius,
                            missing_roof_layers := (if force_tip_to_roof then dont_move else 0),
                            skip_ovalisation := skip_oval \<rparr>,
                          SupportElement.parents = [],
                          influence_area = circle \<rparr>]) \<rparr>))))"

text \<open>Adding the points of lines one after the other.\<close>

fun add_points ::
  "TreeSupportSettings \<Rightarrow> SupportElementState \<Rightarrow> Polygon \<Rightarrow> bool \<Rightarrow> nat \<Rightarrow> int \<Rightarrow> nat \<Rightarrow>
     bool \<Rightarrow> bool \<Rightarrow> LineInformation \<Rightarrow> tip_storage \<Rightarrow> error + tip_storage" where
  "add_points config blank base_circle force_tip_to_roof dtt insert_layer dont_move roof
       skip_oval [] st = Inr st"
| "add_points config blank base_circle force_tip_to_roof dtt insert_layer dont_move roof
       skip_oval (point_data # rest) st =
     (case addPointAsInfluenceArea config blank base_circle force_tip_to_roof point_data dtt
             insert_layer dont_move roof skip_oval st of
        Inl e \<Rightarrow> Inl e
      | Inr st' \<Rightarrow>
          add_points config blank base_circle force_tip_to_roof dtt insert_layer dont_move roof
            skip_oval rest st')"

text \<open>
  The roof of the tips on one layer: a circle of the minimum radius around every point of
  the lines, unioned and appended to the top contacts of the layer. \<open>roof_circle\<close> is
  \<^verbatim>\<open>base_circle\<close> scaled by \<^verbatim>\<open>min_radius / base_radius\<close>.
\<close>

definition add_roofs ::
  "clipper \<Rightarrow> Polygon \<Rightarrow> LineInformations \<Rightarrow> int \<Rightarrow> tip_storage \<Rightarrow> tip_storage" where
  "add_roofs g roof_circle lines layer st =
     (let added_roofs = map (\<lambda>p. translate roof_circle (fst p)) (concat lines) in
      if added_roofs \<noteq> [] then
        st \<lparr> top_contacts :=
               (top_contacts st)
                 (layer := Some ((case top_contacts st layer of None \<Rightarrow> [] | Some polys \<Rightarrow> polys) @
                                 union_polys g added_roofs [])) \<rparr>
      else st)"

text \<open>
  The lambda \<^verbatim>\<open>addLinesAsInfluenceAreas\<close>. \<open>roof_tip_loop\<close> is its first loop, over
  \<^verbatim>\<open>dtt_roof_tip\<close>; the result is the final \<^verbatim>\<open>dtt_roof_tip\<close>, the lines that are left
  and the storage. The test \<^verbatim>\<open>insert_layer_idx - dtt_roof_tip >= 1\<close> of the loop is made on
  a \<^verbatim>\<open>size_t\<close>.
\<close>

function roof_tip_loop ::
  "clipper \<Rightarrow> TreeModelVolumes \<Rightarrow> TreeSupportSettings \<Rightarrow> SupportElementState \<Rightarrow> Polygon \<Rightarrow>
     Polygon \<Rightarrow> bool \<Rightarrow> nat \<Rightarrow> int \<Rightarrow> nat \<Rightarrow> LineInformations \<Rightarrow> tip_storage \<Rightarrow>
     error + (nat \<times> LineInformations \<times> tip_storage)" where
  "roof_tip_loop g volumes config blank base_circle roof_circle force_tip_to_roof roof_tip_layers
       insert_layer_idx dtt_roof_tip lines st =
     (if dtt_roof_tip < roof_tip_layers \<and> to_size_t (insert_layer_idx - int dtt_roof_tip) \<ge> 1
      then
        (case split_lines lines
                (evaluate_point_for_next_layer_function g volumes config
                   (insert_layer_idx - int dtt_roof_tip)) of
           Inl e \<Rightarrow> Inl e
         | Inr (keep, set_free) \<Rightarrow>
             (case split_lines keep (\<lambda>p. True) of
                Inl e \<Rightarrow> Inl e
              | Inr (lines', set_free') \<Rightarrow>
                  (case add_points config blank base_circle force_tip_to_roof 0
                          (insert_layer_idx - int dtt_roof_tip)
                          (roof_tip_layers - dtt_roof_tip) (dtt_roof_tip \<noteq> 0) False
                          (concat (set_free @ set_free')) st of
                     Inl e \<Rightarrow> Inl e
                   | Inr st' \<Rightarrow>
                       roof_tip_loop g volumes config blank base_circle roof_circle
                         force_tip_to_roof roof_tip_layers insert_layer_idx (Suc dtt_roof_tip)
                         lines'
                         (add_roofs g roof_circle lines' (insert_layer_idx - int dtt_roof_tip)
                            st'))))
      else Inr (dtt_roof_tip, lines, st))"
  by pat_completeness auto

termination
  by (relation "measure (\<lambda>(g, volumes, config, blank, base_circle, roof_circle,
        force_tip_to_roof, roof_tip_layers, insert_layer_idx, dtt_roof_tip, lines, st).
        roof_tip_layers - dtt_roof_tip)") auto

declare roof_tip_loop.simps [simp del]

text \<open>The last loop: the lines that are left become tips.\<close>

fun add_lines ::
  "TreeSupportSettings \<Rightarrow> SupportElementState \<Rightarrow> Polygon \<Rightarrow> bool \<Rightarrow> nat \<Rightarrow> nat \<Rightarrow> int \<Rightarrow>
     nat \<Rightarrow> bool \<Rightarrow> LineInformations \<Rightarrow> tip_storage \<Rightarrow> error + tip_storage" where
  "add_lines config blank base_circle force_tip_to_roof roof_tip_layers dtt_roof_tip insert_layer
       dont_move roof [] st = Inr st"
| "add_lines config blank base_circle force_tip_to_roof roof_tip_layers dtt_roof_tip insert_layer
       dont_move roof (line # rest) st =
     (case add_points config blank base_circle force_tip_to_roof 0 insert_layer dont_move roof
             (min_radius config < 3 * support_line_width config \<and> roof_tip_layers = 0 \<and>
              dtt_roof_tip = 0 \<and> length line > 5)
             line st of
        Inl e \<Rightarrow> Inl e
      | Inr st' \<Rightarrow>
          add_lines config blank base_circle force_tip_to_roof roof_tip_layers dtt_roof_tip
            insert_layer dont_move roof rest st')"

definition addLinesAsInfluenceAreas ::
  "clipper \<Rightarrow> TreeModelVolumes \<Rightarrow> TreeSupportSettings \<Rightarrow> SupportElementState \<Rightarrow> Polygon \<Rightarrow>
     Polygon \<Rightarrow> bool \<Rightarrow> LineInformations \<Rightarrow> nat \<Rightarrow> int \<Rightarrow> bool \<Rightarrow> nat \<Rightarrow> tip_storage \<Rightarrow>
     error + tip_storage" where
  "addLinesAsInfluenceAreas g volumes config blank base_circle roof_circle force_tip_to_roof
       lines roof_tip_layers insert_layer_idx roof_above dont_move st =
     checked (validate_range_LineInformations lines)
       (case roof_tip_loop g volumes config blank base_circle roof_circle force_tip_to_roof
               roof_tip_layers insert_layer_idx 0 lines st of
          Inl e \<Rightarrow> Inl e
        | Inr (dtt_roof_tip, lines', st') \<Rightarrow>
            add_lines config blank base_circle force_tip_to_roof roof_tip_layers
              dtt_roof_tip (insert_layer_idx - int dtt_roof_tip)
              (if dont_move > dtt_roof_tip then dont_move - dtt_roof_tip else 0)
              (dtt_roof_tip \<noteq> 0 \<or> roof_above) lines' st')"

text \<open>What the claim says of a tip placed for a point with a status.\<close>

definition tip_of :: "Point \<times> LineStatus \<Rightarrow> SupportElement \<Rightarrow> bool" where
  "tip_of p e \<longleftrightarrow>
     (let s = SupportElement.state e in
      target_position s = fst p \<and>
      distance_to_top s = 0 \<and> effective_radius_height s = 0 \<and>
      (to_buildplate s \<longleftrightarrow> snd p = TO_BP \<or> snd p = TO_BP_SAFE) \<and>
      (can_use_safe_radius s \<longleftrightarrow> snd p = TO_BP_SAFE \<or> snd p = TO_MODEL_GRACIOUS_SAFE) \<and>
      (to_model_gracious s \<longleftrightarrow>
         to_buildplate s \<or> snd p = TO_MODEL_GRACIOUS \<or> snd p = TO_MODEL_GRACIOUS_SAFE))"

text \<open>Every element of the storage is an element of \<open>st\<close> or a tip of a point of \<open>pts\<close>.\<close>

definition tips_from :: "tip_storage \<Rightarrow> (Point \<times> LineStatus) set \<Rightarrow> tip_storage \<Rightarrow> bool" where
  "tips_from st pts st' \<longleftrightarrow>
     (\<forall>layer. \<forall>e \<in> set (move_bounds st' layer).
        e \<in> set (move_bounds st layer) \<or> (\<exists>p \<in> pts. tip_of p e))"

definition empty_storage :: tip_storage where
  "empty_storage = \<lparr> already_inserted = (\<lambda>layer. []), move_bounds = (\<lambda>layer. []),
     top_contacts = (\<lambda>layer. None) \<rparr>"

text \<open>One sampled point at the origin that clears the safe avoidance, placed on layer 5.\<close>

definition example_tips :: "error + tip_storage" where
  "example_tips =
     addLinesAsInfluenceAreas box_clipper example_volumes example_config blank_state
       (square 0 0 10000) (square 0 0 400000) False [[((0, 0), TO_BP_SAFE)]] 0 5 False 0
       empty_storage"

definition example_tip :: SupportElement where
  "example_tip = \<lparr>
     SupportElement.state = blank_state \<lparr>
       target_height := 5, layer_idx := 5, to_buildplate := True,
       result_on_layer := Some (0, 0), to_model_gracious := True, use_min_xy_dist := True,
       can_use_safe_radius := True \<rparr>,
     SupportElement.parents = [],
     influence_area = [square 0 0 10000] \<rparr>"

subsection \<open>Organic branches: nudging away from collisions\<close>

text \<open>
  Floating-point numbers are taken as real numbers. \<^verbatim>\<open>Vec2d\<close> and \<^verbatim>\<open>Vec3f\<close> are pairs and
  triples; \<^verbatim>\<open>normalized\<close> is the method of the vector library, which leaves the zero
  vector as it is.
\<close>

type_synonym Vec2d = "real \<times> real"

type_synonym Vec3f = "real \<times> real \<times> real"

definition to_2d :: "Vec3f \<Rightarrow> Vec2d" where
  "to_2d v = (fst v, fst (snd v))"

definition to_3d :: "Vec2d \<Rightarrow> real \<Rightarrow> Vec3f" where
  "to_3d v z = (fst v, snd v, z)"

definition norm2d :: "Vec2d \<Rightarrow> real" where
  "norm2d v = sqrt ((fst v)\<^sup>2 + (snd v)\<^sup>2)"

definition normalized :: "Vec2d \<Rightarrow> Vec2d" where
  "normalized v =
     (if (fst v)\<^sup>2 + (snd v)\<^sup>2 > 0 then (fst v / norm2d v, snd v / norm2d v) else v)"

definition scale2d :: "Vec2d \<Rightarrow> real \<Rightarrow> Vec2d" where
  "scale2d v c = (fst v * c, snd v * c)"

definition sub2d :: "Vec2d \<Rightarrow> Vec2d \<Rightarrow> Vec2d" where
  "sub2d u v = (fst u - fst v, snd u - snd v)"

definition add2d :: "Vec2d \<Rightarrow> Vec2d \<Rightarrow> Vec2d" where
  "add2d u v = (fst u + fst v, snd u + snd v)"

record SlicingParameters =
  object_print_z_min :: real
  first_object_layer_height :: real
  layer_height :: real

definition layer_z :: "SlicingParameters \<Rightarrow> nat \<Rightarrow> real" where
  "layer_z slicing_params layer =
     object_print_z_min slicing_params + first_object_layer_height slicing_params +
     real layer * layer_height slicing_params"

text \<open>
  The collision cache of the layers: whether the cache of a layer is empty, and
  \<^verbatim>\<open>AABBTreeLines::squared_distance_to_indexed_lines\<close> on the lines of a layer, which gives
  the squared distance to the closest line within the given squared distance (a negative
  number when there is none) and the closest point.
\<close>

record layer_collision_cache =
  cache_empty :: "32 word \<Rightarrow> bool"
  squared_distance_to_indexed_lines :: "32 word \<Rightarrow> Vec2d \<Rightarrow> real \<Rightarrow> real \<times> Vec2d"

record CollisionSphere =
  element :: SupportElement
  element_below_id :: int
  locked :: bool
  radius :: real
  position :: Vec3f
  prev_position :: Vec3f
  last_collision :: Vec3f
  last_collision_depth :: real
  min_z :: real
  max_z :: real
  layer_begin :: "32 word"
  layer_end :: "32 word"

definition DBL_MAX :: real where
  "DBL_MAX = (2 ^ 53 - 1) * 2 ^ 971"

definition collision_extra_gap :: real where
  "collision_extra_gap = 0.1"

definition max_nudge_collision_avoidance :: real where
  "max_nudge_collision_avoidance = 0.5"

text \<open>
  One pass of the loop over the layers that a sphere spans. \<^verbatim>\<open>layer_id\<close> is unsigned and
  the layer index of the element is an \<^verbatim>\<open>int\<close>, so their difference is taken in unsigned
  32-bit arithmetic before it becomes a \<^verbatim>\<open>double\<close>. The square root of a negative squared
  distance is not a number, and the comparison with it fails.
\<close>

definition collide_layer ::
  "SlicingParameters \<Rightarrow> layer_collision_cache \<Rightarrow> 32 word \<Rightarrow> CollisionSphere \<Rightarrow> CollisionSphere"
  where
  "collide_layer slicing_params cache layer_id sphere =
     (let dz = real (unat (layer_id -
                 word_of_int (layer_idx (SupportElement.state (element sphere))))) *
               layer_height slicing_params;
          r2 = (radius sphere)\<^sup>2 - dz\<^sup>2
      in
      if r2 > 0 \<and> \<not> cache_empty cache layer_id then
        (case squared_distance_to_indexed_lines cache layer_id (to_2d (position sphere)) r2 of
           (d2, hit_point_out) \<Rightarrow>
             if d2 \<ge> 0 \<and> sqrt r2 - sqrt d2 > last_collision_depth sphere then
               sphere \<lparr> last_collision_depth := sqrt r2 - sqrt d2,
                        last_collision := to_3d hit_point_out (layer_z slicing_params (unat layer_id)) \<rparr>
             else sphere)
      else sphere)"

text \<open>The loop \<^verbatim>\<open>for (layer_id = layer_begin; layer_id != layer_end; ++ layer_id)\<close>, by the
  number of passes that are left.\<close>

fun collide_layers ::
  "SlicingParameters \<Rightarrow> layer_collision_cache \<Rightarrow> nat \<Rightarrow> 32 word \<Rightarrow> CollisionSphere \<Rightarrow>
     CollisionSphere" where
  "collide_layers slicing_params cache 0 layer_id sphere = sphere"
| "collide_layers slicing_params cache (Suc n) layer_id sphere =
     collide_layers slicing_params cache n (layer_id + 1)
       (collide_layer slicing_params cache layer_id sphere)"

text \<open>
  The first part of the body of the loop over the spheres in
  \<^verbatim>\<open>organic_smooth_branches_avoid_collisions\<close>: the collision of a sphere that is not locked
  with the layers, and the nudge away from the deepest collision. The Laplacian smoothing
  follows it.
\<close>

definition nudge_from_collision ::
  "SlicingParameters \<Rightarrow> layer_collision_cache \<Rightarrow> CollisionSphere \<Rightarrow> CollisionSphere" where
  "nudge_from_collision slicing_params cache sphere =
     (if locked sphere then sphere
      else
        (let s = collide_layers slicing_params cache
                   (unat (layer_end sphere - layer_begin sphere)) (layer_begin sphere)
                   (sphere \<lparr> last_collision_depth := - DBL_MAX \<rparr>)
         in
         if last_collision_depth s > 0 then
           (let nudge_dist = min (max 0 (last_collision_depth s + collision_extra_gap))
                               max_nudge_collision_avoidance;
                nudge_vector =
                  scale2d (normalized (sub2d (to_2d (position s)) (to_2d (last_collision s))))
                    nudge_dist
            in s \<lparr> position :=
                     to_3d (add2d (to_2d (position s)) (scale2d nudge_vector nudge_dist))
                       (snd (snd (position s))) \<rparr>)
         else s))"

text \<open>
  A sphere of radius 1.2 mm on layer 3 with its centre at (1, 0), and a wall whose closest
  point on that layer is the origin, at a distance of 1 mm.
\<close>

definition example_slicing :: SlicingParameters where
  "example_slicing = \<lparr> object_print_z_min = 0, first_object_layer_height = 0.2,
     layer_height = 0.2 \<rparr>"

definition example_cache :: layer_collision_cache where
  "example_cache = \<lparr> cache_empty = (\<lambda>layer. False),
     squared_distance_to_indexed_lines =
       (\<lambda>layer p r2. if (fst p)\<^sup>2 + (snd p)\<^sup>2 < r2 then ((fst p)\<^sup>2 + (snd p)\<^sup>2, (0, 0))
                     else (- 1, (0, 0))) \<rparr>"

definition example_sphere :: CollisionSphere where
  "example_sphere = \<lparr>
     element = \<lparr> SupportElement.state = blank_state \<lparr> layer_idx := 3 \<rparr>,
       SupportElement.parents = [], influence_area = [] \<rparr>,
     element_below_id = - 1, locked = False, radius = 1.2,
     position = (1, 0, 0.8), prev_position = (1, 0, 0.8), last_collision = (0, 0, 0),
     last_collision_depth = 0, min_z = 0.8, max_z = 0.8, layer_begin = 3, layer_end = 4 \<rparr>"

text \<open>
  The same sphere inside a tree: it has a parent on layer 4, a tip, and rests on an element
  of layer 2, the lowest of the branch, so that it is not locked and spans the layers 2 to
  4. The wall stands on layer 3 only.
\<close>

definition example_cache_layer :: layer_collision_cache where
  "example_cache_layer = example_cache \<lparr> cache_empty := (\<lambda>layer. layer \<noteq> 3) \<rparr>"

definition example_sphere_in_tree :: CollisionSphere where
  "example_sphere_in_tree = example_sphere \<lparr>
     element := \<lparr> SupportElement.state = blank_state \<lparr> layer_idx := 3 \<rparr>,
       SupportElement.parents = [0], influence_area = [] \<rparr>,
     element_below_id := 0, min_z := 0.6, max_z := 1, layer_begin := 2, layer_end := 5 \<rparr>"

lemma sqrt_144: "sqrt (36 / 25) = 6 / 5"
  by (rule real_sqrt_unique) (simp_all add: power2_eq_square)

lemma example_collision:
  "collide_layers example_slicing example_cache (unat (layer_end example_sphere -
       layer_begin example_sphere)) (layer_begin example_sphere)
     (example_sphere \<lparr> last_collision_depth := - DBL_MAX \<rparr>) =
   example_sphere \<lparr> last_collision_depth := 0.2, last_collision := (0, 0, 0.8) \<rparr>"
  by (simp add: example_sphere_def example_cache_def example_slicing_def collide_layer_def
      to_2d_def to_3d_def layer_z_def DBL_MAX_def power2_eq_square sqrt_144)

subsection \<open>The node resolver\<close>

text \<open>
  \<^verbatim>\<open>move_bounds\<close> is the list of the layers, each a list of elements; an element is named by
  its layer and its index in the layer. The indices that the code follows (the parents of an
  element, the layer above) are inside of the lists for every tree that the earlier phases
  build; an update at an index outside of them leaves the lists as they are. The
  cancellation callback and the logging are left out.
\<close>

type_synonym SupportElements = "SupportElement list"

definition elem_at :: "SupportElements list \<Rightarrow> nat \<Rightarrow> nat \<Rightarrow> SupportElement" where
  "elem_at bounds layer i = bounds ! layer ! i"

definition update_state ::
  "SupportElements list \<Rightarrow> nat \<Rightarrow> nat \<Rightarrow> (SupportElementState \<Rightarrow> SupportElementState) \<Rightarrow>
     SupportElements list" where
  "update_state bounds layer i f =
     bounds[layer := (bounds ! layer)[i := (bounds ! layer ! i)
       \<lparr> SupportElement.state := f (SupportElement.state (bounds ! layer ! i)) \<rparr>]]"

lemma length_update_state [simp]:
  "length (update_state bounds layer i f) = length bounds"
  by (simp add: update_state_def)

definition layer_above_of :: "SupportElements list \<Rightarrow> nat \<Rightarrow> nat option" where
  "layer_above_of bounds layer =
     (if layer + 1 < length bounds then Some (layer + 1) else None)"

definition unmark :: "SupportElements list \<Rightarrow> nat option \<Rightarrow> SupportElements list" where
  "unmark bounds layer_above =
     (case layer_above of
        None \<Rightarrow> bounds
      | Some upper \<Rightarrow>
          bounds[upper := map (\<lambda>elem. elem \<lparr> SupportElement.state :=
            (SupportElement.state elem) \<lparr> marked := False \<rparr> \<rparr>) (bounds ! upper)])"

text \<open>The loop over the parents in \<^verbatim>\<open>set_points_on_areas\<close>.\<close>

fun set_points_on_parents ::
  "clipper \<Rightarrow> Point \<Rightarrow> nat \<Rightarrow> int list \<Rightarrow> SupportElements list \<Rightarrow> SupportElements list" where
  "set_points_on_parents g from upper [] bounds = bounds"
| "set_points_on_parents g from upper (next_elem_idx # rest) bounds =
     set_points_on_parents g from upper rest
       (if 0 \<le> next_elem_idx then
          update_state bounds upper (nat next_elem_idx)
            (\<lambda>s. (if result_on_layer s = None then
                     s \<lparr> result_on_layer := Some (move_inside_if_outside g
                           (influence_area (elem_at bounds upper (nat next_elem_idx)))
                           from) \<rparr>
                   else s) \<lparr> marked := True \<rparr>)
        else bounds)"

definition set_points_on_areas ::
  "clipper \<Rightarrow> SupportElement \<Rightarrow> nat option \<Rightarrow> SupportElements list \<Rightarrow> SupportElements list"
  where
  "set_points_on_areas g elem layer_above bounds =
     (case result_on_layer (SupportElement.state elem) of
        None \<Rightarrow> bounds
      | Some from \<Rightarrow>
          (case layer_above of
             None \<Rightarrow> bounds
           | Some upper \<Rightarrow>
               set_points_on_parents g from upper (SupportElement.parents elem) bounds))"

definition set_to_model_contact_simple ::
  "clipper \<Rightarrow> SupportElementState \<Rightarrow> Polygons \<Rightarrow> SupportElementState" where
  "set_to_model_contact_simple g s area_of_elem =
     s \<lparr> result_on_layer := Some (move_inside_if_outside g area_of_elem (next_position s)) \<rparr>"

text \<open>
  The first loop of \<^verbatim>\<open>set_to_model_contact_to_model_gracious\<close>: it climbs from the element
  through the first parents while the influence area meets the placeable area, and stops
  behind a merge point. The result is the last element at which the areas met.
\<close>

function last_successfull_layer ::
  "clipper \<Rightarrow> TreeModelVolumes \<Rightarrow> TreeSupportSettings \<Rightarrow> SupportElements list \<Rightarrow>
     nat \<times> nat \<Rightarrow> int \<Rightarrow> (nat \<times> nat) option \<Rightarrow> (nat \<times> nat) option" where
  "last_successfull_layer g volumes config bounds elem layer_check found =
     (if intersection g (influence_area (elem_at bounds (fst elem) (snd elem)))
           (getPlaceableAreas volumes
              (getCollisionRadius config
                 (SupportElement.state (elem_at bounds (fst elem) (snd elem))))
              layer_check) = []
      then found
      else if length (SupportElement.parents (elem_at bounds (fst elem) (snd elem))) \<noteq> 1
      then Some elem
      else if 0 \<le> layer_check \<and> nat (layer_check + 1) < length bounds \<and>
              0 \<le> hd (SupportElement.parents (elem_at bounds (fst elem) (snd elem)))
      then last_successfull_layer g volumes config bounds
             (nat (layer_check + 1),
              nat (hd (SupportElement.parents (elem_at bounds (fst elem) (snd elem)))))
             (layer_check + 1) (Some elem)
      else Some elem)"
  by pat_completeness auto

termination
  by (relation "measure (\<lambda>(g, volumes, config, bounds, elem, layer_check, found).
        nat (int (length bounds) - layer_check))") auto

declare last_successfull_layer.simps [simp del]

text \<open>The loop that deletes the elements below the last successful one.\<close>

function delete_below ::
  "SupportElements list \<Rightarrow> nat \<times> nat \<Rightarrow> nat \<times> nat \<Rightarrow> int \<Rightarrow> SupportElements list" where
  "delete_below bounds last_successfull elem parent_layer_idx =
     (if elem = last_successfull then bounds
      else if 0 \<le> parent_layer_idx \<and> nat (parent_layer_idx + 1) < length bounds \<and>
              SupportElement.parents (elem_at bounds (fst elem) (snd elem)) \<noteq> [] \<and>
              0 \<le> hd (SupportElement.parents (elem_at bounds (fst elem) (snd elem)))
      then delete_below
             (update_state bounds (fst elem) (snd elem) (\<lambda>s. s \<lparr> deleted := True \<rparr>))
             last_successfull
             (nat (parent_layer_idx + 1),
              nat (hd (SupportElement.parents (elem_at bounds (fst elem) (snd elem)))))
             (parent_layer_idx + 1)
      else update_state bounds (fst elem) (snd elem) (\<lambda>s. s \<lparr> deleted := True \<rparr>))"
  by pat_completeness auto

termination
  by (relation "measure (\<lambda>(bounds, last_successfull, elem, parent_layer_idx).
        nat (int (length bounds) - parent_layer_idx))") auto

declare delete_below.simps [simp del]

definition set_to_model_contact_to_model_gracious ::
  "clipper \<Rightarrow> TreeModelVolumes \<Rightarrow> TreeSupportSettings \<Rightarrow> SupportElements list \<Rightarrow> nat \<Rightarrow> nat \<Rightarrow>
     SupportElements list" where
  "set_to_model_contact_to_model_gracious g volumes config bounds layer i =
     (let first_elem = elem_at bounds layer i in
      case last_successfull_layer g volumes config bounds (layer, i)
             (layer_idx (SupportElement.state first_elem)) None of
        None \<Rightarrow>
          update_state bounds layer i
            (\<lambda>s. set_to_model_contact_simple g (s \<lparr> to_model_gracious := False \<rparr>)
                   (influence_area first_elem))
      | Some last_successfull \<Rightarrow>
          (let deleted_below = delete_below bounds last_successfull (layer, i)
                 (layer_idx (SupportElement.state first_elem))
           in update_state deleted_below (fst last_successfull) (snd last_successfull)
                (\<lambda>s. s \<lparr> result_on_layer := Some (move_inside_if_outside g
                        (influence_area (elem_at deleted_below (fst last_successfull)
                           (snd last_successfull)))
                        (next_position s)) \<rparr>)))"

text \<open>The loop that resets the \<^verbatim>\<open>result_on_layer\<close> of the parents of a deleted element.\<close>

fun reset_parents :: "nat \<Rightarrow> int list \<Rightarrow> SupportElements list \<Rightarrow> SupportElements list" where
  "reset_parents upper [] bounds = bounds"
| "reset_parents upper (parent_idx # rest) bounds =
     reset_parents upper rest
       (if 0 \<le> parent_idx then
          update_state bounds upper (nat parent_idx) (\<lambda>s. s \<lparr> result_on_layer := None \<rparr>)
        else bounds)"

text \<open>The body of the loop over the elements of layer 0.\<close>

definition init_element :: "clipper \<Rightarrow> nat \<Rightarrow> SupportElements list \<Rightarrow> SupportElements list" where
  "init_element g i bounds =
     (let placed = update_state bounds 0 i
            (\<lambda>s. s \<lparr> result_on_layer := Some (move_inside_if_outside g
                    (influence_area (elem_at bounds 0 i)) (next_position s)) \<rparr>)
      in set_points_on_areas g (elem_at placed 0 i) (layer_above_of bounds 0) placed)"

text \<open>The body of the loop over the elements of a layer above layer 0.\<close>

definition resolve_element ::
  "clipper \<Rightarrow> TreeModelVolumes \<Rightarrow> TreeSupportSettings \<Rightarrow> nat \<Rightarrow> nat \<Rightarrow> SupportElements list \<Rightarrow>
     SupportElements list" where
  "resolve_element g volumes config layer i bounds =
     (let s = SupportElement.state (elem_at bounds layer i);
          placed =
            (if result_on_layer s = None then
               (if to_buildplate s \<or>
                   (distance_to_top s < min_dtt_to_model config \<and> \<not> supports_roof s) then
                  update_state bounds layer i (\<lambda>s. s \<lparr> deleted := True \<rparr>)
                else if to_model_gracious s then
                  set_to_model_contact_to_model_gracious g volumes config bounds layer i
                else
                  update_state bounds layer i
                    (\<lambda>s. set_to_model_contact_simple g s
                           (influence_area (elem_at bounds layer i))))
             else bounds);
          s1 = SupportElement.state (elem_at placed layer i);
          tips_removed =
            (if \<not> deleted s1 \<and> \<not> marked s1 \<and> target_height s1 = int layer then
               update_state placed layer i (\<lambda>s. s \<lparr> deleted := True \<rparr>)
             else placed);
          elem = elem_at tips_removed layer i;
          invalidated =
            (if deleted (SupportElement.state elem) then
               (case layer_above_of bounds layer of
                  None \<Rightarrow> tips_removed
                | Some upper \<Rightarrow> reset_parents upper (SupportElement.parents elem) tips_removed)
             else tips_removed)
      in
      if \<not> deleted (SupportElement.state elem) then
        set_points_on_areas g elem (layer_above_of bounds layer) invalidated
      else invalidated)"

definition resolve_layer ::
  "clipper \<Rightarrow> TreeModelVolumes \<Rightarrow> TreeSupportSettings \<Rightarrow> nat \<Rightarrow> SupportElements list \<Rightarrow>
     SupportElements list" where
  "resolve_layer g volumes config layer bounds =
     fold (resolve_element g volumes config layer) [0..<length (bounds ! layer)]
       (unmark bounds (layer_above_of bounds layer))"

subsection \<open>Removing the deleted elements\<close>

text \<open>
  The inner loop of \<^verbatim>\<open>remove_deleted_elements\<close> that drops the deleted elements from the
  end of the layer; \<^verbatim>\<open>map_current\<close> maps an old index to the new one, or to -1.
\<close>

function pop_deleted ::
  "nat \<Rightarrow> SupportElements \<Rightarrow> int list \<Rightarrow> SupportElements \<times> int list" where
  "pop_deleted i layer map_current =
     (if i < length layer \<and> deleted (SupportElement.state (last layer)) then
        pop_deleted i (butlast layer) (map_current[length layer - 1 := - 1])
      else (layer, map_current))"
  by pat_completeness auto

termination
  by (relation "measure (\<lambda>(i, layer, map_current). length layer)") auto

declare pop_deleted.simps [simp del]

lemma pop_deleted_length:
  "length (fst (pop_deleted i layer map_current)) \<le> length layer"
proof (induction i layer map_current rule: pop_deleted.induct)
  case (1 i layer map_current)
  show ?case
  proof (cases "i < length layer \<and> deleted (SupportElement.state (last layer))")
    case True
    then have "length (fst (pop_deleted i layer map_current)) \<le> length (butlast layer)"
      using 1 by (subst pop_deleted.simps) simp
    then show ?thesis
      by simp
  next
    case False
    then show ?thesis
      by (subst pop_deleted.simps) auto
  qed
qed

lemma pop_deleted_stops:
  "pop_deleted i layer map_current = (layer', map_current') \<Longrightarrow>
   \<not> (i < length layer' \<and> deleted (SupportElement.state (last layer')))"
proof (induction i layer map_current rule: pop_deleted.induct)
  case (1 i layer map_current)
  show ?case
  proof (cases "i < length layer \<and> deleted (SupportElement.state (last layer))")
    case True
    then have "pop_deleted i (butlast layer) (map_current[length layer - 1 := - 1]) =
               (layer', map_current')"
      using 1(2) by (subst (asm) pop_deleted.simps) simp
    then show ?thesis
      using 1(1) True by blast
  next
    case False
    then have "layer' = layer"
      using 1(2) by (subst (asm) pop_deleted.simps) auto
    then show ?thesis
      using False by simp
  qed
qed

lemma pop_deleted_same:
  "pop_deleted i layer map_current = (layer', map_current') \<Longrightarrow>
   length layer' = length layer \<Longrightarrow> layer' = layer"
proof -
  assume res: "pop_deleted i layer map_current = (layer', map_current')"
    and len: "length layer' = length layer"
  show "layer' = layer"
  proof (cases "i < length layer \<and> deleted (SupportElement.state (last layer))")
    case True
    then have "pop_deleted i (butlast layer) (map_current[length layer - 1 := - 1]) =
               (layer', map_current')"
      using res by (subst (asm) pop_deleted.simps) simp
    then have "length layer' \<le> length (butlast layer)"
      using pop_deleted_length [of i "butlast layer" "map_current[length layer - 1 := - 1]"]
      by simp
    then show ?thesis
      using len True by auto
  next
    case False
    then show ?thesis
      using res by (subst (asm) pop_deleted.simps) auto
  qed
qed

text \<open>
  The loop over one layer. An element that is kept has its parent indices mapped by
  \<^verbatim>\<open>map_parents\<close>, the map of the layer above, when that map is not empty.
\<close>

definition remap_parents :: "int list \<Rightarrow> SupportElement \<Rightarrow> SupportElement" where
  "remap_parents map_parents elem =
     (if map_parents \<noteq> [] then
        elem \<lparr> SupportElement.parents :=
          map (\<lambda>parent_idx.
                 if 0 \<le> parent_idx \<and> nat parent_idx < length map_parents
                 then map_parents ! nat parent_idx else parent_idx)
            (SupportElement.parents elem) \<rparr>
      else elem)"

function compact_layer ::
  "int list \<Rightarrow> nat \<Rightarrow> SupportElements \<Rightarrow> int list \<Rightarrow> SupportElements \<times> int list" where
  "compact_layer map_parents i layer map_current =
     (if i < length layer then
        (if deleted (SupportElement.state (layer ! i)) then
           (case pop_deleted i layer
                   (if map_current = [] then map int [0..<length layer] else map_current) of
              (popped, map_popped) \<Rightarrow>
                if i + 1 < length popped then
                  compact_layer map_parents i (butlast (popped[i := last popped]))
                    (map_popped[i := - 1, length popped - 1 := int i])
                else compact_layer map_parents i popped map_popped)
         else
           compact_layer map_parents (Suc i) (layer[i := remap_parents map_parents (layer ! i)])
             map_current)
      else (layer, map_current))"
  by pat_completeness auto

termination
proof (relation "measure (\<lambda>(map_parents, i, layer, map_current). length layer - i)")
  show "wf (measure (\<lambda>(map_parents, i, layer, map_current). length layer - i))"
    by simp
next
  fix map_parents :: "int list" and i and layer :: SupportElements and map_current popped map_popped
  assume i: "i < length layer" and del: "deleted (SupportElement.state (layer ! i))"
    and p: "(popped, map_popped) = pop_deleted i layer
              (if map_current = [] then map int [0..<length layer] else map_current)"
    and less: "\<not> i + 1 < length popped"
  let ?m = "if map_current = [] then map int [0..<length layer] else map_current"
  have res: "pop_deleted i layer ?m = (popped, map_popped)"
    using p by simp
  have le: "length popped \<le> length layer"
    using pop_deleted_length [of i layer ?m] res by simp
  have "length popped \<noteq> length layer"
  proof
    assume "length popped = length layer"
    then have same: "popped = layer"
      using pop_deleted_same [OF res] by simp
    have "\<not> (i < length layer \<and> deleted (SupportElement.state (last layer)))"
      using pop_deleted_stops [OF res] same by simp
    moreover have "last layer = layer ! i"
    proof -
      have "i = length layer - 1" and "layer \<noteq> []"
        using less same i by auto
      then show ?thesis
        by (simp add: last_conv_nth)
    qed
    ultimately show False
      using i del by simp
  qed
  then show "((map_parents, i, popped, map_popped), (map_parents, i, layer, map_current))
             \<in> measure (\<lambda>(map_parents, i, layer, map_current). length layer - i)"
    using le i by simp
next
  fix map_parents :: "int list" and i and layer :: SupportElements and map_current popped map_popped
  assume i: "i < length layer" and del: "deleted (SupportElement.state (layer ! i))"
    and p: "(popped, map_popped) = pop_deleted i layer
              (if map_current = [] then map int [0..<length layer] else map_current)"
    and more: "i + 1 < length popped"
  have "length popped \<le> length layer"
    using pop_deleted_length [of i layer
        "if map_current = [] then map int [0..<length layer] else map_current"] p [symmetric]
    by simp
  then show "((map_parents, i, butlast (popped[i := last popped]),
               map_popped[i := - 1, length popped - 1 := int i]),
              (map_parents, i, layer, map_current))
             \<in> measure (\<lambda>(map_parents, i, layer, map_current). length layer - i)"
    using more by simp
next
  fix map_parents :: "int list" and i and layer :: SupportElements and map_current :: "int list"
  assume "i < length layer"
  then show "((map_parents, Suc i, layer[i := remap_parents map_parents (layer ! i)], map_current),
              (map_parents, i, layer, map_current))
             \<in> measure (\<lambda>(map_parents, i, layer, map_current). length layer - i)"
    by simp
qed

declare compact_layer.simps [simp del]

text \<open>The loop over the layers, from the top one down, given from the top.\<close>

fun remove_deleted_layers :: "SupportElements list \<Rightarrow> int list \<Rightarrow> SupportElements list" where
  "remove_deleted_layers [] map_parents = []"
| "remove_deleted_layers (layer # below) map_parents =
     (case compact_layer map_parents 0 layer [] of
        (compacted, map_current) \<Rightarrow> compacted # remove_deleted_layers below map_current)"

definition remove_deleted_elements :: "SupportElements list \<Rightarrow> SupportElements list" where
  "remove_deleted_elements bounds = rev (remove_deleted_layers (rev bounds) [])"

text \<open>
  \<^verbatim>\<open>create_nodes_from_area\<close>, as it is compiled with \<^verbatim>\<open>NDEBUG\<close>: the element positions
  before the deleted elements are removed, and the whole function.
\<close>

definition resolve_nodes ::
  "clipper \<Rightarrow> TreeModelVolumes \<Rightarrow> TreeSupportSettings \<Rightarrow> SupportElements list \<Rightarrow>
     SupportElements list" where
  "resolve_nodes g volumes config bounds =
     fold (resolve_layer g volumes config) [1..<length bounds]
       (fold (init_element g) [0..<length (bounds ! 0)]
          (unmark bounds (layer_above_of bounds 0)))"

definition create_nodes_from_area ::
  "clipper \<Rightarrow> TreeModelVolumes \<Rightarrow> TreeSupportSettings \<Rightarrow> SupportElements list \<Rightarrow>
     SupportElements list" where
  "create_nodes_from_area g volumes config bounds =
     remove_deleted_elements (resolve_nodes g volumes config bounds)"

text \<open>
  The check of the branch slopes that the function makes on the result when it is compiled
  without \<^verbatim>\<open>NDEBUG\<close>: the radius increase from the parent to the element, the shift of the
  centre, and the assertion on them.
\<close>

definition radius_increase :: "TreeSupportSettings \<Rightarrow> SupportElement \<Rightarrow> SupportElement \<Rightarrow> real" where
  "radius_increase config elem parent =
     real_of_int (getRadius_of config (SupportElement.state elem) -
                  getRadius_of config (SupportElement.state parent))"

definition shift :: "SupportElement \<Rightarrow> SupportElement \<Rightarrow> real option" where
  "shift elem parent =
     (case (result_on_layer (SupportElement.state elem),
            result_on_layer (SupportElement.state parent)) of
        (Some a, Some b) \<Rightarrow> Some (sqrt (real_of_int (squaredNorm (widened_diff a b))))
      | _ \<Rightarrow> None)"

definition slope_assertion :: "TreeSupportSettings \<Rightarrow> SupportElement \<Rightarrow> SupportElement \<Rightarrow> bool" where
  "slope_assertion config elem parent =
     (case shift elem parent of
        Some d \<Rightarrow> d < radius_increase config elem parent +
                       2 * real_of_int (maximum_move_distance_slow config)
      | None \<Rightarrow> True)"

text \<open>
  Two branches that merge on layer 0. Their areas on layer 1 are squares of 0.2 mm around
  (0, 0) and (0.7 mm, 0); each grows by the maximum move distance of 0.35 mm on the way
  down, and the area of the merged element on layer 0 is what the grown areas share, the
  points between 0.25 mm and 0.45 mm in \<open>x\<close>. Its next position is (0.35 mm, 0). The radius
  does not grow from layer 1 to layer 0.
\<close>

definition example_node :: "int \<Rightarrow> int \<Rightarrow> int list \<Rightarrow> box \<Rightarrow> SupportElement" where
  "example_node layer cx upper area_of_elem = \<lparr>
     SupportElement.state = blank_state \<lparr>
       target_height := 1, target_position := (word_of_int cx, 0),
       next_position := (word_of_int cx, 0), layer_idx := layer, effective_radius_height := 1,
       distance_to_top := nat (1 - layer), to_buildplate := True, to_model_gracious := True \<rparr>,
     SupportElement.parents = upper,
     influence_area = [box_polygon area_of_elem] \<rparr>"

definition example_move_bounds :: "SupportElements list" where
  "example_move_bounds =
     [[example_node 0 350000 [0, 1] (250000, - 450000, 450000, 450000)],
      [example_node 1 0 [] (- 100000, - 100000, 100000, 100000),
       example_node 1 700000 [] (600000, - 100000, 800000, 100000)]]"

definition example_nodes :: "SupportElements list" where
  "example_nodes =
     create_nodes_from_area box_clipper example_volumes example_config example_move_bounds"

text \<open>
  The same merge below two tips as the tip placer makes them, with their positions set: the
  resolver keeps these, and the merged element is 0.35 mm away from either.
\<close>

definition example_tip_bounds :: "SupportElements list" where
  "example_tip_bounds =
     [[example_node 0 350000 [0, 1] (250000, - 450000, 450000, 450000)],
      map (\<lambda>tip. tip \<lparr> SupportElement.state := (SupportElement.state tip)
              \<lparr> result_on_layer := Some (target_position (SupportElement.state tip)) \<rparr> \<rparr>)
        [example_node 1 0 [] (- 100000, - 100000, 100000, 100000),
         example_node 1 700000 [] (600000, - 100000, 800000, 100000)]]"

subsection \<open>Facts about coordinate validation\<close>










subsection \<open>Facts about the finalizer\<close>

text \<open>
  Claim C9. On a layer where the roof polygons and the unioned, smoothed base polygons are
  both non-empty, the interface preference is applied as follows:
  \<^verbatim>\<open>InterfaceAreaOverwritesSupport\<close> replaces the base by the difference of base and roof,
  \<^verbatim>\<open>SupportAreaOverwritesInterface\<close> replaces the roof by the difference of roof and base,
  \<^verbatim>\<open>Nothing\<close> leaves both as they are (and so do the two line-based preferences).
\<close>

theorem interface_preference_applied:
  assumes "support_roof_polygons_of g src support_roof \<noteq> []"
    and "base_layer_polygons_of g line_width resolution storage \<noteq> []"
  shows "finalize_interface_layer g interface_pref line_width resolution src
           support_roof storage =
         (let roof = support_roof_polygons_of g src support_roof;
              base = base_layer_polygons_of g line_width resolution storage
          in case interface_pref of
               InterfaceAreaOverwritesSupport \<Rightarrow> (roof, diff g base roof)
             | SupportAreaOverwritesInterface \<Rightarrow> (diff g roof base, base)
             | InterfaceLinesOverwriteSupport \<Rightarrow> (roof, base)
             | SupportLinesOverwriteInterface \<Rightarrow> (roof, base)
             | Nothing \<Rightarrow> (roof, base))"
  using assms
  by (simp add: finalize_interface_layer_def apply_interface_pref_def Let_def
      split: InterfacePreference.split)

lemma roof_example:
  "support_roof_polygons_of box_clipper [square 0 0 1000000] None = [square 0 0 1000000]"
  by (simp add: support_roof_polygons_of_def square_def box_polygon_def)

lemma base_example:
  "base_layer_polygons_of box_clipper 400000 12500 [square 5000000 0 1000000] =
     [square 5000000 0 1000000]"
  by code_simp

theorem interface_preference_applied_witness:
  "finalize_interface_layer box_clipper InterfaceAreaOverwritesSupport 400000 12500
     [square 0 0 1000000] None [square 5000000 0 1000000] =
   ([square 0 0 1000000], [square 5000000 0 1000000])"
proof -
  have roof: "support_roof_polygons_of box_clipper [square 0 0 1000000] None \<noteq> []"
    by (simp add: roof_example)
  have base: "base_layer_polygons_of box_clipper 400000 12500 [square 5000000 0 1000000] \<noteq> []"
    by (simp add: base_example)
  have d: "diff box_clipper [square 5000000 0 1000000] [square 0 0 1000000] =
             [square 5000000 0 1000000]"
    by code_simp
  show ?thesis
    using interface_preference_applied [OF roof base, of InterfaceAreaOverwritesSupport]
    by (simp add: roof_example base_example d)
qed

subsection \<open>Facts about the influence propagation\<close>

lemma accept_setting_props:
  assumes "accept_setting config parent_state settings r = (elem, bypass_merge)"
  shows "last_area_increase elem = settings"
    and "can_use_safe_radius elem \<longleftrightarrow> type settings \<noteq> Fast"
    and "\<not> use_min_distance settings \<Longrightarrow> \<not> use_min_xy_dist elem"
    and "use_min_distance settings \<Longrightarrow> use_min_xy_dist elem = use_min_xy_dist r"
    and "distance_to_top elem = distance_to_top r"
    and "to_buildplate elem = to_buildplate r"
    and "bypass_merge \<longleftrightarrow>
           \<not> move settings \<or> (use_min_distance settings \<and> distance_to_top r < tip_layers config)"
  using assms by (auto simp: accept_setting_def Let_def split: if_splits)

lemma attempt_setting_result:
  "\<exists>relevant_offset overspeed dat.
     fst (attempt_setting g config isa parent wall_restriction safe_movement_distance rad
            extra_speed extra_slow_speed slow_speed oif settings st) =
     fst (isa settings relevant_offset overspeed dat)"
proof (cases "no_error settings")
  case True
  then show ?thesis
    by (cases st) (simp add: attempt_setting_def Let_def split_beta, blast)
next
  case False
  then show ?thesis
    by (cases st) (simp add: attempt_setting_def Let_def split_beta, blast)
qed

lemma try_settings_success:
  assumes "try_settings g config isa parent wall_restriction safe_movement_distance rad
             extra_speed extra_slow_speed slow_speed oif order st =
           (Some (elem, bypass_merge, inc_wo_collision, rad'), to_bp_data, to_model_data)"
  shows "\<exists>settings \<in> set order. \<exists>relevant_offset overspeed dat r.
           fst (isa settings relevant_offset overspeed dat) = Some r \<and>
           accept_setting config (SupportElement.state parent) settings r = (elem, bypass_merge)"
  using assms
proof (induction order arbitrary: st)
  case Nil
  then show ?case by simp
next
  case (Cons settings order)
  obtain result inc st' where att:
    "attempt_setting g config isa parent wall_restriction safe_movement_distance rad
       extra_speed extra_slow_speed slow_speed oif settings st = (result, inc, st')"
    by (cases "attempt_setting g config isa parent wall_restriction safe_movement_distance
       rad extra_speed extra_slow_speed slow_speed oif settings st") auto
  show ?case
  proof (cases result)
    case None
    with Cons.prems att have
      "try_settings g config isa parent wall_restriction safe_movement_distance rad
         extra_speed extra_slow_speed slow_speed oif order st' =
       (Some (elem, bypass_merge, inc_wo_collision, rad'), to_bp_data, to_model_data)"
      by simp
    from Cons.IH [OF this] show ?thesis by auto
  next
    case (Some r)
    with Cons.prems att have acc:
      "accept_setting config (SupportElement.state parent) settings r = (elem, bypass_merge)"
      by (auto split: prod.splits)
    from attempt_setting_result [of g config isa parent wall_restriction safe_movement_distance
        rad extra_speed extra_slow_speed slow_speed oif settings st] att Some
    obtain relevant_offset overspeed dat
      where "fst (isa settings relevant_offset overspeed dat) = Some r"
      by auto
    with acc have "\<exists>relevant_offset overspeed dat r.
        fst (isa settings relevant_offset overspeed dat) = Some r \<and>
        accept_setting config (SupportElement.state parent) settings r = (elem, bypass_merge)"
      by blast
    then show ?thesis by (intro bexI [where x = settings]) simp_all
  qed
qed

lemma element_attempts_success:
  assumes "element_attempts g volumes config pd isa layer mergelayer parent =
           (Some (elem, bypass_merge, inc_wo_collision, rad), to_bp_data, to_model_data)"
  shows "\<exists>settings relevant_offset overspeed dat r.
           fst (isa settings relevant_offset overspeed dat) = Some r \<and>
           accept_setting config (SupportElement.state parent) settings r = (elem, bypass_merge)"
  using assms unfolding element_attempts_def Let_def split_beta
  by (blast dest: try_settings_success)

lemma stored_state:
  assumes "element_attempts g volumes config pd isa layer mergelayer parent =
           (Some (elem, bypass_merge, inc_wo_collision, rad), to_bp_data, to_model_data)"
  shows "SupportElementMerging.state
           (fst (increase_areas_one_layer_element g volumes config pd isa layer mergelayer parent
              merging_area)) = elem"
  using assms by (simp add: increase_areas_one_layer_element_def Let_def)

lemma successful_setting_accepted:
  assumes "successful_setting g config isa parent wall_restriction safe_movement_distance rad
             extra_speed extra_slow_speed slow_speed oif order st = Some settings"
  shows "\<exists>r elem bypass_merge inc_wo_collision rad' to_bp_data to_model_data.
           try_settings g config isa parent wall_restriction safe_movement_distance rad
             extra_speed extra_slow_speed slow_speed oif order st =
           (Some (elem, bypass_merge, inc_wo_collision, rad'), to_bp_data, to_model_data) \<and>
           accept_setting config (SupportElement.state parent) settings r = (elem, bypass_merge)"
  using assms
proof (induction order arbitrary: st)
  case Nil
  then show ?case by simp
next
  case (Cons s order)
  obtain result inc st' where att:
    "attempt_setting g config isa parent wall_restriction safe_movement_distance rad
       extra_speed extra_slow_speed slow_speed oif s st = (result, inc, st')"
    by (cases "attempt_setting g config isa parent wall_restriction safe_movement_distance
       rad extra_speed extra_slow_speed slow_speed oif s st") auto
  show ?case
  proof (cases result)
    case None
    with Cons.prems att have
      "successful_setting g config isa parent wall_restriction safe_movement_distance rad
         extra_speed extra_slow_speed slow_speed oif order st' = Some settings"
      by simp
    from Cons.IH [OF this] show ?thesis
      using att None by simp
  next
    case (Some r)
    with Cons.prems att have "s = settings"
      by simp
    then show ?thesis
      using att Some
      by (cases "accept_setting config (SupportElement.state parent) settings r") auto
  qed
qed

lemma element_successful_setting_accepted:
  assumes "element_successful_setting g volumes config pd isa layer mergelayer parent =
           Some settings"
  shows "\<exists>r elem bypass_merge inc_wo_collision rad to_bp_data to_model_data.
           element_attempts g volumes config pd isa layer mergelayer parent =
           (Some (elem, bypass_merge, inc_wo_collision, rad), to_bp_data, to_model_data) \<and>
           accept_setting config (SupportElement.state parent) settings r = (elem, bypass_merge)"
  using assms unfolding element_successful_setting_def element_attempts_def Let_def split_beta
  by (rule successful_setting_accepted)

lemma successful_setting_none:
  assumes "successful_setting g config isa parent wall_restriction safe_movement_distance rad
             extra_speed extra_slow_speed slow_speed oif order st = None"
  shows "fst (try_settings g config isa parent wall_restriction safe_movement_distance rad
                extra_speed extra_slow_speed slow_speed oif order st) = None"
  using assms
proof (induction order arbitrary: st)
  case Nil
  then show ?case by simp
next
  case (Cons s order)
  obtain result inc st' where att:
    "attempt_setting g config isa parent wall_restriction safe_movement_distance rad
       extra_speed extra_slow_speed slow_speed oif s st = (result, inc, st')"
    by (cases "attempt_setting g config isa parent wall_restriction safe_movement_distance
       rad extra_speed extra_slow_speed slow_speed oif s st") auto
  show ?case
  proof (cases result)
    case None
    with Cons.prems att have
      "successful_setting g config isa parent wall_restriction safe_movement_distance rad
         extra_speed extra_slow_speed slow_speed oif order st' = None"
      by simp
    from Cons.IH [OF this] show ?thesis
      using att None by simp
  next
    case (Some r)
    with Cons.prems att show ?thesis
      by simp
  qed
qed

text \<open>No setting succeeds exactly when the loop leaves \<^verbatim>\<open>add\<close> false.\<close>

lemma no_successful_setting_iff:
  "element_successful_setting g volumes config pd isa layer mergelayer parent = None \<longleftrightarrow>
   fst (element_attempts g volumes config pd isa layer mergelayer parent) = None"
proof
  assume "element_successful_setting g volumes config pd isa layer mergelayer parent = None"
  then show "fst (element_attempts g volumes config pd isa layer mergelayer parent) = None"
    unfolding element_successful_setting_def element_attempts_def Let_def split_beta
    by (rule successful_setting_none)
next
  assume none: "fst (element_attempts g volumes config pd isa layer mergelayer parent) = None"
  show "element_successful_setting g volumes config pd isa layer mergelayer parent = None"
  proof (rule ccontr)
    assume "element_successful_setting g volumes config pd isa layer mergelayer parent \<noteq> None"
    then obtain settings where
      "element_successful_setting g volumes config pd isa layer mergelayer parent = Some settings"
      by auto
    from element_successful_setting_accepted [OF this] none show False
      by auto
  qed
qed

text \<open>
  Claim C3. When a setting succeeds for an element in \<^verbatim>\<open>increase_areas_one_layer\<close>, the
  child state that is stored records that setting in \<^verbatim>\<open>last_area_increase\<close>; its
  \<^verbatim>\<open>can_use_safe_radius\<close> holds exactly when the avoidance type of the setting is not
  \<^verbatim>\<open>Fast\<close>, and its \<^verbatim>\<open>use_min_xy_dist\<close> is false when the setting used the regular xy
  distance.
\<close>

theorem successful_setting_updates_child:
  assumes "element_successful_setting g volumes config pd isa layer mergelayer parent =
           Some settings"
  shows "last_area_increase
           (stored_child g volumes config pd isa layer mergelayer parent merging_area) =
         settings \<and>
         (can_use_safe_radius
            (stored_child g volumes config pd isa layer mergelayer parent merging_area) \<longleftrightarrow>
          type settings \<noteq> Fast) \<and>
         (\<not> use_min_distance settings \<longrightarrow>
          \<not> use_min_xy_dist
              (stored_child g volumes config pd isa layer mergelayer parent merging_area))"
proof -
  from element_successful_setting_accepted [OF assms] obtain r elem bypass_merge
      inc_wo_collision rad to_bp_data to_model_data
    where att: "element_attempts g volumes config pd isa layer mergelayer parent =
           (Some (elem, bypass_merge, inc_wo_collision, rad), to_bp_data, to_model_data)"
      and acc: "accept_setting config (SupportElement.state parent) settings r =
           (elem, bypass_merge)"
    by blast
  have "stored_child g volumes config pd isa layer mergelayer parent merging_area = elem"
    unfolding stored_child_def by (rule stored_state [OF att])
  with accept_setting_props(1-3) [OF acc] show ?thesis
    by simp
qed

text \<open>
  In the open the first setting of the order succeeds: slow, with the regular distance. For
  the tip that may not use the safe radius, in the narrow place, the second one does: fast,
  without a move.
\<close>

lemma example_successful_free:
  "element_successful_setting box_clipper example_volumes example_config
     example_propagate_down example_increase_free 5 True example_parent =
   Some (mk_settings Slow 190005 True True False True)"
  by code_simp

lemma example_successful_fast:
  "element_successful_setting box_clipper example_volumes example_config
     example_propagate_down example_increase_fast 5 True example_parent_unsafe =
   Some (mk_settings Fast 190005 True True False False)"
  by code_simp

theorem successful_setting_updates_child_witness:
  "can_use_safe_radius
     (stored_child box_clipper example_volumes example_config example_propagate_down
        example_increase_free 5 True example_parent example_entry) \<and>
   \<not> use_min_xy_dist
       (stored_child box_clipper example_volumes example_config example_propagate_down
          example_increase_free 5 True example_parent example_entry) \<and>
   last_area_increase
     (stored_child box_clipper example_volumes example_config example_propagate_down
        example_increase_free 5 True example_parent example_entry) =
   mk_settings Slow 190005 True True False True \<and>
   \<not> can_use_safe_radius
       (stored_child box_clipper example_volumes example_config example_propagate_down
          example_increase_fast 5 True example_parent_unsafe example_entry) \<and>
   \<not> use_min_xy_dist
       (stored_child box_clipper example_volumes example_config example_propagate_down
          example_increase_fast 5 True example_parent_unsafe example_entry) \<and>
   last_area_increase
     (stored_child box_clipper example_volumes example_config example_propagate_down
        example_increase_fast 5 True example_parent_unsafe example_entry) =
   mk_settings Fast 190005 True True False False"
  using successful_setting_updates_child [OF example_successful_free, of example_entry]
    successful_setting_updates_child [OF example_successful_fast, of example_entry]
  by (simp add: mk_settings_def)

lemma bypass_merge_iff:
  assumes "element_attempts g volumes config pd isa layer mergelayer parent =
           (Some (elem, bypass_merge, inc_wo_collision, rad), to_bp_data, to_model_data)"
  shows "bypass_merge \<longleftrightarrow>
           \<not> move (last_area_increase elem) \<or>
           (use_min_distance (last_area_increase elem) \<and>
            distance_to_top elem < tip_layers config)"
proof -
  from element_attempts_success [OF assms] obtain settings r where
    acc: "accept_setting config (SupportElement.state parent) settings r = (elem, bypass_merge)"
    by blast
  from accept_setting_props(1,5,7) [OF acc] show ?thesis by simp
qed

text \<open>
  Claim C4, as the code has it. An element produced by a successful setting with
  \<^verbatim>\<open>move = false\<close>, or with \<^verbatim>\<open>use_min_distance = true\<close> while its distance to the top is
  below \<^verbatim>\<open>tip_layers\<close>, bypasses the merger: \<^verbatim>\<open>bypass_merge\<close> is set, and when its
  influence area is not empty \<^verbatim>\<open>create_layer_pathing\<close> moves it to the output layer before
  the merger runs, with the influence area exactly as computed.
\<close>

theorem bypassing_element_placed_before_merger:
  assumes att: "element_attempts g volumes config pd isa layer mergelayer parent =
           (Some (elem, bypass_merge, inc_wo_collision, rad), to_bp_data, to_model_data)"
    and setting: "\<not> move (last_area_increase elem) \<or>
           (use_min_distance (last_area_increase elem) \<and>
            distance_to_top elem < tip_layers config)"
    and fresh: "to_bp_areas (areas merging_area) = []" "to_model_areas (areas merging_area) = []"
    and nonempty: "max_influence_area_of g volumes layer elem rad inc_wo_collision
                     to_bp_data to_model_data \<noteq> []"
  shows "bypass_merge \<and>
         place_constructed
           [fst (increase_areas_one_layer_element g volumes config pd isa layer mergelayer parent
              merging_area)] this_layer =
         ([], this_layer @
              [\<lparr> SupportElement.state = elem,
                 SupportElement.parents = SupportElementMerging.parents merging_area,
                 influence_area =
                   max_influence_area_of g volumes layer elem rad inc_wo_collision
                     to_bp_data to_model_data \<rparr>])"
proof -
  from bypass_merge_iff [OF att] setting have b: bypass_merge by simp
  with att fresh nonempty show ?thesis
    by (simp add: increase_areas_one_layer_element_def Let_def)
qed

lemma example_attempts_tip:
  "element_attempts box_clipper example_volumes (example_config \<lparr> tip_layers := 10 \<rparr>)
     example_propagate_down example_increase 5 True example_parent =
   (Some ((example_propagate_down example_state)
            \<lparr> effective_radius_height := 6,
              last_area_increase := mk_settings Slow 190005 True True True True \<rparr>,
          True, [square 0 0 1190004], 1000000),
    [square 0 0 1190004], [square 0 0 1190004])"
  by code_simp

lemma example_max_influence_area:
  "max_influence_area_of box_clipper example_volumes 5
     ((example_propagate_down example_state)
        \<lparr> effective_radius_height := 6,
          last_area_increase := mk_settings Slow 190005 True True True True \<rparr>)
     1000000 [square 0 0 1190004] [square 0 0 1190004] [square 0 0 1190004] =
   [square 0 0 1190004]"
  by code_simp

theorem bypassing_element_placed_before_merger_witness:
  "place_constructed [fst example_run_tip] [] =
   ([], [\<lparr> SupportElement.state =
            (example_propagate_down example_state)
              \<lparr> effective_radius_height := 6,
                last_area_increase := mk_settings Slow 190005 True True True True \<rparr>,
          SupportElement.parents = [0],
          influence_area = [square 0 0 1190004] \<rparr>])"
proof -
  have setting:
    "\<not> move (last_area_increase ((example_propagate_down example_state)
         \<lparr> effective_radius_height := 6,
           last_area_increase := mk_settings Slow 190005 True True True True \<rparr>)) \<or>
     (use_min_distance (last_area_increase ((example_propagate_down example_state)
         \<lparr> effective_radius_height := 6,
           last_area_increase := mk_settings Slow 190005 True True True True \<rparr>)) \<and>
      distance_to_top ((example_propagate_down example_state)
         \<lparr> effective_radius_height := 6,
           last_area_increase := mk_settings Slow 190005 True True True True \<rparr>)
        < tip_layers (example_config \<lparr> tip_layers := 10 \<rparr>))"
    by (simp add: mk_settings_def example_propagate_down_def example_state_def)
  have fresh: "to_bp_areas (areas example_entry) = []" "to_model_areas (areas example_entry) = []"
    by (simp_all add: example_entry_def)
  have nonempty:
    "max_influence_area_of box_clipper example_volumes 5
       ((example_propagate_down example_state)
          \<lparr> effective_radius_height := 6,
            last_area_increase := mk_settings Slow 190005 True True True True \<rparr>)
       1000000 [square 0 0 1190004] [square 0 0 1190004] [square 0 0 1190004] \<noteq> []"
    by (simp add: example_max_influence_area)
  show ?thesis
    using bypassing_element_placed_before_merger
      [OF example_attempts_tip setting fresh nonempty, of "[]"]
    by (simp add: example_run_tip_def example_max_influence_area example_entry_def)
qed

text \<open>
  Without the condition on the distance to the top the statement fails: six layers below its
  tip, with \<^verbatim>\<open>tip_layers = 3\<close>, an element whose successful setting moves and uses the
  minimum distance is kept for the merger and not moved to the output.
\<close>

theorem min_distance_setting_not_bypassed:
  "use_min_distance (last_area_increase (SupportElementMerging.state (fst example_run))) \<and>
   move (last_area_increase (SupportElementMerging.state (fst example_run))) \<and>
   place_constructed [fst example_run] [] = ([fst example_run], [])"
  by code_simp

subsection \<open>Facts about the merger\<close>

lemma merge_refused_unchanged:
  assumes "\<not> fst (merge_influence_areas_two_elements g volumes config blank layer dst src)"
  shows "merge_influence_areas_two_elements g volumes config blank layer dst src = (False, dst, src)"
  using assms
  by (simp add: merge_influence_areas_two_elements_def Let_def split: if_splits prod.splits)

text \<open>
  Claim C5. \<^verbatim>\<open>merge_influence_areas_two_elements(dst, src)\<close> returns false and leaves both
  elements as they were whenever the two differ in \<^verbatim>\<open>to_model_gracious\<close>, or differ in
  \<^verbatim>\<open>use_min_xy_dist\<close>, or the intersection has an area of at most the tiny-area threshold,
  or the intersection eroded by 0.025 mm has. The intersection is \<open>merge_intersect\<close>: the
  to-buildplate areas (when both reach the build plate, else the to-model areas) of the
  element with the smaller collision radius, offset by the difference of the real radii, cut
  with those of the other element.
\<close>

theorem merge_refused:
  assumes "to_model_gracious (SupportElementMerging.state dst) \<noteq>
             to_model_gracious (SupportElementMerging.state src) \<or>
           use_min_xy_dist (SupportElementMerging.state dst) \<noteq>
             use_min_xy_dist (SupportElementMerging.state src) \<or>
           area g (merge_intersect g volumes config layer dst src) \<le> tiny_area_threshold g \<or>
           area g (offset g (merge_intersect g volumes config layer dst src) (scaled g (- 0.025)))
             \<le> tiny_area_threshold g"
  shows "merge_influence_areas_two_elements g volumes config blank layer dst src = (False, dst, src)"
  using assms
  by (auto simp add: merge_influence_areas_two_elements_def Let_def)

text \<open>
  An array in which no entry merges with an entry behind it passes through every loop of the
  merger unchanged.
\<close>

lemma leaves_scan_none:
  assumes "\<forall>j \<in> set todo. merge2 i j = (False, i, j)"
  shows "leaves_scan merge2 i tested todo = None"
  using assms by (induction todo arbitrary: tested) simp_all

lemma leaves_loop_unchanged:
  assumes "sorted_wrt (\<lambda>a b. merge2 a b = (False, a, b)) (i # rest)"
  shows "leaves_loop merge2 done i rest = done @ i # rest"
  using assms
proof (induction rest arbitrary: "done" i)
  case Nil
  show ?case by (subst leaves_loop.simps) simp
next
  case (Cons j rest)
  then have none: "leaves_scan merge2 i [] (j # rest) = None"
    by (intro leaves_scan_none) simp
  from Cons.prems have "sorted_wrt (\<lambda>a b. merge2 a b = (False, a, b)) (j # rest)"
    by simp
  from Cons.IH [OF this, of "done @ [i]"] none show ?case
    by (subst leaves_loop.simps) simp
qed

lemma leaves_unchanged:
  assumes "sorted_wrt (\<lambda>a b. merge2 a b = (False, a, b)) bucket"
  shows "merge_influence_areas_leaves merge2 bucket = bucket"
proof (cases bucket)
  case Nil
  then show ?thesis by (simp add: merge_influence_areas_leaves_def)
next
  case (Cons i rest)
  with assms leaves_loop_unchanged [of merge2 i rest "[]"] show ?thesis
    by (simp add: merge_influence_areas_leaves_def)
qed

lemma two_sets_find_none:
  assumes "\<forall>d \<in> set dst. merge2 d src = (False, d, src)"
  shows "two_sets_find merge2 front dst src = None"
  using assms by (induction dst arbitrary: front) simp_all

lemma two_sets_loop_unchanged:
  assumes "\<forall>d \<in> set dst. \<forall>s \<in> set srcs. merge2 d s = (False, d, s)"
  shows "two_sets_loop merge2 dst unmerged srcs = dst @ unmerged @ srcs"
  using assms
proof (induction srcs arbitrary: unmerged)
  case Nil
  show ?case by simp
next
  case (Cons s srcs)
  then have "two_sets_find merge2 [] dst s = None"
    by (intro two_sets_find_none) simp
  with Cons show ?case by simp
qed

lemma two_sets_unchanged:
  assumes "sorted_wrt (\<lambda>a b. merge2 a b = (False, a, b)) (dst @ src)"
  shows "merge_influence_areas_two_sets merge2 dst src = dst @ src"
  using assms two_sets_loop_unchanged [of dst src merge2 "[]"]
  by (simp add: merge_influence_areas_two_sets_def sorted_wrt_append)

lemma merge_pairs_unchanged:
  assumes "sorted_wrt (\<lambda>a b. merge2 a b = (False, a, b)) (concat buckets)"
  shows "concat (merge_pairs merge2 buckets) = concat buckets"
  using assms
proof (induction merge2 buckets rule: merge_pairs.induct)
  case (3 merge2 a b rest)
  from "3.prems" have ab: "sorted_wrt (\<lambda>a b. merge2 a b = (False, a, b)) (a @ b)"
    and rest: "sorted_wrt (\<lambda>a b. merge2 a b = (False, a, b)) (concat rest)"
    by (auto simp: sorted_wrt_append)
  from "3.IH" [OF rest] two_sets_unchanged [OF ab] show ?case by simp
qed simp_all

lemma merge_rounds_unchanged:
  assumes "sorted_wrt (\<lambda>a b. merge2 a b = (False, a, b)) (concat buckets)"
  shows "concat (merge_rounds merge2 buckets) = concat buckets"
  using assms
proof (induction merge2 buckets rule: merge_rounds.induct)
  case (1 merge2 buckets)
  show ?case
  proof (cases "length buckets > 1")
    case True
    from merge_pairs_unchanged [OF "1.prems"]
    have eq: "concat (merge_pairs merge2 buckets) = concat buckets" .
    with "1.prems" have "sorted_wrt (\<lambda>a b. merge2 a b = (False, a, b))
        (concat (merge_pairs merge2 buckets))" by simp
    from "1.IH" [OF True this] eq True show ?thesis
      by (subst merge_rounds.simps) simp
  next
    case False
    then show ?thesis by (subst merge_rounds.simps) simp
  qed
qed

lemma first_buckets_concat:
  "first_buckets n bucket_size xs = (buckets, rest) \<Longrightarrow> concat buckets @ rest = xs"
proof (induction n arbitrary: xs buckets)
  case 0
  then show ?case by simp
next
  case (Suc n)
  then show ?case by (auto split: prod.splits)
qed

lemma sorted_wrt_bucket:
  assumes "sorted_wrt P (concat buckets)" and "b \<in> set buckets"
  shows "sorted_wrt P b"
  using assms by (induction buckets) (auto simp: sorted_wrt_append)

lemma merge_buckets_unchanged:
  assumes sorted: "sorted_wrt (\<lambda>a b. merge2 a b = (False, a, b)) xs"
  shows "merge_buckets merge2 n k xs = xs"
proof -
  obtain buckets rest where fb: "first_buckets n k xs = (buckets, rest)"
    by (cases "first_buckets n k xs") auto
  from first_buckets_concat [OF fb] have whole: "concat buckets @ rest = xs" .
  have sb: "sorted_wrt (\<lambda>a b. merge2 a b = (False, a, b)) (concat buckets)"
    using sorted unfolding whole [symmetric] by (simp add: sorted_wrt_append)
  have leaves: "map (merge_influence_areas_leaves merge2) buckets = buckets"
  proof (rule map_idI)
    fix b assume "b \<in> set buckets"
    from sorted_wrt_bucket [OF sb this] show "merge_influence_areas_leaves merge2 b = b"
      by (rule leaves_unchanged)
  qed
  have all: "concat (buckets @ (if rest \<noteq> [] then [rest] else [])) = xs"
    using whole by auto
  with sorted
  have "concat (merge_rounds merge2 (buckets @ (if rest \<noteq> [] then [rest] else []))) =
      concat (buckets @ (if rest \<noteq> [] then [rest] else []))"
    by (intro merge_rounds_unchanged) simp
  with all leaves fb show ?thesis
    by (simp add: merge_buckets_def)
qed

text \<open>
  Claim C6, as the code has it. When no entry of the array, as the AABB tree build ordered it,
  merges with an entry behind it, \<^verbatim>\<open>merge_influence_areas\<close> performs no merge and returns
  that array: elements and areas are unchanged up to the reordering of the build.
\<close>

theorem merger_without_mergeable_pair:
  assumes "sorted_wrt (\<lambda>a b. \<not> mergeable g volumes config blank layer a b)
             (build_modify_input entries)"
    and "entries \<noteq> []"
  shows "merge_influence_areas g volumes config blank build_modify_input num_threads layer
           entries = build_modify_input entries"
proof -
  have "\<And>a b. \<not> mergeable g volumes config blank layer a b \<Longrightarrow>
      merge_influence_areas_two_elements g volumes config blank layer a b = (False, a, b)"
    unfolding mergeable_def by (rule merge_refused_unchanged)
  with assms(1)
  have "sorted_wrt (\<lambda>a b. merge_influence_areas_two_elements g volumes config blank layer a b
          = (False, a, b)) (build_modify_input entries)"
    by (rule sorted_wrt_mono_rel [rotated])
  from merge_buckets_unchanged [OF this] assms(2) show ?thesis
    by (simp add: merge_influence_areas_def Let_def)
qed

theorem merge_refused_witness:
  "merge_influence_areas_two_elements box_clipper example_volumes example_config blank_state 5
     (example_merging 0 1 1 True 0) example_non_gracious =
   (False, example_merging 0 1 1 True 0, example_non_gracious) \<and>
   merge_influence_areas_two_elements box_clipper example_volumes example_config blank_state 5
     (example_merging 0 2 10 True 0) (example_merging 1 3 10 True 9000000) =
   (False, example_merging 0 2 10 True 0, example_merging 1 3 10 True 9000000)"
proof -
  have gracious:
    "to_model_gracious (SupportElementMerging.state (example_merging 0 1 1 True 0)) \<noteq>
     to_model_gracious (SupportElementMerging.state example_non_gracious)"
    by (simp add: example_merging_def example_non_gracious_def)
  have apart:
    "area box_clipper (merge_intersect box_clipper example_volumes example_config 5
       (example_merging 0 2 10 True 0) (example_merging 1 3 10 True 9000000))
     \<le> tiny_area_threshold box_clipper"
    by code_simp
  show ?thesis
    using merge_refused [of "example_merging 0 1 1 True 0" example_non_gracious box_clipper
        example_volumes example_config 5 blank_state]
      merge_refused [of "example_merging 0 2 10 True 0" "example_merging 1 3 10 True 9000000"
        box_clipper example_volumes example_config 5 blank_state]
      gracious apart
    by simp
qed

lemma example_pair_unmergeable:
  "\<not> mergeable box_clipper example_volumes example_config blank_state 5
       (example_merging 0 1 1 True 0) (example_merging 1 3 3 True 200000)"
  by code_simp

theorem merger_without_mergeable_pair_witness:
  "example_merger 1 [example_merging 0 1 1 True 0, example_merging 1 3 3 True 200000] =
     [example_merging 0 1 1 True 0, example_merging 1 3 3 True 200000]"
  using merger_without_mergeable_pair [of box_clipper example_volumes example_config blank_state
      5 "\<lambda>xs. xs" "[example_merging 0 1 1 True 0, example_merging 1 3 3 True 200000]" 1]
    example_pair_unmergeable
  by (simp add: example_merger_def)

text \<open>
  The output of a run need not be such an array, so a second run can merge again. Four
  entries lie side by side with overlapping areas. The first neither merges with the second
  (both are close to their tips) nor with the third (which has the bigger radius and may not
  use the safe radius). The second takes in the third and then the fourth; the merged entry
  is far from its tip and may use the safe radius, but the first entry, in front of it, is not
  tested again. A second run merges the two entries that the first run returned.
\<close>

theorem merger_second_run_merges:
  "map SupportElementMerging.parents (example_merger 1 example_entries) = [[0], [1, 2, 3]] \<and>
   map SupportElementMerging.parents (example_merger 1 (example_merger 1 example_entries)) =
     [[0, 1, 2, 3]]"
  by code_simp

text \<open>The same happens with two threads, and with the array in the opposite order.\<close>

lemma merger_second_run_merges_two_threads:
  "map SupportElementMerging.parents (example_merger 2 example_entries) = [[0], [1, 2, 3]] \<and>
   map SupportElementMerging.parents (example_merger 2 (example_merger 2 example_entries)) =
     [[0, 1, 2, 3]]"
  by code_simp

lemma merger_second_run_merges_reversed:
  "map SupportElementMerging.parents (example_merger 1 (rev example_entries)) =
     [[3], [2, 1, 0]] \<and>
   map SupportElementMerging.parents
     (example_merger 1 (example_merger 1 (rev example_entries))) = [[3, 2, 1, 0]]"
  by code_simp

subsection \<open>Facts about tip placement\<close>

lemma tips_from_refl: "tips_from st pts st"
  by (simp add: tips_from_def)

lemma tips_from_trans:
  assumes "tips_from st pts st'" and "tips_from st' pts' st''" and "pts \<subseteq> qs" and "pts' \<subseteq> qs"
  shows "tips_from st qs st''"
  using assms unfolding tips_from_def by blast

lemma addPoint_tips:
  assumes "addPointAsInfluenceArea config blank base_circle force_tip_to_roof p 0 insert_layer
             dont_move roof skip_oval st = Inr st'"
  shows "tips_from st {p} st'"
  using assms
  by (auto simp: tips_from_def addPointAsInfluenceArea_def Let_def tip_of_def
      split: if_splits sum.splits)

lemma add_points_tips:
  assumes "add_points config blank base_circle force_tip_to_roof 0 insert_layer dont_move roof
             skip_oval line st = Inr st'"
  shows "tips_from st (set line) st'"
  using assms
proof (induction line arbitrary: st)
  case Nil
  then show ?case by (simp add: tips_from_refl)
next
  case (Cons p line)
  from Cons.prems obtain st1 where
    first: "addPointAsInfluenceArea config blank base_circle force_tip_to_roof p 0 insert_layer
              dont_move roof skip_oval st = Inr st1"
    and rest: "add_points config blank base_circle force_tip_to_roof 0 insert_layer dont_move
              roof skip_oval line st1 = Inr st'"
    by (auto split: sum.splits)
  show ?case
    by (rule tips_from_trans [OF addPoint_tips [OF first] Cons.IH [OF rest]]) auto
qed

lemma split_line_points:
  assumes "split_line f line (keep, set_free, current_keep, resulting_line) =
           (keep', set_free', current_keep', resulting_line')"
  shows "set (concat keep') \<union> set (concat set_free') \<union> set resulting_line' \<subseteq>
         set (concat keep) \<union> set (concat set_free) \<union> set resulting_line \<union> set line"
  using assms
proof (induction line arbitrary: keep set_free current_keep resulting_line)
  case Nil
  then show ?case by auto
next
  case (Cons me rest)
  show ?case
  proof (cases "f me \<noteq> current_keep")
    case False
    with Cons.prems have
      "split_line f rest (keep, set_free, current_keep, resulting_line @ [me]) =
       (keep', set_free', current_keep', resulting_line')" by simp
    from Cons.IH [OF this] show ?thesis by auto
  next
    case True
    show ?thesis
    proof (cases "resulting_line = []")
      case True
      with \<open>f me \<noteq> current_keep\<close> Cons.prems have
        "split_line f rest (keep, set_free, \<not> current_keep, [me]) =
         (keep', set_free', current_keep', resulting_line')" by simp
      from Cons.IH [OF this] show ?thesis by auto
    next
      case False
      show ?thesis
      proof (cases current_keep)
        case True
        with False \<open>f me \<noteq> current_keep\<close> Cons.prems have
          "split_line f rest (keep @ [resulting_line], set_free, \<not> current_keep, [me]) =
           (keep', set_free', current_keep', resulting_line')" by simp
        from Cons.IH [OF this] show ?thesis by auto
      next
        case cf: False
        with False \<open>f me \<noteq> current_keep\<close> Cons.prems have
          "split_line f rest (keep, set_free @ [resulting_line], \<not> current_keep, [me]) =
           (keep', set_free', current_keep', resulting_line')" by simp
        from Cons.IH [OF this] show ?thesis by auto
      qed
    qed
  qed
qed

lemma split_all_points:
  assumes "split_all f lines (keep, set_free) = (keep', set_free')"
  shows "set (concat keep') \<union> set (concat set_free') \<subseteq>
         set (concat keep) \<union> set (concat set_free) \<union> set (concat lines)"
  using assms
proof (induction lines arbitrary: keep set_free)
  case Nil
  then show ?case by auto
next
  case (Cons line rest)
  obtain k s ck rl where sl: "split_line f line (keep, set_free, True, []) = (k, s, ck, rl)"
    by (cases "split_line f line (keep, set_free, True, [])") auto
  from split_line_points [OF sl]
  have pts: "set (concat k) \<union> set (concat s) \<union> set rl \<subseteq>
      set (concat keep) \<union> set (concat set_free) \<union> set line" by simp
  obtain k2 s2 where acc:
    "(if rl \<noteq> [] then (if ck then (k @ [rl], s) else (k, s @ [rl])) else (k, s)) = (k2, s2)"
    by (cases "(if rl \<noteq> [] then (if ck then (k @ [rl], s) else (k, s @ [rl])) else (k, s))")
  from acc have "set (concat k2) \<union> set (concat s2) \<subseteq> set (concat k) \<union> set (concat s) \<union> set rl"
    by (auto split: if_splits)
  with pts have pts2: "set (concat k2) \<union> set (concat s2) \<subseteq>
      set (concat keep) \<union> set (concat set_free) \<union> set line"
    by blast
  from Cons.prems sl acc have "split_all f rest (k2, s2) = (keep', set_free')"
    by simp
  from Cons.IH [OF this]
  have "set (concat keep') \<union> set (concat set_free') \<subseteq>
      set (concat k2) \<union> set (concat s2) \<union> set (concat rest)" .
  moreover have "set (concat (line # rest)) = set line \<union> set (concat rest)"
    by (simp only: concat.simps set_append)
  ultimately show ?case using pts2 by blast
qed

lemma split_lines_points:
  assumes "split_lines lines f = Inr (keep, set_free)"
  shows "set (concat keep) \<union> set (concat set_free) \<subseteq> set (concat lines)"
proof -
  from assms have "split_all f lines ([], []) = (keep, set_free)"
    by (auto simp: split_lines_def checked_def split: prod.splits sum.splits)
  from split_all_points [OF this] show ?thesis by simp
qed

lemma add_roofs_move_bounds:
  "move_bounds (add_roofs g roof_circle lines layer st) = move_bounds st"
  by (simp add: add_roofs_def Let_def)

lemma tips_from_add_roofs:
  "tips_from st pts st' \<Longrightarrow> tips_from st pts (add_roofs g roof_circle lines layer st')"
  by (simp add: tips_from_def add_roofs_move_bounds)

lemma roof_tip_loop_tips:
  assumes "roof_tip_loop g volumes config blank base_circle roof_circle force_tip_to_roof
             roof_tip_layers insert_layer_idx dtt_roof_tip lines st =
           Inr (dtt', lines', st')"
  shows "tips_from st (set (concat lines)) st' \<and> set (concat lines') \<subseteq> set (concat lines)"
  using assms
proof (induction g volumes config blank base_circle roof_circle force_tip_to_roof
    roof_tip_layers insert_layer_idx dtt_roof_tip lines st rule: roof_tip_loop.induct)
  case (1 g volumes config blank base_circle roof_circle force_tip_to_roof roof_tip_layers
      insert_layer_idx dtt_roof_tip lines st)
  show ?case
  proof (cases "dtt_roof_tip < roof_tip_layers \<and>
                to_size_t (insert_layer_idx - int dtt_roof_tip) \<ge> 1")
    case False
    with "1.prems" show ?thesis
      by (subst (asm) roof_tip_loop.simps) (simp add: tips_from_refl)
  next
    case True
    from True "1.prems" obtain keep set_free where s1:
      "split_lines lines (evaluate_point_for_next_layer_function g volumes config
         (insert_layer_idx - int dtt_roof_tip)) = Inr (keep, set_free)"
      by (subst (asm) roof_tip_loop.simps) (auto split: sum.splits)
    from True "1.prems" s1 obtain lines2 set_free2 where s2:
      "split_lines keep (\<lambda>p. True) = Inr (lines2, set_free2)"
      by (subst (asm) roof_tip_loop.simps) (auto split: sum.splits)
    from True "1.prems" s1 s2 obtain st1 where added:
      "add_points config blank base_circle force_tip_to_roof 0
         (insert_layer_idx - int dtt_roof_tip) (roof_tip_layers - dtt_roof_tip)
         (dtt_roof_tip \<noteq> 0) False (concat (set_free @ set_free2)) st = Inr st1"
      by (subst (asm) roof_tip_loop.simps) (auto split: sum.splits)
    define st2 where "st2 =
      add_roofs g roof_circle lines2 (insert_layer_idx - int dtt_roof_tip) st1"
    from True "1.prems" s1 s2 added have rec:
      "roof_tip_loop g volumes config blank base_circle roof_circle force_tip_to_roof
         roof_tip_layers insert_layer_idx (Suc dtt_roof_tip) lines2 st2 = Inr (dtt', lines', st')"
      by (subst (asm) roof_tip_loop.simps) (simp add: st2_def)
    from "1.IH" [OF True s1 _ s2 _ added rec [unfolded st2_def]]
    have ih: "tips_from st2 (set (concat lines2)) st'"
      and sub: "set (concat lines') \<subseteq> set (concat lines2)"
      by (simp_all add: st2_def)
    have "set (concat (set_free @ set_free2)) = set (concat set_free) \<union> set (concat set_free2)"
      by (simp only: concat_append set_append)
    with split_lines_points [OF s1] split_lines_points [OF s2]
    have p1: "set (concat (set_free @ set_free2)) \<subseteq> set (concat lines)"
      and p2: "set (concat lines2) \<subseteq> set (concat lines)"
      by blast+
    have "tips_from st (set (concat (set_free @ set_free2))) st1"
      by (rule add_points_tips [OF added])
    then have "tips_from st (set (concat (set_free @ set_free2))) st2"
      unfolding st2_def by (rule tips_from_add_roofs)
    from tips_from_trans [OF this ih p1 p2] sub p2 show ?thesis by blast
  qed
qed

lemma add_lines_tips:
  assumes "add_lines config blank base_circle force_tip_to_roof roof_tip_layers dtt_roof_tip
             insert_layer dont_move roof lines st = Inr st'"
  shows "tips_from st (set (concat lines)) st'"
  using assms
proof (induction lines arbitrary: st)
  case Nil
  then show ?case by (simp add: tips_from_refl)
next
  case (Cons line lines)
  from Cons.prems obtain st1 where
    first: "add_points config blank base_circle force_tip_to_roof 0 insert_layer dont_move roof
              (min_radius config < 3 * support_line_width config \<and> roof_tip_layers = 0 \<and>
               dtt_roof_tip = 0 \<and> length line > 5) line st = Inr st1"
    and rest: "add_lines config blank base_circle force_tip_to_roof roof_tip_layers dtt_roof_tip
              insert_layer dont_move roof lines st1 = Inr st'"
    by (auto split: sum.splits)
  show ?case
    by (rule tips_from_trans [OF add_points_tips [OF first] Cons.IH [OF rest]]) auto
qed

text \<open>
  Claim C7. Every element that the tip placer emits (\<^verbatim>\<open>addLinesAsInfluenceAreas\<close> is the
  only place where it does) comes from a sampled point \<open>p\<close> of the lines with its status:
  its distance to the top and its effective radius height are 0; it goes to the build plate
  exactly when the status is \<^verbatim>\<open>TO_BP\<close> or \<^verbatim>\<open>TO_BP_SAFE\<close>; it can use the safe radius
  exactly when the status is \<^verbatim>\<open>TO_BP_SAFE\<close> or \<^verbatim>\<open>TO_MODEL_GRACIOUS_SAFE\<close>; and it is
  gracious exactly when it goes to the build plate or the status is
  \<^verbatim>\<open>TO_MODEL_GRACIOUS\<close> or \<^verbatim>\<open>TO_MODEL_GRACIOUS_SAFE\<close>.
\<close>

theorem tips_placed_by_status:
  assumes "addLinesAsInfluenceAreas g volumes config blank base_circle roof_circle
             force_tip_to_roof lines roof_tip_layers insert_layer_idx roof_above dont_move st =
           Inr st'"
    and "e \<in> set (move_bounds st' layer)"
    and "e \<notin> set (move_bounds st layer)"
  shows "\<exists>p \<in> set (concat lines).
           target_position (SupportElement.state e) = fst p \<and>
           distance_to_top (SupportElement.state e) = 0 \<and>
           effective_radius_height (SupportElement.state e) = 0 \<and>
           (to_buildplate (SupportElement.state e) \<longleftrightarrow> snd p = TO_BP \<or> snd p = TO_BP_SAFE) \<and>
           (can_use_safe_radius (SupportElement.state e) \<longleftrightarrow>
              snd p = TO_BP_SAFE \<or> snd p = TO_MODEL_GRACIOUS_SAFE) \<and>
           (to_model_gracious (SupportElement.state e) \<longleftrightarrow>
              to_buildplate (SupportElement.state e) \<or> snd p = TO_MODEL_GRACIOUS \<or>
              snd p = TO_MODEL_GRACIOUS_SAFE)"
proof -
  from assms(1) obtain dtt lines1 st1 where loop:
    "roof_tip_loop g volumes config blank base_circle roof_circle force_tip_to_roof
       roof_tip_layers insert_layer_idx 0 lines st = Inr (dtt, lines1, st1)"
    and final: "add_lines config blank base_circle force_tip_to_roof roof_tip_layers dtt
       (insert_layer_idx - int dtt) (if dont_move > dtt then dont_move - dtt else 0)
       (dtt \<noteq> 0 \<or> roof_above) lines1 st1 = Inr st'"
    by (auto simp: addLinesAsInfluenceAreas_def checked_def split: sum.splits)
  from roof_tip_loop_tips [OF loop]
  have a: "tips_from st (set (concat lines)) st1"
    and sub: "set (concat lines1) \<subseteq> set (concat lines)" by simp_all
  have b: "tips_from st1 (set (concat lines1)) st'"
    by (rule add_lines_tips [OF final])
  from tips_from_trans [OF a b _ sub] have "tips_from st (set (concat lines)) st'" by simp
  with assms(2,3) obtain p where "p \<in> set (concat lines)" and "tip_of p e"
    unfolding tips_from_def by blast
  then show ?thesis unfolding tip_of_def Let_def by blast
qed

lemma example_tips_value:
  "example_tips =
     Inr (empty_storage \<lparr> already_inserted := (\<lambda>layer. [])(5 := [(0, 0)]),
                         move_bounds := (\<lambda>layer. [])(5 := [example_tip]) \<rparr>)"
  by (simp add: example_tips_def addLinesAsInfluenceAreas_def roof_tip_loop.simps checked_def
      validate_range_def hi_def word_sless_alt addPointAsInfluenceArea_def Let_def
      empty_storage_def example_config_def min_xy_dist_of_def coord_div_def translate_def
      square_def box_polygon_def example_tip_def blank_state_def)

theorem tips_placed_by_status_witness:
  "distance_to_top (SupportElement.state example_tip) = 0 \<and>
   effective_radius_height (SupportElement.state example_tip) = 0 \<and>
   to_buildplate (SupportElement.state example_tip) \<and>
   can_use_safe_radius (SupportElement.state example_tip) \<and>
   to_model_gracious (SupportElement.state example_tip)"
proof -
  have placed:
    "example_tip \<in> set (move_bounds
       (empty_storage \<lparr> already_inserted := (\<lambda>layer. [])(5 := [(0, 0)]),
                        move_bounds := (\<lambda>layer. [])(5 := [example_tip]) \<rparr>) 5)"
    by simp
  have new: "example_tip \<notin> set (move_bounds empty_storage 5)"
    by (simp add: empty_storage_def)
  show ?thesis
    using tips_placed_by_status [OF example_tips_value [unfolded example_tips_def] placed new]
    by simp
qed

text \<open>With a minimum radius below 9 the cell of the hash is 0 and the first tip traps.\<close>

lemma small_min_radius_traps:
  "addLinesAsInfluenceAreas box_clipper example_volumes (example_config \<lparr> min_radius := 8 \<rparr>)
     blank_state (square 0 0 10000) (square 0 0 400000) False [[((0, 0), TO_BP_SAFE)]] 0 5 False 0
     empty_storage = Inl division_by_zero"
  by (simp add: addLinesAsInfluenceAreas_def roof_tip_loop.simps checked_def
      validate_range_def hi_def word_sless_alt addPointAsInfluenceArea_def Let_def
      example_config_def coord_div_def)

lemma norm2d_scale: "0 \<le> c \<Longrightarrow> norm2d (scale2d v c) = norm2d v * c"
proof -
  assume c: "0 \<le> c"
  have "(fst v * c)\<^sup>2 + (snd v * c)\<^sup>2 = ((fst v)\<^sup>2 + (snd v)\<^sup>2) * c\<^sup>2"
    by (simp add: power_mult_distrib distrib_right)
  then show ?thesis
    using c by (simp add: norm2d_def scale2d_def real_sqrt_mult)
qed

lemma norm2d_normalized:
  "(fst v)\<^sup>2 + (snd v)\<^sup>2 > 0 \<Longrightarrow> norm2d (normalized v) = 1"
proof -
  assume pos: "(fst v)\<^sup>2 + (snd v)\<^sup>2 > 0"
  then have n: "norm2d v > 0"
    by (simp add: norm2d_def)
  have "(fst v / norm2d v)\<^sup>2 + (snd v / norm2d v)\<^sup>2 =
        ((fst v)\<^sup>2 + (snd v)\<^sup>2) / (norm2d v)\<^sup>2"
    by (simp add: power_divide add_divide_distrib)
  also have "\<dots> = 1"
  proof -
    have "(norm2d v)\<^sup>2 = (fst v)\<^sup>2 + (snd v)\<^sup>2"
      unfolding norm2d_def by (rule real_sqrt_pow2) simp
    then show ?thesis
      using pos by (metis divide_self less_irrefl)
  qed
  finally show ?thesis
    using pos by (simp add: normalized_def norm2d_def [of "(fst v / norm2d v, snd v / norm2d v)"])
qed

text \<open>
  The nudge multiplies the direction by \<^verbatim>\<open>nudge_dist\<close> when it builds \<^verbatim>\<open>nudge_vector\<close> and
  once more when it adds the vector to the position, so the centre moves by the square of
  \<^verbatim>\<open>nudge_dist\<close> (taken in millimetres).
\<close>

lemma nudge_length:
  assumes "\<not> locked sphere"
    and "s = collide_layers slicing_params cache
               (unat (layer_end sphere - layer_begin sphere)) (layer_begin sphere)
               (sphere \<lparr> last_collision_depth := - DBL_MAX \<rparr>)"
    and "last_collision_depth s > 0"
    and "to_2d (position s) \<noteq> to_2d (last_collision s)"
  shows "norm2d (sub2d (to_2d (position (nudge_from_collision slicing_params cache sphere)))
                   (to_2d (position s))) =
         (min (last_collision_depth s + collision_extra_gap) max_nudge_collision_avoidance)\<^sup>2"
proof -
  define v where "v = sub2d (to_2d (position s)) (to_2d (last_collision s))"
  define c where "c = min (max 0 (last_collision_depth s + collision_extra_gap))
                        max_nudge_collision_avoidance"
  have c: "c = min (last_collision_depth s + collision_extra_gap) max_nudge_collision_avoidance"
    and c0: "0 \<le> c"
    using assms(3) by (simp_all add: c_def collision_extra_gap_def max_nudge_collision_avoidance_def)
  have "fst v \<noteq> 0 \<or> snd v \<noteq> 0"
    using assms(4) by (auto simp add: v_def sub2d_def prod_eq_iff)
  then have pos: "(fst v)\<^sup>2 + (snd v)\<^sup>2 > 0"
    by (auto simp add: sum_power2_gt_zero_iff)
  have "position (nudge_from_collision slicing_params cache sphere) =
        to_3d (add2d (to_2d (position s)) (scale2d (scale2d (normalized v) c) c))
          (snd (snd (position s)))"
    using assms(1,3) unfolding assms(2) v_def c_def
    by (simp add: nudge_from_collision_def Let_def)
  then have "sub2d (to_2d (position (nudge_from_collision slicing_params cache sphere)))
               (to_2d (position s)) = scale2d (scale2d (normalized v) c) c"
    by (simp add: to_2d_def to_3d_def add2d_def sub2d_def)
  then show ?thesis
    using c0 pos by (simp add: norm2d_scale norm2d_normalized c power2_eq_square)
qed

text \<open>
  Claim C2: a sphere that is not locked and whose deepest penetration depth \<open>d\<close> is positive
  is said to be moved away from the deepest collision point by exactly
  \<open>min (d + 0.1 mm) (0.5 mm)\<close>. The sphere of the example penetrates the wall by 0.2 mm, so
  that distance is 0.3 mm and the centre would go from (1, 0) to (1.3, 0). The code moves it
  to (1.09, 0), by 0.09 mm, the square of 0.3.
\<close>

theorem nudge_moves_by_square:
  "position (nudge_from_collision example_slicing example_cache example_sphere) = (1.09, 0, 0.8) \<and>
   last_collision_depth (nudge_from_collision example_slicing example_cache example_sphere) = 0.2 \<and>
   min (0.2 + collision_extra_gap) max_nudge_collision_avoidance = 0.3"
proof -
  have "locked example_sphere = False"
    by (simp add: example_sphere_def)
  then show ?thesis
    unfolding nudge_from_collision_def Let_def example_collision
    by (simp add: example_sphere_def collision_extra_gap_def max_nudge_collision_avoidance_def
        normalized_def norm2d_def scale2d_def sub2d_def add2d_def to_2d_def to_3d_def)
qed

text \<open>
  The projection is computed in doubles: the quotient 1450 / 2500 is rounded down, its
  product with 50 stays below 29, and the cast truncates it to 28.
\<close>

lemma move_inside_rounds:
  "move_inside [[(0, 0), (50, 0), (50, 50), (0, 50)]] (29, - 1) = ((28, 0), Some 0)"
  by code_simp

lemma example_nodes_value:
  "map (map (\<lambda>e. (result_on_layer (SupportElement.state e), deleted (SupportElement.state e),
                     SupportElement.parents e))) example_nodes =
   [[(Some (350000, 0), False, [0, 1])],
    [(Some (100000, 0), False, []), (Some (600000, 0), False, [])]]"
  by code_simp

lemma example_child:
  "result_on_layer (SupportElement.state (example_nodes ! 0 ! 0)) = Some (350000, 0) \<and>
   effective_radius_height (SupportElement.state (example_nodes ! 0 ! 0)) = 1"
  by code_simp

lemma example_first_parent:
  "result_on_layer (SupportElement.state (example_nodes ! 1 ! 0)) = Some (100000, 0) \<and>
   effective_radius_height (SupportElement.state (example_nodes ! 1 ! 0)) = 1"
  by code_simp

lemma example_shift_squared:
  "squaredNorm (widened_diff (350000, 0) (100000, 0)) = 250000 * 250000"
  by code_simp

text \<open>
  Claim C1: after the node resolver, the centre of every surviving element with a position
  is said to be closer to the centre of each of its parents than the radius increase plus
  twice the slow move distance, which is what the function asserts of its result when it is
  compiled with assertions. In the example both branches survive and get their positions;
  the merged element is centred at (0.35 mm, 0) and its first parent at (0.1 mm, 0), which is
  0.25 mm away, while the radius increase is 0 and twice the slow move distance is 0.18 mm.
\<close>

theorem node_resolver_exceeds_slope_bound:
  "map (map (\<lambda>e. (result_on_layer (SupportElement.state e), deleted (SupportElement.state e),
                     SupportElement.parents e))) example_nodes =
   [[(Some (350000, 0), False, [0, 1])],
    [(Some (100000, 0), False, []), (Some (600000, 0), False, [])]] \<and>
   shift (example_nodes ! 0 ! 0) (example_nodes ! 1 ! 0) = Some 250000 \<and>
   radius_increase example_config (example_nodes ! 0 ! 0) (example_nodes ! 1 ! 0) +
     2 * real_of_int (maximum_move_distance_slow example_config) = 180000 \<and>
   \<not> slope_assertion example_config (example_nodes ! 0 ! 0) (example_nodes ! 1 ! 0)"
proof -
  have sh: "shift (example_nodes ! 0 ! 0) (example_nodes ! 1 ! 0) = Some 250000"
    unfolding shift_def using example_child example_first_parent
    by (simp add: example_shift_squared del: of_int_mult)
  have bound: "radius_increase example_config (example_nodes ! 0 ! 0) (example_nodes ! 1 ! 0) +
     2 * real_of_int (maximum_move_distance_slow example_config) = 180000"
    unfolding radius_increase_def using example_child example_first_parent
    by (simp add: example_config_def)
  have "\<not> slope_assertion example_config (example_nodes ! 0 ! 0) (example_nodes ! 1 ! 0)"
    unfolding slope_assertion_def sh using bound by simp
  then show ?thesis
    using example_nodes_value sh bound by simp
qed

text \<open>The sphere inside a tree is nudged to the same place.\<close>

lemma example_collision_in_tree:
  "collide_layers example_slicing example_cache_layer (unat (layer_end example_sphere_in_tree -
       layer_begin example_sphere_in_tree)) (layer_begin example_sphere_in_tree)
     (example_sphere_in_tree \<lparr> last_collision_depth := - DBL_MAX \<rparr>) =
   example_sphere_in_tree \<lparr> last_collision_depth := 0.2, last_collision := (0, 0, 0.8) \<rparr>"
proof -
  have n: "unat (layer_end example_sphere_in_tree - layer_begin example_sphere_in_tree) =
           Suc (Suc (Suc 0))"
    by (simp add: example_sphere_in_tree_def example_sphere_def)
  show ?thesis
    unfolding n
    by (simp add: example_sphere_in_tree_def example_sphere_def example_cache_layer_def
        example_cache_def example_slicing_def collide_layer_def
        to_2d_def to_3d_def layer_z_def DBL_MAX_def power2_eq_square sqrt_144)
qed

lemma nudge_in_tree:
  "position (nudge_from_collision example_slicing example_cache_layer example_sphere_in_tree) =
   (1.09, 0, 0.8)"
proof -
  have "locked example_sphere_in_tree = False"
    by (simp add: example_sphere_in_tree_def example_sphere_def)
  then show ?thesis
    unfolding nudge_from_collision_def Let_def example_collision_in_tree
    by (simp add: example_sphere_in_tree_def example_sphere_def collision_extra_gap_def
        max_nudge_collision_avoidance_def normalized_def norm2d_def scale2d_def sub2d_def
        add2d_def to_2d_def to_3d_def)
qed

text \<open>Below tips that have their positions the shift is 0.35 mm.\<close>

lemma node_resolver_below_tips:
  "map (map (\<lambda>e. (result_on_layer (SupportElement.state e), deleted (SupportElement.state e),
                     SupportElement.parents e)))
     (create_nodes_from_area box_clipper example_volumes example_config example_tip_bounds) =
   [[(Some (350000, 0), False, [0, 1])],
    [(Some (0, 0), False, []), (Some (700000, 0), False, [])]]"
  by code_simp

end
